theory Spec2Isabelle
  imports Complex_Main "HOL-Library.Word"
begin

section \<open>The C++ type double\<close>

text \<open>
  The sources compute on \<^verbatim>\<open>double\<close> and rely on the IEEE-754 special values: the
  heat-exchanger routine tests \<^verbatim>\<open>UA != UA\<close>, the design solver starts its brackets at
  \<^verbatim>\<open>quiet_NaN()\<close> and tests \<^verbatim>\<open>secant_guess != secant_guess\<close>. A double is modelled as
  a finite real, one of the two infinities, or NaN. Finite arithmetic is exact (rounding,
  overflow and underflow are not modelled) and zero is unsigned, taken as \<open>+0\<close> where a
  division by it chooses the sign of the infinity. Comparisons follow IEEE-754: every
  ordered comparison with NaN is false, and \<^verbatim>\<open>!=\<close> with NaN is true.
\<close>

datatype dbl = Fin real | PInf | NInf | NaN

fun dadd :: "dbl \<Rightarrow> dbl \<Rightarrow> dbl" where
  "dadd NaN _ = NaN"
| "dadd _ NaN = NaN"
| "dadd PInf NInf = NaN"
| "dadd NInf PInf = NaN"
| "dadd PInf _ = PInf"
| "dadd _ PInf = PInf"
| "dadd NInf _ = NInf"
| "dadd _ NInf = NInf"
| "dadd (Fin x) (Fin y) = Fin (x + y)"

fun dneg :: "dbl \<Rightarrow> dbl" where
  "dneg (Fin x) = Fin (- x)"
| "dneg PInf = NInf"
| "dneg NInf = PInf"
| "dneg NaN = NaN"

text \<open>The sign of a double that is not NaN: \<open>-1\<close>, \<open>0\<close> or \<open>1\<close>.\<close>

fun dsgn :: "dbl \<Rightarrow> int" where
  "dsgn (Fin x) = (if x < 0 then - 1 else if x = 0 then 0 else 1)"
| "dsgn PInf = 1"
| "dsgn NInf = - 1"
| "dsgn NaN = 0"

definition inf_of_sign :: "int \<Rightarrow> dbl" where
  "inf_of_sign s = (if s < 0 then NInf else if s = 0 then NaN else PInf)"

fun dmul :: "dbl \<Rightarrow> dbl \<Rightarrow> dbl" where
  "dmul NaN _ = NaN"
| "dmul _ NaN = NaN"
| "dmul (Fin x) (Fin y) = Fin (x * y)"
| "dmul a b = inf_of_sign (dsgn a * dsgn b)"

fun ddiv :: "dbl \<Rightarrow> dbl \<Rightarrow> dbl" where
  "ddiv NaN _ = NaN"
| "ddiv _ NaN = NaN"
| "ddiv (Fin x) (Fin y) = (if y = 0 then inf_of_sign (dsgn (Fin x)) else Fin (x / y))"
| "ddiv (Fin x) _ = Fin 0"
| "ddiv a (Fin y) = inf_of_sign (dsgn a * (if y < 0 then - 1 else 1))"
| "ddiv _ _ = NaN"

fun dless :: "dbl \<Rightarrow> dbl \<Rightarrow> bool" where
  "dless NaN _ = False"
| "dless _ NaN = False"
| "dless (Fin x) (Fin y) = (x < y)"
| "dless NInf b = (b \<noteq> NInf)"
| "dless a PInf = (a \<noteq> PInf)"
| "dless _ _ = False"

fun dless_eq :: "dbl \<Rightarrow> dbl \<Rightarrow> bool" where
  "dless_eq NaN _ = False"
| "dless_eq _ NaN = False"
| "dless_eq (Fin x) (Fin y) = (x \<le> y)"
| "dless_eq NInf _ = True"
| "dless_eq _ PInf = True"
| "dless_eq _ _ = False"

fun dabs :: "dbl \<Rightarrow> dbl" where
  "dabs (Fin x) = Fin \<bar>x\<bar>"
| "dabs PInf = PInf"
| "dabs NInf = PInf"
| "dabs NaN = NaN"

instantiation dbl :: "{zero, one, plus, minus, uminus, times, inverse, abs, ord}"
begin

definition zero_dbl :: dbl where "zero_dbl = Fin 0"
definition one_dbl :: dbl where "one_dbl = Fin 1"
definition plus_dbl :: "dbl \<Rightarrow> dbl \<Rightarrow> dbl" where "plus_dbl = dadd"
definition uminus_dbl :: "dbl \<Rightarrow> dbl" where "uminus_dbl = dneg"
definition minus_dbl :: "dbl \<Rightarrow> dbl \<Rightarrow> dbl" where "minus_dbl a b = dadd a (dneg b)"
definition times_dbl :: "dbl \<Rightarrow> dbl \<Rightarrow> dbl" where "times_dbl = dmul"
definition divide_dbl :: "dbl \<Rightarrow> dbl \<Rightarrow> dbl" where "divide_dbl = ddiv"
definition inverse_dbl :: "dbl \<Rightarrow> dbl" where "inverse_dbl a = ddiv (Fin 1) a"
definition abs_dbl :: "dbl \<Rightarrow> dbl" where "abs_dbl = dabs"
definition less_dbl :: "dbl \<Rightarrow> dbl \<Rightarrow> bool" where "less_dbl = dless"
definition less_eq_dbl :: "dbl \<Rightarrow> dbl \<Rightarrow> bool" where "less_eq_dbl = dless_eq"

instance ..

end

text \<open>The operator \<^verbatim>\<open>a != b\<close> on doubles: true as soon as one side is NaN.\<close>

definition dne :: "dbl \<Rightarrow> dbl \<Rightarrow> bool" where
  "dne a b = (a = NaN \<or> b = NaN \<or> a \<noteq> b)"

text \<open>The conversion \<^verbatim>\<open>(double)i\<close> of an integer.\<close>

definition of_i :: "int \<Rightarrow> dbl" where
  "of_i i = Fin (of_int i)"

text \<open>\<^verbatim>\<open>std::min\<close>, \<^verbatim>\<open>std::max\<close> (which return their first argument unless the comparison
  holds) and C's \<^verbatim>\<open>fmin\<close> (which returns the other argument when one is NaN).\<close>

definition std_min :: "dbl \<Rightarrow> dbl \<Rightarrow> dbl" where
  "std_min a b = (if b < a then b else a)"

definition std_max :: "dbl \<Rightarrow> dbl \<Rightarrow> dbl" where
  "std_max a b = (if a < b then b else a)"

definition fmin_d :: "dbl \<Rightarrow> dbl \<Rightarrow> dbl" where
  "fmin_d a b = (if a = NaN then b else if b = NaN then a else if b < a then b else a)"

text \<open>\<^verbatim>\<open>log\<close> of \<^verbatim>\<open><math.h>\<close>: \<open>-inf\<close> at zero, NaN below it.\<close>

fun dlog :: "dbl \<Rightarrow> dbl" where
  "dlog (Fin x) = (if x < 0 then NaN else if x = 0 then NInf else Fin (ln x))"
| "dlog PInf = PInf"
| "dlog NInf = NaN"
| "dlog NaN = NaN"

section \<open>Statements and loops\<close>

text \<open>
  What a statement inside a loop body does to the control flow: go on with the next
  statement (\<open>Next\<close>), skip to the next iteration (\<^verbatim>\<open>continue\<close>), leave the loop
  (\<^verbatim>\<open>break\<close>), or leave the function (\<^verbatim>\<open>return\<close>, with the function's result).
\<close>

datatype ('s, 'r) ctl = Next 's | Continue 's | Break 's | Return 'r

text \<open>The sequence \<^verbatim>\<open>c; f\<close> of two statements: \<open>f\<close> runs when \<open>c\<close> has gone on.\<close>

definition then_do :: "('s, 'r) ctl \<Rightarrow> ('s \<Rightarrow> ('s, 'r) ctl) \<Rightarrow> ('s, 'r) ctl" where
  "then_do c f = (case c of Next s \<Rightarrow> f s | Continue s \<Rightarrow> Continue s | Break s \<Rightarrow> Break s
                  | Return r \<Rightarrow> Return r)"

text \<open>
  How a loop ends: it is exited, by \<^verbatim>\<open>break\<close> or because its condition fails, with the
  counter at some value, and the code after the loop runs; or its body has returned from
  the function.
\<close>

datatype ('s, 'r) loop_exit = Exited int 's | Returned 'r

text \<open>
  The loop \<^verbatim>\<open>for( i = i0; i < n; i++ ) body\<close> with the counter at \<open>i\<close>. A body that ends or
  executes \<^verbatim>\<open>continue\<close> is followed by the increment and the next test. The result holds,
  beside the way the loop ends, the number of times the body has run.
\<close>

function for_loop ::
  "int \<Rightarrow> (int \<Rightarrow> 's \<Rightarrow> ('s, 'r) ctl) \<Rightarrow> int \<Rightarrow> 's \<Rightarrow> nat \<times> ('s, 'r) loop_exit" where
  "for_loop n body i s =
     (if i < n then
        (case body i s of
           Next s' \<Rightarrow> (case for_loop n body (i + 1) s' of (k, x) \<Rightarrow> (Suc k, x))
         | Continue s' \<Rightarrow> (case for_loop n body (i + 1) s' of (k, x) \<Rightarrow> (Suc k, x))
         | Break s' \<Rightarrow> (1, Exited i s')
         | Return r \<Rightarrow> (1, Returned r))
      else (0, Exited i s))"
  by pat_completeness auto
termination
  by (relation "measure (\<lambda>(n, body, i, s). nat (n - i))") auto

declare for_loop.simps [simp del]

text \<open>
  The head of the loop after \<open>k\<close> further passes through the body: the counter and the state
  with which the condition is tested for the \<open>k + 1\<close>-th time, if the loop gets there.
\<close>

fun loop_head ::
  "int \<Rightarrow> (int \<Rightarrow> 's \<Rightarrow> ('s, 'r) ctl) \<Rightarrow> int \<Rightarrow> 's \<Rightarrow> nat \<Rightarrow> (int \<times> 's) option" where
  "loop_head n body i s 0 = Some (i, s)"
| "loop_head n body i s (Suc k) =
     (if i < n then
        (case body i s of
           Next s' \<Rightarrow> loop_head n body (i + 1) s' k
         | Continue s' \<Rightarrow> loop_head n body (i + 1) s' k
         | Break s' \<Rightarrow> None
         | Return r \<Rightarrow> None)
      else None)"

section \<open>The fluid property oracle\<close>

text \<open>
  The CO2 property routines \<^verbatim>\<open>CO2_TP\<close>, \<^verbatim>\<open>CO2_PS\<close> and \<^verbatim>\<open>CO2_PH\<close> are external: each takes
  two state variables, fills a \<^verbatim>\<open>CO2_state\<close> and returns an integer that is zero on success.
  They are a parameter of every function below. Each call is also appended, with the code it
  returned, to a trace, so that a statement can say which calls a run has made.
\<close>

record CO2_state =
  temp :: dbl
  pres :: dbl
  dens :: dbl
  enth :: dbl
  entr :: dbl
  ssnd :: dbl

record co2_oracle =
  CO2_TP :: "dbl \<Rightarrow> dbl \<Rightarrow> int \<times> CO2_state"
  CO2_PS :: "dbl \<Rightarrow> dbl \<Rightarrow> int \<times> CO2_state"
  CO2_PH :: "dbl \<Rightarrow> dbl \<Rightarrow> int \<times> CO2_state"

datatype oracle_call = TP dbl dbl int | PS dbl dbl int | PH dbl dbl int

fun returned_code :: "oracle_call \<Rightarrow> int" where
  "returned_code (TP _ _ c) = c"
| "returned_code (PS _ _ c) = c"
| "returned_code (PH _ _ c) = c"

definition call_TP ::
  "co2_oracle \<Rightarrow> dbl \<Rightarrow> dbl \<Rightarrow> oracle_call list \<Rightarrow> int \<times> CO2_state \<times> oracle_call list" where
  "call_TP orc T P tr = (case CO2_TP orc T P of (c, st) \<Rightarrow> (c, st, tr @ [TP T P c]))"

definition call_PS ::
  "co2_oracle \<Rightarrow> dbl \<Rightarrow> dbl \<Rightarrow> oracle_call list \<Rightarrow> int \<times> CO2_state \<times> oracle_call list" where
  "call_PS orc P S tr = (case CO2_PS orc P S of (c, st) \<Rightarrow> (c, st, tr @ [PS P S c]))"

definition call_PH ::
  "co2_oracle \<Rightarrow> dbl \<Rightarrow> dbl \<Rightarrow> oracle_call list \<Rightarrow> int \<times> CO2_state \<times> oracle_call list" where
  "call_PH orc P H tr = (case CO2_PH orc P H of (c, st) \<Rightarrow> (c, st, tr @ [PH P H c]))"

section \<open>Turbomachinery outlet state\<close>

text \<open>
  \<^verbatim>\<open>calculate_turbomachinery_outlet_1\<close> (sco2_pc_core.cpp, lines 31-86). The reference
  parameters of the C++ function are the fields of \<open>turbo_out\<close>: the function receives
  the caller's values and returns them updated, so a field the code does not assign on some
  path keeps the caller's value.
\<close>

record turbo_out =
  tm_error_code :: int
  tm_enth_in :: dbl
  tm_entr_in :: dbl
  tm_dens_in :: dbl
  tm_temp_out :: dbl
  tm_enth_out :: dbl
  tm_entr_out :: dbl
  tm_dens_out :: dbl
  tm_spec_work :: dbl

definition calculate_turbomachinery_outlet_1 ::
  "co2_oracle \<Rightarrow> dbl \<Rightarrow> dbl \<Rightarrow> dbl \<Rightarrow> dbl \<Rightarrow> bool \<Rightarrow> turbo_out \<times> oracle_call list
     \<Rightarrow> turbo_out \<times> oracle_call list" where
  "calculate_turbomachinery_outlet_1 orc T_in P_in P_out eta is_comp = (\<lambda>(r0, tr0).
     let r = r0\<lparr>tm_error_code := 0\<rparr>;
         (prop_error_code, co2_props, tr) = call_TP orc T_in P_in tr0
     in if prop_error_code \<noteq> 0 then (r\<lparr>tm_error_code := prop_error_code\<rparr>, tr)
     else
       let h_in = enth co2_props;
           s_in = entr co2_props;
           r = r\<lparr>tm_dens_in := dens co2_props\<rparr>;
           (prop_error_code, co2_props, tr) = call_PS orc P_out s_in tr
       in if prop_error_code \<noteq> 0 then (r\<lparr>tm_error_code := prop_error_code\<rparr>, tr)
       else
         let h_s_out = enth co2_props;
             w_s = h_in - h_s_out;
             w = (if is_comp then w_s / eta else w_s * eta);
             h_out = h_in - w;
             (prop_error_code, co2_props, tr) = call_PH orc P_out h_out tr
         in if prop_error_code \<noteq> 0 then (r\<lparr>tm_error_code := prop_error_code\<rparr>, tr)
         else
           (r\<lparr>tm_enth_in := h_in, tm_entr_in := s_in, tm_temp_out := temp co2_props,
              tm_enth_out := h_out, tm_entr_out := entr co2_props,
              tm_dens_out := dens co2_props, tm_spec_work := w\<rparr>, tr))"

section \<open>Heat exchanger conductance from duty\<close>

text \<open>
  \<^verbatim>\<open>calculate_hxr_UA_1\<close> (sco2_pc_core.cpp, lines 88-219). \<open>hxr_args\<close> holds the value
  parameters, \<open>hxr_out\<close> the three reference parameters. \<^verbatim>\<open>N_hxrs\<close> is a C \<^verbatim>\<open>int\<close>; it is
  an unbounded integer here (the code adds one to it once).
\<close>

record hxr_args =
  N_hxrs :: int
  Q_dot :: dbl
  m_dot_c :: dbl
  m_dot_h :: dbl
  T_c_in :: dbl
  T_h_in :: dbl
  P_c_in :: dbl
  P_c_out :: dbl
  P_h_in :: dbl
  P_h_out :: dbl

record hxr_out =
  hx_error_code :: int
  UA :: dbl
  min_DT :: dbl

text \<open>The enthalpies fixed before the loop over the nodes.\<close>

record hxr_enth =
  h_c_in :: dbl
  h_c_out :: dbl
  h_h_in :: dbl
  h_h_out :: dbl

text \<open>The values one node hands to the next: \<^verbatim>\<open>h_h_prev\<close>, \<^verbatim>\<open>T_h_prev\<close>, \<^verbatim>\<open>h_c_prev\<close>,
  \<^verbatim>\<open>T_c_prev\<close>.\<close>

record hxr_prev =
  h_h_prev :: dbl
  T_h_prev :: dbl
  h_c_prev :: dbl
  T_c_prev :: dbl

text \<open>The effectiveness-NTU step of a node \<open>i > 0\<close> (lines 192-203): the conductance it
  adds to \<^verbatim>\<open>UA\<close>.\<close>

definition hxr_section_UA ::
  "hxr_args \<Rightarrow> hxr_prev \<Rightarrow> dbl \<Rightarrow> dbl \<Rightarrow> dbl \<Rightarrow> dbl \<Rightarrow> dbl" where
  "hxr_section_UA a p h_h T_h h_c T_c =
     (let C_dot_h = m_dot_h a * (h_h_prev p - h_h) / (T_h_prev p - T_h);
          C_dot_c = m_dot_c a * (h_c_prev p - h_c) / (T_c_prev p - T_c);
          C_dot_min = std_min C_dot_h C_dot_c;
          C_dot_max = std_max C_dot_h C_dot_c;
          C_R = C_dot_min / C_dot_max;
          eff = (Q_dot a / of_i (N_hxrs a)) / (C_dot_min * (T_h_prev p - T_c));
          NTU = (if dne C_R 1 then dlog ((1 - eff * C_R) / (1 - eff)) / (1 - C_R)
                 else eff / (1 - eff))
      in NTU * C_dot_min)"

text \<open>The body of the loop over the nodes (lines 154-208), at node \<open>i\<close>.\<close>

definition hxr_node ::
  "co2_oracle \<Rightarrow> hxr_args \<Rightarrow> hxr_enth \<Rightarrow> int \<Rightarrow> int \<Rightarrow> hxr_prev \<times> hxr_out \<times> oracle_call list
     \<Rightarrow> (hxr_prev \<times> hxr_out \<times> oracle_call list, hxr_out \<times> oracle_call list) ctl" where
  "hxr_node orc a e N_nodes i = (\<lambda>(p, r, tr).
     let P_c = P_c_out a + of_i i * (P_c_in a - P_c_out a) / of_i (N_nodes - 1);
         P_h = P_h_in a - of_i i * (P_h_in a - P_h_out a) / of_i (N_nodes - 1);
         h_c = h_c_out e + of_i i * (h_c_in e - h_c_out e) / of_i (N_nodes - 1);
         h_h = h_h_in e - of_i i * (h_h_in e - h_h_out e) / of_i (N_nodes - 1);
         (code_h, props_h, tr_h) = call_PH orc P_h h_h tr
     in if code_h \<noteq> 0 then Return (r\<lparr>hx_error_code := 12\<rparr>, tr_h)
     else
       let T_h = temp props_h;
           (code_c, props_c, tr_c) = call_PH orc P_c h_c tr_h
       in if code_c \<noteq> 0 then Return (r\<lparr>hx_error_code := 13\<rparr>, tr_c)
       else
         let T_c = temp props_c
         in if T_c \<ge> T_h then Return (r\<lparr>hx_error_code := 11\<rparr>, tr_c)
         else
           let r1 = r\<lparr>min_DT := fmin_d (min_DT r) (T_h - T_c)\<rparr>;
               r2 = (if i > 0 then r1\<lparr>UA := UA r1 + hxr_section_UA a p h_h T_h h_c T_c\<rparr>
                     else r1)
           in Next
                (\<lparr>h_h_prev = h_h, T_h_prev = T_h, h_c_prev = h_c, T_c_prev = T_c\<rparr>, r2, tr_c))"

text \<open>The loop \<^verbatim>\<open>for( int i = 0; i < N_nodes; i++ )\<close> (line 152).\<close>

definition hxr_loop ::
  "co2_oracle \<Rightarrow> hxr_args \<Rightarrow> hxr_enth \<Rightarrow> int \<Rightarrow> hxr_prev \<times> hxr_out \<times> oracle_call list
     \<Rightarrow> nat \<times> (hxr_prev \<times> hxr_out \<times> oracle_call list, hxr_out \<times> oracle_call list) loop_exit" where
  "hxr_loop orc a e N_nodes s = for_loop N_nodes (hxr_node orc a e N_nodes) 0 s"

definition calculate_hxr_UA_1 ::
  "co2_oracle \<Rightarrow> hxr_args \<Rightarrow> hxr_out \<times> oracle_call list \<Rightarrow> hxr_out \<times> oracle_call list" where
  "calculate_hxr_UA_1 orc a = (\<lambda>(r, tr).
     if Q_dot a < 0 then (r\<lparr>hx_error_code := 4\<rparr>, tr)
     else if T_h_in a < T_c_in a then (r\<lparr>hx_error_code := 5\<rparr>, tr)
     else if P_h_in a < P_h_out a then (r\<lparr>hx_error_code := 6\<rparr>, tr)
     else if P_c_in a < P_c_out a then (r\<lparr>hx_error_code := 7\<rparr>, tr)
     else if Q_dot a \<le> Fin (1 / 10 ^ 14) then
       (r\<lparr>UA := 0, min_DT := T_h_in a - T_c_in a\<rparr>, tr)
     else
       let (code_c, props_c, tr_c) = call_TP orc (T_c_in a) (P_c_in a) tr
       in if code_c \<noteq> 0 then (r\<lparr>hx_error_code := code_c\<rparr>, tr_c)
       else
         let h_c_in = enth props_c;
             (code_h, props_h, tr_h) = call_TP orc (T_h_in a) (P_h_in a) tr_c
         in if code_h \<noteq> 0 then (r\<lparr>hx_error_code := 9\<rparr>, tr_h)
         else
           let h_h_in = enth props_h;
               h_c_out = h_c_in + Q_dot a / m_dot_c a;
               h_h_out = h_h_in - Q_dot a / m_dot_h a;
               N_nodes = N_hxrs a + 1;
               e = \<lparr>h_c_in = h_c_in, h_c_out = h_c_out, h_h_in = h_h_in, h_h_out = h_h_out\<rparr>;
               p = \<lparr>h_h_prev = 0, T_h_prev = 0, h_c_prev = 0, T_c_prev = 0\<rparr>
           in case hxr_loop orc a e N_nodes (p, r\<lparr>UA := 0, min_DT := T_h_in a\<rparr>, tr_h) of
                (k, Returned x) \<Rightarrow> x
              | (k, Exited i (p1, r1, tr1)) \<Rightarrow>
                  if dne (UA r1) (UA r1) then (r1\<lparr>hx_error_code := 14\<rparr>, tr1) else (r1, tr1))"

section \<open>Polytropic to isentropic efficiency\<close>

text \<open>
  \<^verbatim>\<open>isen_eta_from_poly_eta\<close> (sco2_pc_core.cpp, lines 221-313). The two reference parameters
  \<^verbatim>\<open>error_code\<close> and \<^verbatim>\<open>isen_eta\<close> come in with the caller's values, beside the log of oracle
  calls; the function does not reset \<^verbatim>\<open>error_code\<close>.
\<close>

record stage =
  stage_P_in :: dbl
  stage_h_in :: dbl
  stage_s_in :: dbl
  stage_P_out :: dbl
  stage_h_out :: dbl

text \<open>The body of the loop over the 200 stages (lines 276-306).\<close>

definition isen_stage ::
  "co2_oracle \<Rightarrow> dbl \<Rightarrow> dbl \<Rightarrow> bool \<Rightarrow> int \<Rightarrow> stage \<times> oracle_call list
     \<Rightarrow> (stage \<times> oracle_call list, int \<times> oracle_call list) ctl" where
  "isen_stage orc stage_DP poly_eta is_comp i = (\<lambda>(st0, tr0).
     let st = st0\<lparr>stage_P_out := stage_P_in st0 + stage_DP\<rparr>;
         (prop_error_code, co2_props, tr) = call_PS orc (stage_P_out st) (stage_s_in st) tr0
     in if prop_error_code \<noteq> 0 then Return (prop_error_code, tr)
     else
       let stage_h_s_out = enth co2_props;
           w_s = stage_h_in st - stage_h_s_out;
           w = (if is_comp then w_s / poly_eta else w_s * poly_eta);
           st = st\<lparr>stage_h_out := stage_h_in st - w\<rparr>;
           st = st\<lparr>stage_P_in := stage_P_out st, stage_h_in := stage_h_out st\<rparr>;
           (prop_error_code, co2_props, tr) = call_PH orc (stage_P_in st) (stage_h_in st) tr
       in if prop_error_code \<noteq> 0 then Return (prop_error_code, tr)
          else Next (st\<lparr>stage_s_in := entr co2_props\<rparr>, tr))"

definition isen_eta_from_poly_eta ::
  "co2_oracle \<Rightarrow> dbl \<Rightarrow> dbl \<Rightarrow> dbl \<Rightarrow> dbl \<Rightarrow> bool \<Rightarrow> int \<times> dbl \<times> oracle_call list
     \<Rightarrow> int \<times> dbl \<times> oracle_call list" where
  "isen_eta_from_poly_eta orc T_in P_in P_out poly_eta is_comp = (\<lambda>(error_code, isen_eta, tr0).
     let (prop_error_code, co2_props, tr) = call_TP orc T_in P_in tr0
     in if prop_error_code \<noteq> 0 then (prop_error_code, isen_eta, tr)
     else
       let h_in = enth co2_props;
           s_in = entr co2_props;
           (prop_error_code, co2_props, tr) = call_PS orc P_out s_in tr
       in if prop_error_code \<noteq> 0 then (prop_error_code, isen_eta, tr)
       else
         let h_s_out = enth co2_props;
             N_stages = 200;
             stage_DP = (P_out - P_in) / of_i N_stages;
             st = \<lparr>stage_P_in = P_in, stage_h_in = h_in, stage_s_in = s_in,
                   stage_P_out = Fin (- 999.9), stage_h_out = Fin (- 999.9)\<rparr>
         in case for_loop (N_stages + 1) (isen_stage orc stage_DP poly_eta is_comp) 1 (st, tr) of
              (k, Returned (code, tr')) \<Rightarrow> (code, isen_eta, tr')
            | (k, Exited i (st', tr')) \<Rightarrow>
                (error_code,
                 if is_comp then (h_s_out - h_in) / (stage_h_out st' - h_in)
                 else (stage_h_out st' - h_in) / (h_s_out - h_in),
                 tr'))"

section \<open>The recompression cycle and its design parameters\<close>

text \<open>
  The header that declares the classes is not among the sources; the records hold the
  members the functions below use, under the names they use. The vectors \<^verbatim>\<open>m_DP_LT\<close>,
  \<^verbatim>\<open>m_DP_HT\<close>, \<^verbatim>\<open>m_DP_PC\<close>, \<^verbatim>\<open>m_DP_PHX\<close>, \<^verbatim>\<open>m_m_dot_design\<close> and \<^verbatim>\<open>m_DP_design\<close> have two
  elements and the five state vectors ten; the code reads and writes them at constant
  indices only.
\<close>

record S_design_parameters =
  m_W_dot_net :: dbl
  m_T_mc_in :: dbl
  m_T_t_in :: dbl
  m_P_mc_in :: dbl
  m_P_mc_out :: dbl
  m_DP_LT :: "dbl list"
  m_DP_HT :: "dbl list"
  m_DP_PC :: "dbl list"
  m_DP_PHX :: "dbl list"
  m_UA_LT :: dbl
  m_UA_HT :: dbl
  m_recomp_frac :: dbl
  m_eta_mc :: dbl
  m_eta_rc :: dbl
  m_eta_t :: dbl
  m_N_sub_hxrs :: int
  m_P_high_limit :: dbl
  m_tol :: dbl
  m_N_turbine :: dbl

text \<open>\<^verbatim>\<open>C_HeatExchanger::S_design_parameters\<close>, the only member of a \<^verbatim>\<open>C_HeatExchanger\<close> that
  \<^verbatim>\<open>initialize\<close> (lines 315-319) assigns.\<close>

record HX_design_parameters =
  m_N_sub :: int
  m_m_dot_design :: "dbl list"
  m_DP_design :: "dbl list"
  m_UA_design :: dbl
  m_Q_dot_design :: dbl
  m_min_DT_design :: dbl
  m_eff_design :: dbl

text \<open>\<^verbatim>\<open>S_opt_design_parameters\<close>: the members \<^verbatim>\<open>design_point_eta\<close> reads. Its
  \<^verbatim>\<open>m_P_high_limit\<close> is \<open>opt_P_high_limit\<close> here, the name being taken.\<close>

record S_opt_design_parameters =
  opt_P_high_limit :: dbl
  m_UA_rec_total :: dbl
  m_P_mc_out_guess :: dbl
  m_fixed_P_mc_out :: bool
  m_PR_mc_guess :: dbl
  m_fixed_PR_mc :: bool
  m_recomp_frac_guess :: dbl
  m_fixed_recomp_frac :: bool
  m_LT_frac_guess :: dbl
  m_fixed_LT_frac :: bool

record cycle =
  ms_des_par :: S_design_parameters
  ms_opt_des_par :: S_opt_design_parameters
  ms_des_par_optimal :: S_design_parameters
  m_eta_thermal_opt :: dbl
  m_temp_last :: "dbl list"
  m_pres_last :: "dbl list"
  m_enth_last :: "dbl list"
  m_entr_last :: "dbl list"
  m_dens_last :: "dbl list"
  m_LT :: HX_design_parameters
  m_HT :: HX_design_parameters
  m_PHX :: HX_design_parameters
  m_PC :: HX_design_parameters
  m_W_dot_net_last :: dbl
  m_eta_thermal_last :: dbl
  m_m_dot_mc :: dbl
  m_m_dot_rc :: dbl
  m_m_dot_t :: dbl

section \<open>The design-point solver\<close>

text \<open>
  \<^verbatim>\<open>C_RecompCycle::design_core_standard\<close> (sco2_pc_core.cpp, lines 2627-3171). Its state
  \<open>dcs\<close> is the cycle object, the reference parameter \<^verbatim>\<open>error_code\<close>, the log of oracle
  calls and the local variables that live across statements.
\<close>

record dcs = cycle +
  error_code :: int
  calls :: "oracle_call list"
  m_dot_t :: dbl
  m_dot_mc :: dbl
  m_dot_rc :: dbl
  Q_dot_LT :: dbl
  Q_dot_HT :: dbl
  UA_LT_calc :: dbl
  UA_HT_calc :: dbl
  eta_mc_isen :: dbl
  eta_t_isen :: dbl
  eta_rc_isen :: dbl
  w_mc :: dbl
  w_t :: dbl
  w_rc :: dbl
  T8_lower_bound :: dbl
  T8_upper_bound :: dbl
  last_HT_residual :: dbl
  last_T8_guess :: dbl
  T9_lower_bound :: dbl
  T9_upper_bound :: dbl
  last_LT_residual :: dbl
  last_T9_guess :: dbl
  min_DT_LT :: dbl
  min_DT_HT :: dbl

abbreviation cpp_offset :: nat where
  "cpp_offset \<equiv> 1"

abbreviation max_iter :: int where
  "max_iter \<equiv> 500"

abbreviation temperature_tolerance :: dbl where
  "temperature_tolerance \<equiv> Fin (1 / 10 ^ 6)"

text \<open>The element \<^verbatim>\<open>m_temp_last[k - cpp_offset]\<close> of a state vector, read and assigned; the
  same for the pressures, enthalpies, entropies and densities.\<close>

definition temp_last :: "dcs \<Rightarrow> nat \<Rightarrow> dbl" where
  "temp_last s k = m_temp_last s ! (k - cpp_offset)"

definition pres_last :: "dcs \<Rightarrow> nat \<Rightarrow> dbl" where
  "pres_last s k = m_pres_last s ! (k - cpp_offset)"

definition enth_last :: "dcs \<Rightarrow> nat \<Rightarrow> dbl" where
  "enth_last s k = m_enth_last s ! (k - cpp_offset)"

definition entr_last :: "dcs \<Rightarrow> nat \<Rightarrow> dbl" where
  "entr_last s k = m_entr_last s ! (k - cpp_offset)"

definition dens_last :: "dcs \<Rightarrow> nat \<Rightarrow> dbl" where
  "dens_last s k = m_dens_last s ! (k - cpp_offset)"

definition set_temp_last :: "nat \<Rightarrow> dbl \<Rightarrow> dcs \<Rightarrow> dcs" where
  "set_temp_last k v s = s\<lparr>m_temp_last := (m_temp_last s)[k - cpp_offset := v]\<rparr>"

definition set_pres_last :: "nat \<Rightarrow> dbl \<Rightarrow> dcs \<Rightarrow> dcs" where
  "set_pres_last k v s = s\<lparr>m_pres_last := (m_pres_last s)[k - cpp_offset := v]\<rparr>"

definition set_enth_last :: "nat \<Rightarrow> dbl \<Rightarrow> dcs \<Rightarrow> dcs" where
  "set_enth_last k v s = s\<lparr>m_enth_last := (m_enth_last s)[k - cpp_offset := v]\<rparr>"

definition set_entr_last :: "nat \<Rightarrow> dbl \<Rightarrow> dcs \<Rightarrow> dcs" where
  "set_entr_last k v s = s\<lparr>m_entr_last := (m_entr_last s)[k - cpp_offset := v]\<rparr>"

definition set_dens_last :: "nat \<Rightarrow> dbl \<Rightarrow> dcs \<Rightarrow> dcs" where
  "set_dens_last k v s = s\<lparr>m_dens_last := (m_dens_last s)[k - cpp_offset := v]\<rparr>"

text \<open>A \<^verbatim>\<open>return\<close> that follows \<^verbatim>\<open>error_code = c\<close>.\<close>

definition fail :: "int \<Rightarrow> dcs \<Rightarrow> (dcs, dcs) ctl" where
  "fail c s = Return (s\<lparr>error_code := c\<rparr>)"

text \<open>The state \<^verbatim>\<open>co2_props\<close> stored as state \<open>k\<close> of the cycle: enthalpy, entropy and
  density (as at lines 2833-2835).\<close>

definition store_props :: "nat \<Rightarrow> CO2_state \<Rightarrow> dcs \<Rightarrow> dcs" where
  "store_props k co2_props s =
     set_dens_last k (dens co2_props)
       (set_entr_last k (entr co2_props) (set_enth_last k (enth co2_props) s))"

text \<open>The state \<^verbatim>\<open>co2_props\<close> found from a pressure and an enthalpy stored as state \<open>k\<close>:
  temperature, entropy and density (as at lines 2998-3000).\<close>

definition store_props_T :: "nat \<Rightarrow> CO2_state \<Rightarrow> dcs \<Rightarrow> dcs" where
  "store_props_T k co2_props s =
     set_dens_last k (dens co2_props)
       (set_entr_last k (entr co2_props) (set_temp_last k (temp co2_props) s))"

subsection \<open>Pressures (lines 2640-2689)\<close>

definition set_pressures :: "dcs \<Rightarrow> dcs" where
  "set_pressures s0 =
     (let des = ms_des_par s0;
          s = set_temp_last 1 (m_T_mc_in des) s0;
          s = set_pres_last 1 (m_P_mc_in des) s;
          s = set_pres_last 2 (m_P_mc_out des) s;
          s = set_temp_last 6 (m_T_t_in des) s;
          s = (if m_DP_LT des ! (1 - cpp_offset) < 0
               then set_pres_last 3
                      (pres_last s 2 - pres_last s 2 * \<bar>m_DP_LT des ! (1 - cpp_offset)\<bar>) s
               else set_pres_last 3 (pres_last s 2 - m_DP_LT des ! (1 - cpp_offset)) s);
          s = (if m_UA_LT des < Fin (1 / 10 ^ 12) then set_pres_last 3 (pres_last s 2) s else s);
          s = set_pres_last 4 (pres_last s 3) s;
          s = set_pres_last 10 (pres_last s 3) s;
          s = (if m_DP_HT des ! (1 - cpp_offset) < 0
               then set_pres_last 5
                      (pres_last s 4 - pres_last s 4 * \<bar>m_DP_HT des ! (1 - cpp_offset)\<bar>) s
               else set_pres_last 5 (pres_last s 4 - m_DP_HT des ! (1 - cpp_offset)) s);
          s = (if m_UA_HT des < Fin (1 / 10 ^ 12) then set_pres_last 5 (pres_last s 4) s else s);
          s = (if m_DP_PHX des ! (1 - cpp_offset) < 0
               then set_pres_last 6
                      (pres_last s 5 - pres_last s 5 * \<bar>m_DP_PHX des ! (1 - cpp_offset)\<bar>) s
               else set_pres_last 6 (pres_last s 5 - m_DP_PHX des ! (1 - cpp_offset)) s);
          s = (if m_DP_PC des ! (2 - cpp_offset) < 0
               then set_pres_last 9
                      (pres_last s 1 / (1 - \<bar>m_DP_PC des ! (2 - cpp_offset)\<bar>)) s
               else set_pres_last 9 (pres_last s 1 + m_DP_PC des ! (2 - cpp_offset)) s);
          s = (if m_DP_LT des ! (2 - cpp_offset) < 0
               then set_pres_last 8
                      (pres_last s 9 / (1 - \<bar>m_DP_LT des ! (2 - cpp_offset)\<bar>)) s
               else set_pres_last 8 (pres_last s 9 + m_DP_LT des ! (2 - cpp_offset)) s);
          s = (if m_UA_LT des < Fin (1 / 10 ^ 12) then set_pres_last 8 (pres_last s 9) s else s);
          s = (if m_DP_HT des ! (2 - cpp_offset) < 0
               then set_pres_last 7
                      (pres_last s 8 / (1 - \<bar>m_DP_HT des ! (2 - cpp_offset)\<bar>)) s
               else set_pres_last 7 (pres_last s 8 + m_DP_HT des ! (2 - cpp_offset)) s);
          s = (if m_UA_HT des < Fin (1 / 10 ^ 12) then set_pres_last 7 (pres_last s 8) s else s)
      in s)"

subsection \<open>Efficiencies and turbomachinery (lines 2691-2791)\<close>

text \<open>
  The pattern of lines 2694-2708: a negative efficiency is a polytropic one and is
  converted, with a fresh error code; a non-negative one is taken as it is. The result is
  the error code, the isentropic efficiency and the log.
\<close>

definition isentropic_efficiency ::
  "co2_oracle \<Rightarrow> dbl \<Rightarrow> dbl \<Rightarrow> dbl \<Rightarrow> dbl \<Rightarrow> bool \<Rightarrow> dbl \<Rightarrow> oracle_call list
     \<Rightarrow> int \<times> dbl \<times> oracle_call list" where
  "isentropic_efficiency orc eta T_in P_in P_out is_comp eta_isen tr =
     (if eta < 0 then isen_eta_from_poly_eta orc T_in P_in P_out \<bar>eta\<bar> is_comp (0, eta_isen, tr)
      else (0, eta, tr))"

text \<open>
  A call of \<^verbatim>\<open>calculate_turbomachinery_outlet_1\<close> from state \<open>k_in\<close> to state \<open>k_out\<close> of
  the cycle, with an error code that starts at zero and the work variable \<open>w\<close>: the reference
  arguments are the elements of the state vectors, which the call updates in place. The
  result is the error code, the work and the cycle.
\<close>

definition turbomachinery_at ::
  "co2_oracle \<Rightarrow> nat \<Rightarrow> nat \<Rightarrow> dbl \<Rightarrow> bool \<Rightarrow> dbl \<Rightarrow> dcs \<Rightarrow> int \<times> dbl \<times> dcs" where
  "turbomachinery_at orc k_in k_out eta is_comp w s =
     (case calculate_turbomachinery_outlet_1 orc (temp_last s k_in) (pres_last s k_in)
             (pres_last s k_out) eta is_comp
             (\<lparr>tm_error_code = 0, tm_enth_in = enth_last s k_in, tm_entr_in = entr_last s k_in,
               tm_dens_in = dens_last s k_in, tm_temp_out = temp_last s k_out,
               tm_enth_out = enth_last s k_out, tm_entr_out = entr_last s k_out,
               tm_dens_out = dens_last s k_out, tm_spec_work = w\<rparr>, calls s) of
        (t, tr) \<Rightarrow>
          (tm_error_code t, tm_spec_work t,
           set_dens_last k_out (tm_dens_out t)
             (set_entr_last k_out (tm_entr_out t)
               (set_enth_last k_out (tm_enth_out t)
                 (set_temp_last k_out (tm_temp_out t)
                   (set_dens_last k_in (tm_dens_in t)
                     (set_entr_last k_in (tm_entr_in t)
                       (set_enth_last k_in (tm_enth_in t) (s\<lparr>calls := tr\<rparr>)))))))))"

text \<open>The overload of lines 24-29, whose only outputs are the error code and the work; the
  other outputs go to locals of the overload, which start unassigned.\<close>

definition calculate_turbomachinery_outlet_1_work ::
  "co2_oracle \<Rightarrow> dbl \<Rightarrow> dbl \<Rightarrow> dbl \<Rightarrow> dbl \<Rightarrow> bool \<Rightarrow> int \<times> dbl \<times> oracle_call list
     \<Rightarrow> int \<times> dbl \<times> oracle_call list" where
  "calculate_turbomachinery_outlet_1_work orc T_in P_in P_out eta is_comp = (\<lambda>(error_code, w, tr).
     case calculate_turbomachinery_outlet_1 orc T_in P_in P_out eta is_comp
            (\<lparr>tm_error_code = error_code, tm_enth_in = NaN, tm_entr_in = NaN, tm_dens_in = NaN,
              tm_temp_out = NaN, tm_enth_out = NaN, tm_entr_out = NaN, tm_dens_out = NaN,
              tm_spec_work = w\<rparr>, tr) of
       (t, tr') \<Rightarrow> (tm_error_code t, tm_spec_work t, tr'))"

text \<open>Lines 2691-2724: the isentropic efficiencies of the main compressor and the turbine.\<close>

definition design_efficiencies :: "co2_oracle \<Rightarrow> dcs \<Rightarrow> (dcs, dcs) ctl" where
  "design_efficiencies orc s0 =
     (let des = ms_des_par s0;
          s = s0\<lparr>eta_mc_isen := NaN, eta_t_isen := NaN\<rparr>
      in case isentropic_efficiency orc (m_eta_mc des) (temp_last s 1) (pres_last s 1)
                (pres_last s 2) True (eta_mc_isen s) (calls s) of
           (poly_error_code, eta, tr) \<Rightarrow>
             if poly_error_code \<noteq> 0 then fail poly_error_code (s\<lparr>calls := tr\<rparr>)
             else
               let s = s\<lparr>eta_mc_isen := eta, calls := tr\<rparr>
               in case isentropic_efficiency orc (m_eta_t des) (temp_last s 6) (pres_last s 6)
                         (pres_last s 7) False (eta_t_isen s) (calls s) of
                    (poly_error_code, eta, tr) \<Rightarrow>
                      if poly_error_code \<noteq> 0 then fail poly_error_code (s\<lparr>calls := tr\<rparr>)
                      else Next (s\<lparr>eta_t_isen := eta, calls := tr\<rparr>))"

text \<open>Lines 2726-2751: outlet states and specific work of the main compressor and the
  turbine.\<close>

definition design_turbomachinery :: "co2_oracle \<Rightarrow> dcs \<Rightarrow> (dcs, dcs) ctl" where
  "design_turbomachinery orc s0 =
     (case turbomachinery_at orc 1 2 (eta_mc_isen s0) True NaN s0 of
        (comp_error_code, w, s) \<Rightarrow>
          let s = s\<lparr>w_mc := w\<rparr>
          in if comp_error_code \<noteq> 0 then fail comp_error_code s
             else
               (case turbomachinery_at orc 6 7 (eta_t_isen s) False NaN s of
                  (turbine_error_code, w, s) \<Rightarrow>
                    let s = s\<lparr>w_t := w\<rparr>
                    in if turbine_error_code \<noteq> 0 then fail turbine_error_code s
                       else Next s))"

text \<open>Lines 2753-2791: the recompressor's work at the temperature of state 2, and the check
  that the cycle can produce power.\<close>

definition design_power_check :: "co2_oracle \<Rightarrow> dcs \<Rightarrow> (dcs, dcs) ctl" where
  "design_power_check orc s0 =
     (let des = ms_des_par s0;
          s = s0\<lparr>eta_rc_isen := NaN, w_rc := NaN\<rparr>;
          check = (\<lambda>s. if w_mc s + w_rc s + w_t s \<le> 0 then fail 25 s else Next s)
      in if m_recomp_frac des \<ge> Fin (1 / 10 ^ 12) then
           (case isentropic_efficiency orc (m_eta_rc des) (temp_last s 2) (pres_last s 9)
                   (pres_last s 10) True (eta_rc_isen s) (calls s) of
              (rc_error_code, eta, tr) \<Rightarrow>
                if rc_error_code \<noteq> 0 then fail rc_error_code (s\<lparr>calls := tr\<rparr>)
                else
                  let s = s\<lparr>eta_rc_isen := eta, calls := tr\<rparr>
                  in case calculate_turbomachinery_outlet_1_work orc (temp_last s 2)
                            (pres_last s 9) (pres_last s 10) (eta_rc_isen s) True
                            (0, w_rc s, calls s) of
                       (rc_error_code, w, tr) \<Rightarrow>
                         let s = s\<lparr>w_rc := w, calls := tr\<rparr>
                         in if rc_error_code \<noteq> 0 then fail rc_error_code s else check s)
         else check (s\<lparr>w_rc := 0\<rparr>))"

subsection \<open>The inner loop on the temperature of state 9 (lines 2857-2988)\<close>

text \<open>Lines 2860-2907: the recompressor at the guessed temperature, or state 9 alone when
  there is no recompressor.\<close>

definition T9_recompressor :: "co2_oracle \<Rightarrow> dcs \<Rightarrow> (dcs, dcs) ctl" where
  "T9_recompressor orc s =
     (let des = ms_des_par s
      in if m_recomp_frac des \<ge> Fin (1 / 10 ^ 12) then
           (case isentropic_efficiency orc (m_eta_rc des) (temp_last s 9) (pres_last s 9)
                   (pres_last s 10) True (eta_rc_isen s) (calls s) of
              (rc_error_code, eta, tr) \<Rightarrow>
                if rc_error_code \<noteq> 0 then fail rc_error_code (s\<lparr>calls := tr\<rparr>)
                else
                  (case turbomachinery_at orc 9 10 eta True (w_rc s)
                          (s\<lparr>eta_rc_isen := eta, calls := tr\<rparr>) of
                     (rc_error_code, w, s) \<Rightarrow>
                       let s = s\<lparr>w_rc := w\<rparr>
                       in if rc_error_code \<noteq> 0 then fail rc_error_code s else Next s))
         else
           (let s = s\<lparr>w_rc := 0\<rparr>;
                (prop_error_code, co2_props, tr) = call_TP orc (temp_last s 9) (pres_last s 9) (calls s);
                s = s\<lparr>calls := tr\<rparr>
            in if prop_error_code \<noteq> 0 then fail prop_error_code s
               else
                 let s = store_props 9 co2_props s;
                     s = set_temp_last 10 (temp_last s 9) s;
                     s = set_enth_last 10 (enth_last s 9) s;
                     s = set_entr_last 10 (entr_last s 9) s;
                     s = set_dens_last 10 (dens_last s 9) s
                 in Next s))"

text \<open>Lines 2909-2917: the mass flow rates from the power balance.\<close>

definition T9_mass_flow :: "dcs \<Rightarrow> (dcs, dcs) ctl" where
  "T9_mass_flow s0 =
     (let des = ms_des_par s0;
          s = s0\<lparr>m_dot_t := m_W_dot_net des /
                   (w_mc s0 * (1 - m_recomp_frac des) + w_rc s0 * m_recomp_frac des + w_t s0)\<rparr>
      in if m_dot_t s < 0 then fail 29 s
         else
           let s = s\<lparr>m_dot_rc := m_dot_t s * m_recomp_frac des\<rparr>;
               s = s\<lparr>m_dot_mc := m_dot_t s - m_dot_rc s\<rparr>
           in Next s)"

text \<open>Lines 2919-2944: the conductance of the low-temperature recuperator. A second-law
  violation (code 11) raises the lower bound and bisects.\<close>

definition T9_LT_UA :: "co2_oracle \<Rightarrow> dcs \<Rightarrow> (dcs, dcs) ctl" where
  "T9_LT_UA orc s0 =
     (let des = ms_des_par s0;
          s = (if m_UA_LT des < Fin (1 / 10 ^ 12) then s0\<lparr>Q_dot_LT := 0\<rparr>
               else s0\<lparr>Q_dot_LT := m_dot_t s0 * (enth_last s0 8 - enth_last s0 9)\<rparr>);
          s = s\<lparr>min_DT_LT := NaN\<rparr>;
          (hx, tr) = calculate_hxr_UA_1 orc
             \<lparr>N_hxrs = m_N_sub_hxrs des, Q_dot = Q_dot_LT s, m_dot_c = m_dot_mc s,
               m_dot_h = m_dot_t s, T_c_in = temp_last s 2, T_h_in = temp_last s 8,
               P_c_in = pres_last s 2, P_c_out = pres_last s 3, P_h_in = pres_last s 8,
               P_h_out = pres_last s 9\<rparr>
             (\<lparr>hx_error_code = 0, UA = UA_LT_calc s, min_DT = min_DT_LT s\<rparr>, calls s);
          hx_error_code = hx_error_code hx;
          s = s\<lparr>UA_LT_calc := UA hx, min_DT_LT := min_DT hx, calls := tr\<rparr>
      in if hx_error_code \<noteq> 0 then
           (if hx_error_code = 11 then
              let s = s\<lparr>T9_lower_bound := temp_last s 9\<rparr>;
                  s = set_temp_last 9 (Fin 0.5 * (T9_lower_bound s + T9_upper_bound s)) s
              in Continue s
            else fail hx_error_code s)
         else Next s)"

text \<open>Lines 2975-2979: the next guess, the secant prediction when it lies strictly inside
  the bracket and is not NaN, the midpoint of the bracket otherwise.\<close>

definition next_T9_guess :: "dbl \<Rightarrow> dbl \<Rightarrow> dbl \<Rightarrow> dbl" where
  "next_T9_guess secant_guess lower_bound upper_bound =
     (if secant_guess \<le> lower_bound \<or> secant_guess \<ge> upper_bound
           \<or> dne secant_guess secant_guess
      then Fin 0.5 * (lower_bound + upper_bound)
      else secant_guess)"

text \<open>Lines 2946-2979: the convergence test and the next guess.\<close>

definition T9_converge :: "dcs \<Rightarrow> (dcs, dcs) ctl" where
  "T9_converge s0 =
     (let des = ms_des_par s0;
          UA_LT_residual = m_UA_LT des - UA_LT_calc s0
      in if \<bar>UA_LT_residual\<bar> < Fin (1 / 10 ^ 12) then Break s0
         else
           let secant_guess = temp_last s0 9 -
                 UA_LT_residual * (last_T9_guess s0 - temp_last s0 9) /
                   (last_LT_residual s0 - UA_LT_residual);
               adjust =
                 (if UA_LT_residual < 0 then
                    (if \<bar>UA_LT_residual\<bar> / m_UA_LT des < m_tol des then Break s0
                     else Next (s0\<lparr>T9_lower_bound := temp_last s0 9\<rparr>))
                  else
                    (if UA_LT_residual / m_UA_LT des < m_tol des then Break s0
                     else if min_DT_LT s0 < temperature_tolerance then Break s0
                     else Next (s0\<lparr>T9_upper_bound := temp_last s0 9\<rparr>)))
           in then_do adjust (\<lambda>s.
                let s = s\<lparr>last_LT_residual := UA_LT_residual\<rparr>;
                    s = s\<lparr>last_T9_guess := temp_last s 9\<rparr>;
                    s = set_temp_last 9
                          (next_T9_guess secant_guess (T9_lower_bound s) (T9_upper_bound s)) s
                in Next s))"

definition T9_body :: "co2_oracle \<Rightarrow> int \<Rightarrow> dcs \<Rightarrow> (dcs, dcs) ctl" where
  "T9_body orc T9_iter s =
     then_do (T9_recompressor orc s) (\<lambda>s.
     then_do (T9_mass_flow s) (\<lambda>s.
     then_do (T9_LT_UA orc s) T9_converge))"

text \<open>Lines 2837-2855: the bracket and the first guess of the inner loop.\<close>

definition T9_init :: "dcs \<Rightarrow> dcs" where
  "T9_init s =
     (let des = ms_des_par s
      in if m_UA_LT des < Fin (1 / 10 ^ 12) then
           let s = s\<lparr>T9_lower_bound := temp_last s 8, T9_upper_bound := temp_last s 8\<rparr>;
               s = set_temp_last 9 (temp_last s 8) s
           in s\<lparr>UA_LT_calc := 0, last_LT_residual := 0, last_T9_guess := temp_last s 8\<rparr>
         else
           let s = s\<lparr>T9_lower_bound := temp_last s 2, T9_upper_bound := temp_last s 8\<rparr>;
               s = set_temp_last 9 ((T9_lower_bound s + T9_upper_bound s) * Fin 0.5) s
           in s\<lparr>UA_LT_calc := - 1, last_LT_residual := m_UA_LT des,
                 last_T9_guess := temp_last s 8\<rparr>)"

text \<open>Lines 2857-2988: the inner loop and the check that it has converged.\<close>

definition T9_loop :: "co2_oracle \<Rightarrow> dcs \<Rightarrow> nat \<times> (dcs, dcs) loop_exit" where
  "T9_loop orc s = for_loop max_iter (T9_body orc) 0 s"

definition T9_solve :: "co2_oracle \<Rightarrow> dcs \<Rightarrow> (dcs, dcs) ctl" where
  "T9_solve orc s =
     (case T9_loop orc (T9_init s) of
        (k, Returned r) \<Rightarrow> Return r
      | (k, Exited T9_iter s') \<Rightarrow> if T9_iter \<ge> max_iter then fail 31 s' else Next s')"

subsection \<open>The outer loop on the temperature of state 8 (lines 2793-3097)\<close>

text \<open>Lines 2826-2835: state 8 at the guessed temperature.\<close>

definition T8_state8 :: "co2_oracle \<Rightarrow> dcs \<Rightarrow> (dcs, dcs) ctl" where
  "T8_state8 orc s0 =
     (let (prop_error_code, co2_props, tr) = call_TP orc (temp_last s0 8) (pres_last s0 8) (calls s0);
          s = s0\<lparr>calls := tr\<rparr>
      in if prop_error_code \<noteq> 0 then fail prop_error_code s
         else Next (store_props 8 co2_props s))"

text \<open>Lines 2990-3000: state 3 from the energy balance of the low-temperature
  recuperator.\<close>

definition T8_state3 :: "co2_oracle \<Rightarrow> dcs \<Rightarrow> (dcs, dcs) ctl" where
  "T8_state3 orc s0 =
     (let s = set_enth_last 3 (enth_last s0 2 + Q_dot_LT s0 / m_dot_mc s0) s0;
          (prop_error_code, co2_props, tr) = call_PH orc (pres_last s 3) (enth_last s 3) (calls s);
          s = s\<lparr>calls := tr\<rparr>
      in if prop_error_code \<noteq> 0 then fail prop_error_code s
         else Next (store_props_T 3 co2_props s))"

text \<open>Lines 3002-3022: the mixing valve.\<close>

definition T8_mixing_valve :: "co2_oracle \<Rightarrow> dcs \<Rightarrow> (dcs, dcs) ctl" where
  "T8_mixing_valve orc s0 =
     (let des = ms_des_par s0
      in if m_recomp_frac des \<ge> Fin (1 / 10 ^ 12) then
           (let s = set_enth_last 4
                      ((1 - m_recomp_frac des) * enth_last s0 3
                         + m_recomp_frac des * enth_last s0 10) s0;
                (prop_error_code, co2_props, tr) =
                   call_PH orc (pres_last s 4) (enth_last s 4) (calls s);
                s = s\<lparr>calls := tr\<rparr>
            in if prop_error_code \<noteq> 0 then fail prop_error_code s
               else Next (store_props_T 4 co2_props s))
         else
           (let s = set_temp_last 4 (temp_last s0 3) s0;
                s = set_enth_last 4 (enth_last s 3) s;
                s = set_entr_last 4 (entr_last s 3) s;
                s = set_dens_last 4 (dens_last s 3) s
            in Next s))"

text \<open>Lines 3024-3030: a second-law violation at the outlet of the high-temperature
  recuperator raises the lower bound and bisects.\<close>

definition T8_bisect_up :: "dcs \<Rightarrow> (dcs, dcs) ctl" where
  "T8_bisect_up s0 =
     (let s = s0\<lparr>T8_lower_bound := temp_last s0 8\<rparr>;
          s = set_temp_last 8 (Fin 0.5 * (T8_lower_bound s + T8_upper_bound s)) s
      in Continue s)"

definition T8_second_law :: "dcs \<Rightarrow> (dcs, dcs) ctl" where
  "T8_second_law s = (if temp_last s 4 \<ge> temp_last s 8 then T8_bisect_up s else Next s)"

text \<open>Lines 3032-3057: the conductance of the high-temperature recuperator.\<close>

definition T8_HT_UA :: "co2_oracle \<Rightarrow> dcs \<Rightarrow> (dcs, dcs) ctl" where
  "T8_HT_UA orc s0 =
     (let des = ms_des_par s0;
          s = (if m_UA_HT des < Fin (1 / 10 ^ 12) then s0\<lparr>Q_dot_HT := 0\<rparr>
               else s0\<lparr>Q_dot_HT := m_dot_t s0 * (enth_last s0 7 - enth_last s0 8)\<rparr>);
          s = s\<lparr>min_DT_HT := NaN\<rparr>;
          (hx, tr) = calculate_hxr_UA_1 orc
             \<lparr>N_hxrs = m_N_sub_hxrs des, Q_dot = Q_dot_HT s, m_dot_c = m_dot_t s,
               m_dot_h = m_dot_t s, T_c_in = temp_last s 4, T_h_in = temp_last s 7,
               P_c_in = pres_last s 4, P_c_out = pres_last s 5, P_h_in = pres_last s 7,
               P_h_out = pres_last s 8\<rparr>
             (\<lparr>hx_error_code = 0, UA = UA_HT_calc s, min_DT = min_DT_HT s\<rparr>, calls s);
          HT_error_code = hx_error_code hx;
          s = s\<lparr>UA_HT_calc := UA hx, min_DT_HT := min_DT hx, calls := tr\<rparr>
      in if HT_error_code \<noteq> 0 then
           (if HT_error_code = 11 then T8_bisect_up s else fail HT_error_code s)
         else Next s)"

text \<open>Lines 3084-3088: the next guess, the secant prediction unless it is at or below the
  lower bound or at or above the upper bound, the midpoint of the bracket otherwise.\<close>

definition next_T8_guess :: "dbl \<Rightarrow> dbl \<Rightarrow> dbl \<Rightarrow> dbl" where
  "next_T8_guess secant_guess lower_bound upper_bound =
     (if secant_guess \<le> lower_bound \<or> secant_guess \<ge> upper_bound
      then Fin 0.5 * (lower_bound + upper_bound)
      else secant_guess)"

text \<open>Lines 3059-3088: the convergence test and the next guess.\<close>

definition T8_converge :: "dcs \<Rightarrow> (dcs, dcs) ctl" where
  "T8_converge s0 =
     (let des = ms_des_par s0;
          UA_HT_residual = m_UA_HT des - UA_HT_calc s0
      in if \<bar>UA_HT_residual\<bar> < Fin (1 / 10 ^ 12) then Break s0
         else
           let secant_guess = temp_last s0 8 -
                 UA_HT_residual * (last_T8_guess s0 - temp_last s0 8) /
                   (last_HT_residual s0 - UA_HT_residual);
               adjust =
                 (if UA_HT_residual < 0 then
                    (if \<bar>UA_HT_residual\<bar> / m_UA_HT des < m_tol des then Break s0
                     else Next (s0\<lparr>T8_lower_bound := temp_last s0 8\<rparr>))
                  else
                    (if UA_HT_residual / m_UA_HT des < m_tol des then Break s0
                     else if min_DT_HT s0 < temperature_tolerance then Break s0
                     else Next (s0\<lparr>T8_upper_bound := temp_last s0 8\<rparr>)))
           in then_do adjust (\<lambda>s.
                let s = s\<lparr>last_HT_residual := UA_HT_residual\<rparr>;
                    s = s\<lparr>last_T8_guess := temp_last s 8\<rparr>;
                    s = set_temp_last 8
                          (next_T8_guess secant_guess (T8_lower_bound s) (T8_upper_bound s)) s
                in Next s))"

definition T8_body :: "co2_oracle \<Rightarrow> int \<Rightarrow> dcs \<Rightarrow> (dcs, dcs) ctl" where
  "T8_body orc T8_iter s =
     then_do (T8_state8 orc s) (\<lambda>s.
     then_do (T9_solve orc s) (\<lambda>s.
     then_do (T8_state3 orc s) (\<lambda>s.
     then_do (T8_mixing_valve orc s) (\<lambda>s.
     then_do (T8_second_law s) (\<lambda>s.
     then_do (T8_HT_UA orc s) T8_converge)))))"

text \<open>Lines 2793-2821: the bracket and the first guess of the outer loop, and the locals of
  the inner one.\<close>

definition T8_init :: "dcs \<Rightarrow> dcs" where
  "T8_init s0 =
     (let des = ms_des_par s0;
          s = (if m_UA_HT des < Fin (1 / 10 ^ 12) then
                 let s = s0\<lparr>T8_lower_bound := temp_last s0 7, T8_upper_bound := temp_last s0 7\<rparr>;
                     s = set_temp_last 8 (temp_last s 7) s
                 in s\<lparr>UA_HT_calc := 0, last_HT_residual := 0, last_T8_guess := temp_last s 7\<rparr>
               else
                 let s = s0\<lparr>T8_lower_bound := temp_last s0 2, T8_upper_bound := temp_last s0 7\<rparr>;
                     s = set_temp_last 8 ((T8_lower_bound s + T8_upper_bound s) * Fin 0.5) s
                 in s\<lparr>UA_HT_calc := - 1, last_HT_residual := m_UA_HT des,
                       last_T8_guess := temp_last s 7\<rparr>)
      in s\<lparr>T9_lower_bound := NaN, T9_upper_bound := NaN, last_LT_residual := NaN,
            last_T9_guess := NaN, min_DT_LT := NaN, min_DT_HT := NaN\<rparr>)"

definition T8_loop :: "co2_oracle \<Rightarrow> dcs \<Rightarrow> nat \<times> (dcs, dcs) loop_exit" where
  "T8_loop orc s = for_loop max_iter (T8_body orc) 0 s"

definition T8_solve :: "co2_oracle \<Rightarrow> dcs \<Rightarrow> (dcs, dcs) ctl" where
  "T8_solve orc s =
     (case T8_loop orc (T8_init s) of
        (k, Returned r) \<Rightarrow> Return r
      | (k, Exited T8_iter s') \<Rightarrow> if T8_iter \<ge> max_iter then fail 35 s' else Next s')"

subsection \<open>After the loops (lines 3099-3170)\<close>

text \<open>
  A \<^verbatim>\<open>C_HeatExchanger::S_design_parameters\<close> as its constructor leaves it. The constructor
  is in the header; the members are taken as unassigned here (NaN, and \<open>- 1\<close> for the
  count), and no statement below reads one before the code has assigned it.
\<close>

definition HX_unset :: HX_design_parameters where
  "HX_unset = \<lparr>m_N_sub = - 1, m_m_dot_design = [NaN, NaN], m_DP_design = [NaN, NaN],
     m_UA_design = NaN, m_Q_dot_design = NaN, m_min_DT_design = NaN, m_eff_design = NaN\<rparr>"

text \<open>Lines 3099-3109: state 5 from the energy balance of the high-temperature
  recuperator.\<close>

definition design_state5 :: "co2_oracle \<Rightarrow> dcs \<Rightarrow> (dcs, dcs) ctl" where
  "design_state5 orc s0 =
     (let s = set_enth_last 5 (enth_last s0 4 + Q_dot_HT s0 / m_dot_t s0) s0;
          (prop_error_code, co2_props, tr) = call_PH orc (pres_last s 5) (enth_last s 5) (calls s);
          s = s\<lparr>calls := tr\<rparr>
      in if prop_error_code \<noteq> 0 then fail prop_error_code s
         else Next (store_props_T 5 co2_props s))"

text \<open>Lines 3111-3170: the design records of the four heat exchangers and the performance
  of the cycle.\<close>

definition design_metrics :: "dcs \<Rightarrow> dcs" where
  "design_metrics s0 =
     (let des = ms_des_par s0;
          C_dot_hot = m_dot_t s0 * (enth_last s0 8 - enth_last s0 9) / (temp_last s0 8 - temp_last s0 9);
          C_dot_cold = m_dot_mc s0 * (enth_last s0 3 - enth_last s0 2) / (temp_last s0 3 - temp_last s0 2);
          C_dot_min = std_min C_dot_hot C_dot_cold;
          Q_dot_max = C_dot_min * (temp_last s0 8 - temp_last s0 2);
          hx_eff = Q_dot_LT s0 / Q_dot_max;
          LT_des_par = HX_unset\<lparr>
            m_DP_design := [pres_last s0 2 - pres_last s0 3, pres_last s0 8 - pres_last s0 9],
            m_eff_design := hx_eff, m_min_DT_design := min_DT_LT s0,
            m_m_dot_design := [m_dot_mc s0, m_dot_t s0], m_N_sub := m_N_sub_hxrs des,
            m_Q_dot_design := Q_dot_LT s0, m_UA_design := UA_LT_calc s0\<rparr>;
          s = s0\<lparr>m_LT := LT_des_par\<rparr>;
          C_dot_hot = m_dot_t s * (enth_last s 7 - enth_last s 8) / (temp_last s 7 - temp_last s 8);
          C_dot_cold = m_dot_t s * (enth_last s 5 - enth_last s 4) / (temp_last s 5 - temp_last s 4);
          C_dot_min = std_min C_dot_hot C_dot_cold;
          Q_dot_max = C_dot_min * (temp_last s 7 - temp_last s 4);
          hx_eff = Q_dot_HT s / Q_dot_max;
          HT_des_par = HX_unset\<lparr>
            m_DP_design := [pres_last s 4 - pres_last s 5, pres_last s 7 - pres_last s 8],
            m_eff_design := hx_eff, m_min_DT_design := min_DT_HT s,
            m_m_dot_design := [m_dot_t s, m_dot_t s], m_N_sub := m_N_sub_hxrs des,
            m_Q_dot_design := Q_dot_HT s, m_UA_design := UA_HT_calc s\<rparr>;
          s = s\<lparr>m_HT := HT_des_par\<rparr>;
          PHX_des_par = HX_unset\<lparr>
            m_DP_design := [pres_last s 5 - pres_last s 6, 0],
            m_m_dot_design := [m_dot_t s, 0],
            m_Q_dot_design := m_dot_t s * (enth_last s 6 - enth_last s 5)\<rparr>;
          s = s\<lparr>m_PHX := PHX_des_par\<rparr>;
          PC_des_par = HX_unset\<lparr>
            m_DP_design := [0, pres_last s 9 - pres_last s 1],
            m_m_dot_design := [0, m_dot_mc s],
            m_Q_dot_design := m_dot_mc s * (enth_last s 9 - enth_last s 1)\<rparr>;
          s = s\<lparr>m_PC := PC_des_par\<rparr>;
          s = s\<lparr>m_W_dot_net_last := w_mc s * m_dot_mc s + w_rc s * m_dot_rc s + w_t s * m_dot_t s\<rparr>;
          s = s\<lparr>m_eta_thermal_last := m_W_dot_net_last s / m_Q_dot_design PHX_des_par\<rparr>
      in s\<lparr>m_m_dot_mc := m_dot_mc s, m_m_dot_rc := m_dot_rc s, m_m_dot_t := m_dot_t s\<rparr>)"

subsection \<open>The whole function\<close>

text \<open>Line 2638 and the declarations that follow it: the locals before the first
  statement.\<close>

definition dcs_entry :: "cycle \<Rightarrow> int \<Rightarrow> oracle_call list \<Rightarrow> dcs" where
  "dcs_entry c ec tr = cycle.extend c
     (dcs.fields ec tr 0 0 0 0 0 0 0 NaN NaN NaN NaN NaN NaN NaN NaN NaN NaN NaN NaN NaN NaN NaN NaN)"

text \<open>Lines 2640-2791, the statements before the loops.\<close>

definition design_before_loops :: "co2_oracle \<Rightarrow> dcs \<Rightarrow> (dcs, dcs) ctl" where
  "design_before_loops orc s =
     then_do (design_efficiencies orc (set_pressures s)) (\<lambda>s.
     then_do (design_turbomachinery orc s) (design_power_check orc))"

definition design_core_standard_steps :: "co2_oracle \<Rightarrow> dcs \<Rightarrow> (dcs, dcs) ctl" where
  "design_core_standard_steps orc s =
     then_do (design_before_loops orc s) (\<lambda>s.
     then_do (T8_solve orc s) (\<lambda>s.
     then_do (design_state5 orc s) (\<lambda>s. Next (design_metrics s))))"

text \<open>The state in which the function returns, by a \<^verbatim>\<open>return\<close> or at its end.\<close>

definition final_state :: "('s, 's) ctl \<Rightarrow> 's" where
  "final_state c = (case c of Next s \<Rightarrow> s | Continue s \<Rightarrow> s | Break s \<Rightarrow> s | Return s \<Rightarrow> s)"

definition design_core_standard :: "co2_oracle \<Rightarrow> cycle \<Rightarrow> int \<Rightarrow> oracle_call list \<Rightarrow> dcs" where
  "design_core_standard orc c ec tr = final_state (design_core_standard_steps orc (dcs_entry c ec tr))"


section \<open>The entry points of the design solver\<close>

text \<open>
  \<^verbatim>\<open>C_RecompCycle::design_core\<close> (lines 3173-3191) calls \<^verbatim>\<open>design_core_standard\<close>; what
  stays of its state is the cycle object, the error code and the log of oracle calls.
\<close>

definition design_core ::
  "co2_oracle \<Rightarrow> cycle \<Rightarrow> int \<Rightarrow> oracle_call list \<Rightarrow> cycle \<times> int \<times> oracle_call list" where
  "design_core orc c ec tr =
     (let r = design_core_standard orc c ec tr in (cycle.truncate r, error_code r, calls r))"

text \<open>
  \<^verbatim>\<open>C_RecompCycle::design\<close> (lines 3193-3210). \<^verbatim>\<open>finalize_design\<close>, which sizes the
  turbomachinery, is a parameter: a function of the cycle object, the error code it is
  handed and the log, that returns all three. The caller's \<^verbatim>\<open>error_code\<close> is \<open>ec\<close> here and
  in \<open>dpe_solve\<close> below.
\<close>

definition design ::
  "(cycle \<Rightarrow> int \<Rightarrow> oracle_call list \<Rightarrow> cycle \<times> int \<times> oracle_call list) \<Rightarrow> co2_oracle \<Rightarrow>
     S_design_parameters \<Rightarrow> cycle \<Rightarrow> int \<Rightarrow> oracle_call list \<Rightarrow> cycle \<times> int \<times> oracle_call list" where
  "design finalize_design orc des_par_in c0 ec tr =
     (let c = c0\<lparr>ms_des_par := des_par_in\<rparr>;
          design_error_code = 0;
          (c, design_error_code, tr) = design_core orc c design_error_code tr
      in if design_error_code \<noteq> 0 then (c, design_error_code, tr)
         else
           let (c, design_error_code, tr) = finalize_design c design_error_code tr
           in (c, design_error_code, tr))"

subsection \<open>The objective function of the design optimisation (lines 3352-3432)\<close>

text \<open>
  The state of \<^verbatim>\<open>design_point_eta\<close> is the cycle object and the locals \<^verbatim>\<open>index\<close>,
  \<^verbatim>\<open>PR_mc_local\<close> and \<^verbatim>\<open>LT_frac_local\<close>. A \<^verbatim>\<open>return\<close> carries the value returned and the
  state. The vector \<^verbatim>\<open>x\<close> is read with \<open>!\<close>: the optimiser hands over one entry for each
  free variable, and the code reads no other.
\<close>

record dpe = cycle +
  index :: nat
  PR_mc_local :: dbl
  LT_frac_local :: dbl

definition dpe_entry :: "cycle \<Rightarrow> dpe" where
  "dpe_entry c = cycle.extend c (dpe.fields 0 (Fin (- 999.9)) (Fin (- 999.9)))"

text \<open>Lines 3359-3368: the outlet pressure of the main compressor.\<close>

definition dpe_P_mc_out :: "dbl list \<Rightarrow> dpe \<Rightarrow> (dpe, dbl \<times> dpe) ctl" where
  "dpe_P_mc_out x s0 =
     (if \<not> m_fixed_P_mc_out (ms_opt_des_par s0) then
        let s = s0\<lparr>ms_des_par := (ms_des_par s0)\<lparr>m_P_mc_out := x ! index s0\<rparr>\<rparr>
        in if m_P_mc_out (ms_des_par s) > opt_P_high_limit (ms_opt_des_par s) then Return (0, s)
           else Next (s\<lparr>index := index s + 1\<rparr>)
      else
        Next (s0\<lparr>ms_des_par :=
                (ms_des_par s0)\<lparr>m_P_mc_out := m_P_mc_out_guess (ms_opt_des_par s0)\<rparr>\<rparr>))"

text \<open>Lines 3370-3380: the pressure ratio of the main compressor.\<close>

definition dpe_PR_mc :: "dbl list \<Rightarrow> dpe \<Rightarrow> (dpe, dbl \<times> dpe) ctl" where
  "dpe_PR_mc x s0 =
     (if \<not> m_fixed_PR_mc (ms_opt_des_par s0) then
        let s = s0\<lparr>PR_mc_local := x ! index s0\<rparr>
        in if PR_mc_local s > Fin 50 then Return (0, s)
           else Next (s\<lparr>index := index s + 1\<rparr>)
      else Next (s0\<lparr>PR_mc_local := m_PR_mc_guess (ms_opt_des_par s0)\<rparr>))"

text \<open>Lines 3382-3387: the inlet pressure of the main compressor.\<close>

definition dpe_P_mc_in :: "dpe \<Rightarrow> (dpe, dbl \<times> dpe) ctl" where
  "dpe_P_mc_in s =
     (let P_mc_in = m_P_mc_out (ms_des_par s) / PR_mc_local s
      in if P_mc_in \<ge> m_P_mc_out (ms_des_par s) then Return (0, s)
         else if P_mc_in \<le> Fin 100 then Return (0, s)
         else Next (s\<lparr>ms_des_par := (ms_des_par s)\<lparr>m_P_mc_in := P_mc_in\<rparr>\<rparr>))"

text \<open>Lines 3389-3398: the recompression fraction.\<close>

definition dpe_recomp_frac :: "dbl list \<Rightarrow> dpe \<Rightarrow> (dpe, dbl \<times> dpe) ctl" where
  "dpe_recomp_frac x s0 =
     (if \<not> m_fixed_recomp_frac (ms_opt_des_par s0) then
        let s = s0\<lparr>ms_des_par := (ms_des_par s0)\<lparr>m_recomp_frac := x ! index s0\<rparr>\<rparr>
        in if m_recomp_frac (ms_des_par s) < 0 then Return (0, s)
           else Next (s\<lparr>index := index s + 1\<rparr>)
      else
        Next (s0\<lparr>ms_des_par :=
                (ms_des_par s0)\<lparr>m_recomp_frac := m_recomp_frac_guess (ms_opt_des_par s0)\<rparr>\<rparr>))"

text \<open>Lines 3400-3411: the share of the low-temperature recuperator in the conductance.\<close>

definition dpe_LT_frac :: "dbl list \<Rightarrow> dpe \<Rightarrow> (dpe, dbl \<times> dpe) ctl" where
  "dpe_LT_frac x s0 =
     (if \<not> m_fixed_LT_frac (ms_opt_des_par s0) then
        let s = s0\<lparr>LT_frac_local := x ! index s0\<rparr>
        in if LT_frac_local s > 1 \<or> LT_frac_local s < 0 then Return (0, s)
           else Next (s\<lparr>index := index s + 1\<rparr>)
      else Next (s0\<lparr>LT_frac_local := m_LT_frac_guess (ms_opt_des_par s0)\<rparr>))"

text \<open>Lines 3413-3414: the two conductances.\<close>

definition dpe_UA :: "dpe \<Rightarrow> dpe" where
  "dpe_UA s0 =
     (let s = s0\<lparr>ms_des_par :=
                 (ms_des_par s0)\<lparr>m_UA_LT := m_UA_rec_total (ms_opt_des_par s0) * LT_frac_local s0\<rparr>\<rparr>
      in s\<lparr>ms_des_par :=
             (ms_des_par s)\<lparr>m_UA_HT := m_UA_rec_total (ms_opt_des_par s) * (1 - LT_frac_local s)\<rparr>\<rparr>)"

text \<open>Lines 3359-3411 in sequence.\<close>

definition dpe_checks :: "dbl list \<Rightarrow> dpe \<Rightarrow> (dpe, dbl \<times> dpe) ctl" where
  "dpe_checks x s =
     then_do (dpe_P_mc_out x s) (\<lambda>s.
     then_do (dpe_PR_mc x s) (\<lambda>s.
     then_do (dpe_P_mc_in s) (\<lambda>s.
     then_do (dpe_recomp_frac x s) (dpe_LT_frac x))))"

text \<open>
  What a call leaves: the value returned, the cycle object, the log of oracle calls, and the
  number of calls of \<^verbatim>\<open>design_core\<close> it has made.
\<close>

record dpe_result =
  eta_returned :: dbl
  cycle_left :: cycle
  calls_left :: "oracle_call list"
  solves :: nat

text \<open>Lines 3416-3431: the solve, and the best efficiency so far.\<close>

definition dpe_solve :: "co2_oracle \<Rightarrow> dpe \<Rightarrow> oracle_call list \<Rightarrow> dpe_result" where
  "dpe_solve orc s0 tr0 =
     (let s = dpe_UA s0;
          (c, ec, tr) = design_core orc (cycle.truncate s) 0 tr0;
          eta_thermal = (0::dbl)
      in if ec = 0 then
           let eta_thermal = m_eta_thermal_last c;
               c = (if m_eta_thermal_last c > m_eta_thermal_opt c
                    then c\<lparr>ms_des_par_optimal := ms_des_par c,
                           m_eta_thermal_opt := m_eta_thermal_last c\<rparr>
                    else c)
           in \<lparr>eta_returned = eta_thermal, cycle_left = c, calls_left = tr, solves = 1\<rparr>
         else \<lparr>eta_returned = eta_thermal, cycle_left = c, calls_left = tr, solves = 1\<rparr>)"

text \<open>The checks never leave by \<^verbatim>\<open>break\<close> or \<^verbatim>\<open>continue\<close>; the two cases are there for
  the case distinction to be complete.\<close>

definition design_point_eta ::
  "co2_oracle \<Rightarrow> dbl list \<Rightarrow> cycle \<Rightarrow> oracle_call list \<Rightarrow> dpe_result" where
  "design_point_eta orc x c tr =
     (case dpe_checks x (dpe_entry c) of
        Return (v, s) \<Rightarrow>
          \<lparr>eta_returned = v, cycle_left = cycle.truncate s, calls_left = tr, solves = 0\<rparr>
      | Next s \<Rightarrow> dpe_solve orc s tr
      | Continue s \<Rightarrow> dpe_solve orc s tr
      | Break s \<Rightarrow> dpe_solve orc s tr)"

section \<open>The wind farm\<close>

text \<open>
  \<^verbatim>\<open>wind_power_calculator\<close> (lib_windwatts.cpp). The headers that declare the class, the
  physical constants and the utilities are not among the sources, and \<^verbatim>\<open><math.h>\<close> is a
  library: the constants and functions they provide are the fields of \<open>wind_env\<close>, a
  parameter of every function below. So is the eddy-viscosity wake model, lines 343-411 and
  the functions it calls, taken here as some function of the object, the air density, the
  two coordinate arrays and the five output arrays that returns its \<^verbatim>\<open>bool\<close>, the arrays
  and the error details: of the members below it assigns \<^verbatim>\<open>m_sErrDetails\<close> only (line 405),
  its other assignments going to the two matrices of the model, which no other function
  reads; and \<^verbatim>\<open>turbine_power\<close>, which it calls, changes the shear exponent in its first
  call only, which \<^verbatim>\<open>wind_power\<close> has made before.
\<close>

record wind_power_calculator =
  m_iNumberOfTurbinesInFarm :: int
  m_adXCoords :: "dbl list"
  m_adYCoords :: "dbl list"
  m_dRotorDiameter :: dbl
  m_dTurbulenceIntensity :: dbl
  m_iWakeModelChoice :: int
  m_dWakeDecayCoefficient :: dbl
  m_sErrDetails :: string
  m_dShearExponent :: dbl
  m_dHubHeight :: dbl
  m_dMeasurementHeight :: dbl
  m_iLengthOfTurbinePowerCurveArray :: nat
  m_adPowerCurveWS :: "dbl list"
  m_adPowerCurveKW :: "dbl list"
  m_dCutInSpeed :: dbl
  m_iControlMode :: int
  m_dRatedSpeed :: dbl
  m_dRatedPower :: dbl
  m_dLossesPercent :: dbl
  m_dLossesAbsolute :: dbl

text \<open>The five arrays that the caller hands over and the wake models fill, and with
  \<^verbatim>\<open>*FarmP\<close> the outputs of \<^verbatim>\<open>wind_power\<close>. The arrays hold at least as many elements as
  there are turbines; the code writes no other.\<close>

record wake_arrays =
  Power :: "dbl list"
  Thrust :: "dbl list"
  Eff :: "dbl list"
  adWindSpeed :: "dbl list"
  aTurbulence_intensity :: "dbl list"

record wind_outputs = wake_arrays +
  FarmP :: dbl

record wind_env =
  MAX_WIND_TURBINES :: int
  PAT_QUINLAN_WAKE_MODEL :: int
  PARK_WAKE_MODEL :: int
  SIMPLE_EDDY_VISCOSITY_WAKE_MODEL :: int
  OLD_PQ :: int
  physics_PI :: dbl
  physics_Pa_PER_Atm :: dbl
  physics_R_Gas :: dbl
  physics_AIR_DENSITY_SEA_LEVEL :: dbl
  physics_CelciusToKelvin :: "dbl \<Rightarrow> dbl"
  util_interpolate :: "dbl \<Rightarrow> dbl \<Rightarrow> dbl \<Rightarrow> dbl \<Rightarrow> dbl \<Rightarrow> dbl"
  c_pow :: "dbl \<Rightarrow> dbl \<Rightarrow> dbl"
  c_sqrt :: "dbl \<Rightarrow> dbl"
  c_exp :: "dbl \<Rightarrow> dbl"
  c_log :: "dbl \<Rightarrow> dbl"
  c_acos :: "dbl \<Rightarrow> dbl"
  c_cos :: "dbl \<Rightarrow> dbl"
  c_sin :: "dbl \<Rightarrow> dbl"
  wake_calculations_EddyViscosity_Simple ::
    "wind_power_calculator \<Rightarrow> dbl \<Rightarrow> dbl list \<Rightarrow> dbl list \<Rightarrow> wake_arrays
       \<Rightarrow> bool \<times> wake_arrays \<times> string"

text \<open>Lines 7-15.\<close>

definition max_of :: "dbl \<Rightarrow> dbl \<Rightarrow> dbl" where
  "max_of a b = (if a > b then a else b)"

definition min_of :: "dbl \<Rightarrow> dbl \<Rightarrow> dbl" where
  "min_of a b = (if a < b then a else b)"

subsection \<open>The power curve (lines 750-803)\<close>

text \<open>
  The loop \<^verbatim>\<open>while ( m_adPowerCurveWS[j] <= fWindSpeedAtHubHeight ) j++\<close> of line 766.
  The code enters it with a wind speed below the last element of the array, so that it
  ends inside the array; the search stops at the end of the list here. The array has at
  least one element: \<^verbatim>\<open>m_iLengthOfTurbinePowerCurveArray-1\<close> is its last index.
\<close>

function power_curve_index :: "dbl list \<Rightarrow> dbl \<Rightarrow> nat \<Rightarrow> nat" where
  "power_curve_index ws v j =
     (if j < length ws \<and> ws ! j \<le> v then power_curve_index ws v (j + 1) else j)"
  by pat_completeness auto
termination
  by (relation "measure (\<lambda>(ws, v, j). length ws - j)") auto

declare power_curve_index.simps [simp del]

text \<open>
  \<^verbatim>\<open>turbine_power\<close>: the result is the two outputs \<^verbatim>\<open>*fTurbineOutput\<close> and
  \<^verbatim>\<open>*fThrustCoefficient\<close> and the object, whose shear exponent line 757 may replace.
\<close>

definition turbine_power ::
  "wind_env \<Rightarrow> dbl \<Rightarrow> dbl \<Rightarrow> wind_power_calculator \<Rightarrow> dbl \<times> dbl \<times> wind_power_calculator" where
  "turbine_power env fWindVelocityAtDataHeight fAirDensity wpc0 =
     (let wpc = (if m_dShearExponent wpc0 > Fin 1 then wpc0\<lparr>m_dShearExponent := Fin 1 / Fin 7\<rparr>
                 else wpc0);
          fWindSpeedAtHubHeight = fWindVelocityAtDataHeight *
             c_pow env (m_dHubHeight wpc / m_dMeasurementHeight wpc) (m_dShearExponent wpc);
          ws = m_adPowerCurveWS wpc;
          kw = m_adPowerCurveKW wpc;
          last = m_iLengthOfTurbinePowerCurveArray wpc - 1;
          out_pwr =
            (if fWindSpeedAtHubHeight > ws ! 0 \<and> fWindSpeedAtHubHeight < ws ! last then
               let j = power_curve_index ws fWindSpeedAtHubHeight 1
               in util_interpolate env (ws ! (j - 1)) (kw ! (j - 1)) (ws ! j) (kw ! j)
                    fWindSpeedAtHubHeight
             else if fWindSpeedAtHubHeight \<ge> ws ! last then kw ! last
             else 0);
          out_pwr = (if fWindSpeedAtHubHeight < m_dCutInSpeed wpc then 0 else out_pwr);
          out_pwr = out_pwr * (fAirDensity / physics_AIR_DENSITY_SEA_LEVEL env);
          out_pwr =
            (if m_iControlMode wpc = 1 \<or> m_iControlMode wpc = 0 then
               let NewVRat = m_dRatedSpeed wpc *
                     c_pow env (fAirDensity / physics_AIR_DENSITY_SEA_LEVEL env) (Fin 1 / Fin 3)
               in if out_pwr > m_dRatedPower wpc then m_dRatedPower wpc
                  else if fWindSpeedAtHubHeight > NewVRat then m_dRatedPower wpc
                  else out_pwr
             else out_pwr)
      in if out_pwr > m_dRatedPower wpc * Fin 0.01 then
           let out_pwr = out_pwr * (1 - m_dLossesPercent wpc) - m_dLossesAbsolute wpc;
               pden = Fin 0.5 * fAirDensity * c_pow env fWindSpeedAtHubHeight (Fin 3);
               area = physics_PI env / Fin 4 * m_dRotorDiameter wpc * m_dRotorDiameter wpc;
               fPowerCoefficient = max_of 0 (Fin 1000 * out_pwr / (pden * area));
               fThrustCoefficient =
                 (if fPowerCoefficient \<ge> 0 then
                    max_of 0 (Fin (- 0.01453989) + Fin 1.473506 * fPowerCoefficient
                       - Fin 2.330823 * c_pow env fPowerCoefficient (Fin 2)
                       + Fin 3.885123 * c_pow env fPowerCoefficient (Fin 3))
                  else 0)
           in (out_pwr, fThrustCoefficient, wpc)
         else (0, 0, wpc))"

subsection \<open>Wake deficits (lines 805-867)\<close>

text \<open>\<^verbatim>\<open>vel_delta_PQ\<close>: the deficit, and the turbulence intensity behind the pointer.\<close>

definition vel_delta_PQ :: "wind_env \<Rightarrow> dbl \<Rightarrow> dbl \<Rightarrow> dbl \<Rightarrow> dbl \<Rightarrow> dbl \<times> dbl" where
  "vel_delta_PQ env fRadiiCrosswind fAxialDistInRadii fThrustCoeff fNewTurbulenceIntensity =
     (if fRadiiCrosswind > Fin 20 \<or> fNewTurbulenceIntensity \<le> 0 \<or> fAxialDistInRadii \<le> 0
           \<or> fThrustCoeff \<le> 0
      then (0, fNewTurbulenceIntensity)
      else
        let fAddedTurbulence = (fThrustCoeff / Fin 7) *
              (1 - (Fin 2 / Fin 5) * c_log env (Fin 2 * fAxialDistInRadii));
            TI = c_sqrt env (c_pow env fAddedTurbulence (Fin 2)
                   + c_pow env fNewTurbulenceIntensity (Fin 2));
            AA = c_pow env TI (Fin 2) * c_pow env fAxialDistInRadii (Fin 2);
            fExp = max_of (- Fin 99) (- c_pow env fRadiiCrosswind (Fin 2) / (Fin 2 * AA));
            dVelocityDeficit = (fThrustCoeff / (Fin 4 * AA)) * c_exp env fExp
        in (max_of (min_of dVelocityDeficit 1) 0, TI))"

definition circle_overlap :: "wind_env \<Rightarrow> dbl \<Rightarrow> dbl \<Rightarrow> dbl \<Rightarrow> dbl" where
  "circle_overlap env dist_center_to_center rad1 rad2 =
     (if dist_center_to_center < 0 \<or> rad1 < 0 \<or> rad2 < 0 then 0
      else if dist_center_to_center > rad1 + rad2 then 0
      else if rad1 \<ge> dist_center_to_center + rad2 then physics_PI env * c_pow env rad2 (Fin 2)
      else if rad2 \<ge> dist_center_to_center + rad1 then physics_PI env * c_pow env rad1 (Fin 2)
      else
        let t1 = c_pow env rad1 (Fin 2) *
                   c_acos env ((c_pow env dist_center_to_center (Fin 2) + c_pow env rad1 (Fin 2)
                       - c_pow env rad2 (Fin 2)) / (Fin 2 * dist_center_to_center * rad1));
            t2 = c_pow env rad2 (Fin 2) *
                   c_acos env ((c_pow env dist_center_to_center (Fin 2) + c_pow env rad2 (Fin 2)
                       - c_pow env rad1 (Fin 2)) / (Fin 2 * dist_center_to_center * rad2));
            t3 = Fin 0.5 * c_sqrt env ((- dist_center_to_center + rad1 + rad2)
                   * (dist_center_to_center + rad2 - rad2)
                   * (dist_center_to_center - rad1 + rad2)
                   * (dist_center_to_center + rad1 + rad2))
        in t1 + t2 - t3)"

definition wake_deficit_Park ::
  "wind_env \<Rightarrow> wind_power_calculator \<Rightarrow> dbl \<Rightarrow> dbl \<Rightarrow> dbl \<Rightarrow> dbl \<Rightarrow> dbl \<Rightarrow> dbl" where
  "wake_deficit_Park env wpc dDistCrossWind dDistDownWind dRadiusUpstream dRadiusDownstream
       dThrustCoeff =
     (if dThrustCoeff > 1 then 0
      else
        let dRadiusOfWake = dRadiusUpstream + m_dWakeDecayCoefficient wpc * dDistDownWind;
            dAreaOverlap = circle_overlap env dDistCrossWind dRadiusDownstream dRadiusOfWake
        in (1 - c_sqrt env (1 - dThrustCoeff)) * c_pow env (dRadiusUpstream / dRadiusOfWake) (Fin 2)
             * (dAreaOverlap / (physics_PI env * dRadiusDownstream * dRadiusDownstream)))"

text \<open>\<^verbatim>\<open>coordtrans\<close>: the downwind and the crosswind coordinate.\<close>

definition coordtrans :: "wind_env \<Rightarrow> dbl \<Rightarrow> dbl \<Rightarrow> dbl \<Rightarrow> dbl \<times> dbl" where
  "coordtrans env fMetersNorth fMetersEast fWind_dir_degrees0 =
     (let fWind_dir_degrees = fWind_dir_degrees0 + Fin 90;
          fWind_dir_radians = fWind_dir_degrees * physics_PI env / Fin 180
      in (fMetersEast * c_cos env fWind_dir_radians - (fMetersNorth * c_sin env fWind_dir_radians),
          fMetersEast * c_sin env fWind_dir_radians + (fMetersNorth * c_cos env fWind_dir_radians)))"

subsection \<open>The wake models (lines 262-341 and 413-478)\<close>

text \<open>The efficiency of a turbine, as the three models set it: 0 when the first turbine's
  power is negative.\<close>

definition wake_Eff :: "dbl \<Rightarrow> dbl \<Rightarrow> dbl" where
  "wake_Eff P0 Pi = (if P0 < 0 then 0 else Fin 100 * (Pi + Fin 0.0001) / (P0 + Fin 0.0001))"

text \<open>Lines 266-290. The inner loop carries \<^verbatim>\<open>dDeficit\<close> and the turbulence intensity of
  turbine \<open>i\<close>, which \<^verbatim>\<open>vel_delta_PQ\<close> updates through its pointer.\<close>

definition pat_quinlan_mod_turbine ::
  "wind_env \<Rightarrow> dbl \<Rightarrow> dbl list \<Rightarrow> dbl list \<Rightarrow> nat \<Rightarrow> wake_arrays \<times> wind_power_calculator
     \<Rightarrow> wake_arrays \<times> wind_power_calculator" where
  "pat_quinlan_mod_turbine env air_density aDistanceDownwind aDistanceCrosswind i = (\<lambda>(A0, wpc0).
     let (dDeficit, TI) =
           fold (\<lambda>j (dDeficit, TI).
                   let fDistanceDownwind = \<bar>aDistanceDownwind ! j - aDistanceDownwind ! i\<bar>;
                       fDistanceCrosswind = \<bar>aDistanceCrosswind ! j - aDistanceCrosswind ! i\<bar>;
                       (vdef, TI) = vel_delta_PQ env fDistanceCrosswind fDistanceDownwind
                                      (Thrust A0 ! j) TI
                   in (dDeficit * (1 - vdef), TI))
             [0..<i] (1, aTurbulence_intensity A0 ! i);
         A = A0\<lparr>aTurbulence_intensity := (aTurbulence_intensity A0)[i := TI]\<rparr>;
         A = A\<lparr>adWindSpeed := (adWindSpeed A)[i := adWindSpeed A ! i * dDeficit]\<rparr>;
         (P, T, wpc) = turbine_power env (adWindSpeed A ! i) air_density wpc0;
         A = A\<lparr>Power := (Power A)[i := P], Thrust := (Thrust A)[i := T]\<rparr>
     in (A\<lparr>Eff := (Eff A)[i := wake_Eff (Power A ! 0) (Power A ! i)]\<rparr>, wpc))"

definition wake_calculations_pat_quinlan_mod ::
  "wind_env \<Rightarrow> dbl \<Rightarrow> dbl list \<Rightarrow> dbl list \<Rightarrow> wake_arrays \<times> wind_power_calculator
     \<Rightarrow> wake_arrays \<times> wind_power_calculator" where
  "wake_calculations_pat_quinlan_mod env air_density aDistanceDownwind aDistanceCrosswind =
     (\<lambda>(A, wpc). fold (pat_quinlan_mod_turbine env air_density aDistanceDownwind aDistanceCrosswind)
        [1..<nat (m_iNumberOfTurbinesInFarm wpc)] (A, wpc))"

text \<open>Lines 307-341.\<close>

definition Park_turbine ::
  "wind_env \<Rightarrow> dbl \<Rightarrow> dbl list \<Rightarrow> dbl list \<Rightarrow> nat \<Rightarrow> wake_arrays \<times> wind_power_calculator
     \<Rightarrow> wake_arrays \<times> wind_power_calculator" where
  "Park_turbine env air_density aDistanceDownwind aDistanceCrosswind i = (\<lambda>(A0, wpc0).
     let dTurbineRadius = m_dRotorDiameter wpc0 / Fin 2;
         dDeficit =
           fold (\<lambda>j dDeficit.
                   let fDistanceDownwindMeters =
                         dTurbineRadius * \<bar>aDistanceDownwind ! i - aDistanceDownwind ! j\<bar>;
                       fDistanceCrosswindMeters =
                         dTurbineRadius * \<bar>aDistanceCrosswind ! i - aDistanceCrosswind ! j\<bar>
                   in max_of dDeficit
                        (wake_deficit_Park env wpc0 fDistanceCrosswindMeters fDistanceDownwindMeters
                           dTurbineRadius dTurbineRadius (Thrust A0 ! j)))
             [0..<i] 0;
         A = A0\<lparr>adWindSpeed := (adWindSpeed A0)[i := adWindSpeed A0 ! i * (1 - dDeficit)]\<rparr>;
         (fTurbine_output, fThrust_coeff, wpc) =
            turbine_power env (adWindSpeed A ! i) air_density wpc0;
         A = A\<lparr>Power := (Power A)[i := fTurbine_output], Thrust := (Thrust A)[i := fThrust_coeff]\<rparr>
     in (A\<lparr>Eff := (Eff A)[i := wake_Eff (Power A ! 0) fTurbine_output]\<rparr>, wpc))"

definition wake_calculations_Park ::
  "wind_env \<Rightarrow> dbl \<Rightarrow> dbl list \<Rightarrow> dbl list \<Rightarrow> wake_arrays \<times> wind_power_calculator
     \<Rightarrow> wake_arrays \<times> wind_power_calculator" where
  "wake_calculations_Park env air_density aDistanceDownwind aDistanceCrosswind =
     (\<lambda>(A, wpc). fold (Park_turbine env air_density aDistanceDownwind aDistanceCrosswind)
        [1..<nat (m_iNumberOfTurbinesInFarm wpc)] (A, wpc))"

text \<open>Lines 435-477: the body of the inner loop, for the upwind turbine \<open>i\<close> and the
  downwind turbine \<open>j\<close>.\<close>

definition pat_quinlan_old_pair ::
  "wind_env \<Rightarrow> dbl \<Rightarrow> dbl list \<Rightarrow> dbl list \<Rightarrow> nat \<Rightarrow> nat \<Rightarrow> wake_arrays \<times> wind_power_calculator
     \<Rightarrow> wake_arrays \<times> wind_power_calculator" where
  "pat_quinlan_old_pair env air_density aDistanceDownwind aDistanceCrosswind i j = (\<lambda>(A0, wpc0).
     let fDistanceDownwind = aDistanceDownwind ! j - aDistanceDownwind ! i;
         fDistanceCrosswind = \<bar>aDistanceCrosswind ! j - aDistanceCrosswind ! i\<bar>;
         (vdef, TI) = vel_delta_PQ env fDistanceCrosswind fDistanceDownwind (Thrust A0 ! i)
                        (aTurbulence_intensity A0 ! j);
         A = A0\<lparr>aTurbulence_intensity := (aTurbulence_intensity A0)[j := TI]\<rparr>;
         A = A\<lparr>adWindSpeed := (adWindSpeed A)[j := adWindSpeed A ! j * (1 - vdef)]\<rparr>
     in if j = i + 1 then
          let (fTurbine_output, fThrust_coeff, wpc) =
                 turbine_power env (adWindSpeed A ! j) air_density wpc0;
              A = A\<lparr>Power := (Power A)[j := fTurbine_output],
                     Thrust := (Thrust A)[j := fThrust_coeff]\<rparr>
          in (A\<lparr>Eff := (Eff A)[j := wake_Eff (Power A ! 0) fTurbine_output]\<rparr>, wpc)
        else (A, wpc0))"

definition wake_calculations_pat_quinlan_old ::
  "wind_env \<Rightarrow> dbl \<Rightarrow> dbl list \<Rightarrow> dbl list \<Rightarrow> wake_arrays \<times> wind_power_calculator
     \<Rightarrow> wake_arrays \<times> wind_power_calculator" where
  "wake_calculations_pat_quinlan_old env air_density aDistanceDownwind aDistanceCrosswind =
     (\<lambda>(A, wpc).
        let n = nat (m_iNumberOfTurbinesInFarm wpc)
        in fold (\<lambda>i. fold (pat_quinlan_old_pair env air_density aDistanceDownwind
                              aDistanceCrosswind i) [i + 1..<n])
             [0..<n - 1] (A, wpc))"

subsection \<open>The farm (lines 34-214)\<close>

text \<open>
  The insertion sort of lines 130-149, on the downwind distances, with the crosswind
  distances and the turbine numbers carried along. \<open>sift_downwind i d\<close> is the inner loop
  \<^verbatim>\<open>while (i > 0 && aDistanceDownwind[i-1] > d)\<close>, which moves the elements above \<open>d\<close> up by
  one; its result is the index at which it stops and the arrays.
\<close>

fun sift_downwind ::
  "nat \<Rightarrow> dbl \<Rightarrow> dbl list \<times> dbl list \<times> 8 word list \<Rightarrow> nat \<times> dbl list \<times> dbl list \<times> 8 word list" where
  "sift_downwind 0 d (D, C, W) = (0, D, C, W)"
| "sift_downwind (Suc k) d (D, C, W) =
     (if D ! k > d
      then sift_downwind k d (D[Suc k := D ! k], C[Suc k := C ! k], W[Suc k := W ! k])
      else (Suc k, D, C, W))"

definition insert_downwind ::
  "nat \<Rightarrow> dbl list \<times> dbl list \<times> 8 word list \<Rightarrow> dbl list \<times> dbl list \<times> 8 word list" where
  "insert_downwind j = (\<lambda>(D, C, W).
     let d = D ! j;
         c = C ! j;
         wid = W ! j;
         (i, D, C, W) = sift_downwind j d (D, C, W)
     in (D[i := d], C[i := c], W[i := wid]))"

definition sort_downwind ::
  "nat \<Rightarrow> dbl list \<times> dbl list \<times> 8 word list \<Rightarrow> dbl list \<times> dbl list \<times> 8 word list" where
  "sort_downwind n = fold insert_downwind [1..<n]"

text \<open>The insertion sort of lines 190-211, of the five output arrays on the turbine
  numbers.\<close>

fun sift_id ::
  "nat \<Rightarrow> 8 word \<Rightarrow> wake_arrays \<times> 8 word list \<Rightarrow> nat \<times> wake_arrays \<times> 8 word list" where
  "sift_id 0 wid (A, W) = (0, A, W)"
| "sift_id (Suc k) wid (A, W) =
     (if W ! k > wid
      then sift_id k wid
             (A\<lparr>Power := (Power A)[Suc k := Power A ! k],
                Thrust := (Thrust A)[Suc k := Thrust A ! k],
                Eff := (Eff A)[Suc k := Eff A ! k],
                adWindSpeed := (adWindSpeed A)[Suc k := adWindSpeed A ! k],
                aTurbulence_intensity :=
                  (aTurbulence_intensity A)[Suc k := aTurbulence_intensity A ! k]\<rparr>,
              W[Suc k := W ! k])
      else (Suc k, A, W))"

definition insert_id :: "nat \<Rightarrow> wake_arrays \<times> 8 word list \<Rightarrow> wake_arrays \<times> 8 word list" where
  "insert_id j = (\<lambda>(A, W).
     let p = Power A ! j;
         t = Thrust A ! j;
         e = Eff A ! j;
         w = adWindSpeed A ! j;
         b = aTurbulence_intensity A ! j;
         wid = W ! j;
         (i, A, W) = sift_id j wid (A, W)
     in (A\<lparr>Power := (Power A)[i := p], Thrust := (Thrust A)[i := t], Eff := (Eff A)[i := e],
           adWindSpeed := (adWindSpeed A)[i := w],
           aTurbulence_intensity := (aTurbulence_intensity A)[i := b]\<rparr>,
         W[i := wid]))"

definition sort_id :: "nat \<Rightarrow> wake_arrays \<times> 8 word list \<Rightarrow> wake_arrays \<times> 8 word list" where
  "sort_id n = fold insert_id [1..<n]"

text \<open>Lines 86-100: the coordinates of the turbines along and across the wind, and the
  output arrays at their start values.\<close>

definition farm_coordinates ::
  "wind_env \<Rightarrow> wind_power_calculator \<Rightarrow> dbl \<Rightarrow> nat \<Rightarrow> dbl list \<times> dbl list" where
  "farm_coordinates env wpc fWindDirectionDegrees n =
     (map (\<lambda>i. fst (coordtrans env (m_adYCoords wpc ! i) (m_adXCoords wpc ! i)
                       fWindDirectionDegrees)) [0..<n],
      map (\<lambda>i. snd (coordtrans env (m_adYCoords wpc ! i) (m_adXCoords wpc ! i)
                       fWindDirectionDegrees)) [0..<n])"

definition farm_start :: "wind_power_calculator \<Rightarrow> dbl \<Rightarrow> nat \<Rightarrow> wake_arrays \<Rightarrow> wake_arrays" where
  "farm_start wpc fWindSpeed n =
     fold (\<lambda>i A. A\<lparr>Power := (Power A)[i := 0], Thrust := (Thrust A)[i := 0],
                   Eff := (Eff A)[i := 0], adWindSpeed := (adWindSpeed A)[i := fWindSpeed],
                   aTurbulence_intensity :=
                     (aTurbulence_intensity A)[i := m_dTurbulenceIntensity wpc]\<rparr>) [0..<n]"

text \<open>Lines 102-122: the coordinates made non-negative and turned into rotor radii.\<close>

definition farm_radii ::
  "wind_power_calculator \<Rightarrow> nat \<Rightarrow> dbl list \<times> dbl list \<Rightarrow> dbl list \<times> dbl list" where
  "farm_radii wpc n = (\<lambda>(D, C).
     let Dmin = fold (\<lambda>j Dmin. min_of (D ! j) Dmin) [1..<n] (D ! 0);
         Cmin = fold (\<lambda>j Cmin. min_of (C ! j) Cmin) [1..<n] (C ! 0);
         D = fold (\<lambda>j D. D[j := D ! j - Dmin]) [0..<n] D;
         C = fold (\<lambda>j C. C[j := C ! j - Cmin]) [0..<n] C;
         D = fold (\<lambda>i D. D[i := Fin 2 * D ! i / m_dRotorDiameter wpc]) [0..<n] D;
         C = fold (\<lambda>i C. C[i := Fin 2 * C ! i / m_dRotorDiameter wpc]) [0..<n] C
     in (D, C))"

text \<open>Lines 151-174: the wake model chosen. The last component of the result is \<open>False\<close>
  where the code returns 0 from \<^verbatim>\<open>wind_power\<close>.\<close>

definition run_wake_model ::
  "wind_env \<Rightarrow> dbl \<Rightarrow> dbl list \<Rightarrow> dbl list \<Rightarrow> wake_arrays \<times> wind_power_calculator
     \<Rightarrow> wake_arrays \<times> wind_power_calculator \<times> bool" where
  "run_wake_model env fAirDensity D C = (\<lambda>(A, wpc).
     if m_iWakeModelChoice wpc = PAT_QUINLAN_WAKE_MODEL env then
       (case wake_calculations_pat_quinlan_mod env fAirDensity D C (A, wpc) of
          (A, wpc) \<Rightarrow> (A, wpc, True))
     else if m_iWakeModelChoice wpc = PARK_WAKE_MODEL env then
       (case wake_calculations_Park env fAirDensity D C (A, wpc) of
          (A, wpc) \<Rightarrow> (A, wpc, True))
     else if m_iWakeModelChoice wpc = SIMPLE_EDDY_VISCOSITY_WAKE_MODEL env then
       (case wake_calculations_EddyViscosity_Simple env wpc fAirDensity D C A of
          (ok, A, err) \<Rightarrow> (A, wpc\<lparr>m_sErrDetails := err\<rparr>, ok))
     else if m_iWakeModelChoice wpc = OLD_PQ env then
       (case wake_calculations_pat_quinlan_old env fAirDensity D C (A, wpc) of
          (A, wpc) \<Rightarrow> (A, wpc, True))
     else
       (A, wpc\<lparr>m_sErrDetails :=
          ''Unknown wake model encountered in wind_power_calculator::wind_power.''\<rparr>, False))"

text \<open>
  \<^verbatim>\<open>wind_power\<close>: the value returned, the outputs and the object. An output that the code
  does not assign on some path keeps the value the caller handed over.
\<close>

definition wind_power ::
  "wind_env \<Rightarrow> dbl \<Rightarrow> dbl \<Rightarrow> dbl \<Rightarrow> dbl \<Rightarrow> wind_outputs \<Rightarrow> wind_power_calculator
     \<Rightarrow> int \<times> wind_outputs \<times> wind_power_calculator" where
  "wind_power env fWindSpeed fWindDirectionDegrees dAirPressureAtm TdryC out wpc0 =
     (if m_iNumberOfTurbinesInFarm wpc0 > MAX_WIND_TURBINES env
         \<or> m_iNumberOfTurbinesInFarm wpc0 < 1 then
        (0, out, wpc0\<lparr>m_sErrDetails :=
           ''The number of wind turbines was greater than the maximum allowed in the wake model.''\<rparr>)
      else
        let n = nat (m_iNumberOfTurbinesInFarm wpc0);
            wt_id = map (\<lambda>i. (word_of_nat i :: 8 word)) [0..<n];
            fAirDensity = (dAirPressureAtm * physics_Pa_PER_Atm env) /
                            (physics_R_Gas env * physics_CelciusToKelvin env TdryC);
            (fTurbine_output, fThrust_coeff, wpc) = turbine_power env fWindSpeed fAirDensity wpc0
        in if m_iNumberOfTurbinesInFarm wpc < 2 then (1, out\<lparr>FarmP := fTurbine_output\<rparr>, wpc)
           else if fTurbine_output \<le> 0 then
             (m_iNumberOfTurbinesInFarm wpc, out\<lparr>FarmP := 0\<rparr>, wpc)
           else
             let (D, C) = farm_coordinates env wpc fWindDirectionDegrees n;
                 A = farm_start wpc fWindSpeed n (wake_arrays.truncate out);
                 (D, C) = farm_radii wpc n (D, C);
                 A = A\<lparr>Power := (Power A)[0 := fTurbine_output],
                        Thrust := (Thrust A)[0 := fThrust_coeff],
                        Eff := (Eff A)[0 := (if fTurbine_output < 1 then 0 else Fin 100)]\<rparr>;
                 (D, C, wt_id) = sort_downwind n (D, C, wt_id);
                 (A, wpc, ok) = run_wake_model env fAirDensity D C (A, wpc)
             in if \<not> ok then (0, wake_arrays.extend A (wind_outputs.fields (FarmP out)), wpc)
                else
                  let farm = fold (\<lambda>i p. p + Power A ! i) [0..<n] 0;
                      (A, wt_id) = sort_id n (A, wt_id)
                  in (m_iNumberOfTurbinesInFarm wpc,
                      wake_arrays.extend A (wind_outputs.fields farm), wpc))"
section \<open>Concrete inputs\<close>

text \<open>
  A toy equation of state on which the functions can be run: the enthalpy of a state is
  \<open>T - P / 1000\<close> and its entropy \<open>T / P\<close>, so that the temperature is proportional to the
  pressure along an isentrope. \<open>toy_oracle\<close> answers every query; \<open>cold_only_oracle\<close>
  answers \<^verbatim>\<open>CO2_TP\<close> below 350 K only and fails with code 3 above.
\<close>

definition toy_state :: "dbl \<Rightarrow> dbl \<Rightarrow> CO2_state" where
  "toy_state T P =
     \<lparr>temp = T, pres = P, dens = P / T, enth = T - P / Fin 1000, entr = T / P, ssnd = Fin 1\<rparr>"

definition toy_TP :: "dbl \<Rightarrow> dbl \<Rightarrow> int \<times> CO2_state" where
  "toy_TP T P = (0, toy_state T P)"

definition toy_PS :: "dbl \<Rightarrow> dbl \<Rightarrow> int \<times> CO2_state" where
  "toy_PS P S = (0, toy_state (S * P) P)"

definition toy_PH :: "dbl \<Rightarrow> dbl \<Rightarrow> int \<times> CO2_state" where
  "toy_PH P H = (0, toy_state (H + P / Fin 1000) P)"

definition cold_only_TP :: "dbl \<Rightarrow> dbl \<Rightarrow> int \<times> CO2_state" where
  "cold_only_TP T P = (if T < Fin 350 then 0 else 3, toy_state T P)"

definition toy_oracle :: co2_oracle where
  "toy_oracle = \<lparr>CO2_TP = toy_TP, CO2_PS = toy_PS, CO2_PH = toy_PH\<rparr>"

definition cold_only_oracle :: co2_oracle where
  "cold_only_oracle = \<lparr>CO2_TP = cold_only_TP, CO2_PS = toy_PS, CO2_PH = toy_PH\<rparr>"

text \<open>A recuperator between a 300 K cold stream and a 400 K hot stream, with a duty of 100
  and with no duty; and the caller's variables, not yet assigned.\<close>

definition hx_duty :: hxr_args where
  "hx_duty = \<lparr>N_hxrs = 10, Q_dot = Fin 100, m_dot_c = Fin 1, m_dot_h = Fin 1,
     T_c_in = Fin 300, T_h_in = Fin 400, P_c_in = Fin 20000, P_c_out = Fin 19900,
     P_h_in = Fin 8000, P_h_out = Fin 7900\<rparr>"

definition hx_no_duty :: hxr_args where
  "hx_no_duty = hx_duty\<lparr>Q_dot := Fin 0\<rparr>"

definition hx_unset :: hxr_out where
  "hx_unset = \<lparr>hx_error_code = 0, UA = NaN, min_DT = NaN\<rparr>"

definition tm_unset :: turbo_out where
  "tm_unset = \<lparr>tm_error_code = 0, tm_enth_in = NaN, tm_entr_in = NaN, tm_dens_in = NaN,
     tm_temp_out = NaN, tm_enth_out = NaN, tm_entr_out = NaN, tm_dens_out = NaN,
     tm_spec_work = NaN\<rparr>"

text \<open>
  A cycle object before its first solve, with design parameters \<open>des\<close>: the state vectors
  hold ten unassigned values.
\<close>

definition opt_unset :: S_opt_design_parameters where
  "opt_unset = \<lparr>opt_P_high_limit = NaN, m_UA_rec_total = NaN, m_P_mc_out_guess = NaN,
     m_fixed_P_mc_out = False, m_PR_mc_guess = NaN, m_fixed_PR_mc = False,
     m_recomp_frac_guess = NaN, m_fixed_recomp_frac = False, m_LT_frac_guess = NaN,
     m_fixed_LT_frac = False\<rparr>"

definition new_cycle :: "S_design_parameters \<Rightarrow> cycle" where
  "new_cycle des = \<lparr>ms_des_par = des, ms_opt_des_par = opt_unset, ms_des_par_optimal = des,
     m_eta_thermal_opt = NaN,
     m_temp_last = replicate 10 NaN, m_pres_last = replicate 10 NaN,
     m_enth_last = replicate 10 NaN, m_entr_last = replicate 10 NaN,
     m_dens_last = replicate 10 NaN,
     m_LT = HX_unset, m_HT = HX_unset, m_PHX = HX_unset, m_PC = HX_unset,
     m_W_dot_net_last = NaN, m_eta_thermal_last = NaN, m_m_dot_mc = NaN, m_m_dot_rc = NaN,
     m_m_dot_t = NaN\<rparr>"

text \<open>
  Design parameters for the toy equation of state: compression from 100 to 400 at 300 K,
  which ends at 1200 K, and an expansion from 4320 K that ends at 1200 K too, so that the
  compressor outlet is exactly as hot as the turbine outlet; two recuperators of conductance
  1000, no recompression, and a pressure drop of 40 in the cold side of the low-temperature
  recuperator.
\<close>

definition des_pinch :: S_design_parameters where
  "des_pinch = \<lparr>m_W_dot_net = Fin 1000, m_T_mc_in = Fin 300, m_T_t_in = Fin 4320,
     m_P_mc_in = Fin 100, m_P_mc_out = Fin 400,
     m_DP_LT = [Fin 40, Fin 0], m_DP_HT = [Fin 0, Fin 0], m_DP_PC = [Fin 0, Fin 0],
     m_DP_PHX = [Fin 0, Fin 0],
     m_UA_LT = Fin 1000, m_UA_HT = Fin 1000, m_recomp_frac = Fin 0,
     m_eta_mc = Fin 1, m_eta_rc = Fin 1, m_eta_t = Fin 1, m_N_sub_hxrs = 10,
     m_P_high_limit = Fin 25000, m_tol = Fin (1 / 10 ^ 6), m_N_turbine = Fin 3000\<rparr>"

text \<open>A cycle without recuperators, where the expansion from 4800 K and 400 to 100 ends at
  1200 K; and the same cycle asked for no net power.\<close>

definition des_simple :: S_design_parameters where
  "des_simple = des_pinch\<lparr>m_UA_LT := Fin 0, m_UA_HT := Fin 0, m_T_t_in := Fin 4800\<rparr>"

definition des_no_power :: S_design_parameters where
  "des_no_power = des_simple\<lparr>m_W_dot_net := Fin 0\<rparr>"

text \<open>
  A second toy equation of state, whose enthalpy \<open>T + P / 1000\<close> rises with the pressure,
  and design parameters for it: the expansion from 4000 K and 400 to 120 ends at 1200 K, and
  the hot side of the low-temperature recuperator drops the pressure by 20.
\<close>

definition toy_state_up :: "dbl \<Rightarrow> dbl \<Rightarrow> CO2_state" where
  "toy_state_up T P =
     \<lparr>temp = T, pres = P, dens = P / T, enth = T + P / Fin 1000, entr = T / P, ssnd = Fin 1\<rparr>"

definition toy_up_TP :: "dbl \<Rightarrow> dbl \<Rightarrow> int \<times> CO2_state" where
  "toy_up_TP T P = (0, toy_state_up T P)"

definition toy_up_PS :: "dbl \<Rightarrow> dbl \<Rightarrow> int \<times> CO2_state" where
  "toy_up_PS P S = (0, toy_state_up (S * P) P)"

definition toy_up_PH :: "dbl \<Rightarrow> dbl \<Rightarrow> int \<times> CO2_state" where
  "toy_up_PH P H = (0, toy_state_up (H - P / Fin 1000) P)"

definition toy_oracle_up :: co2_oracle where
  "toy_oracle_up = \<lparr>CO2_TP = toy_up_TP, CO2_PS = toy_up_PS, CO2_PH = toy_up_PH\<rparr>"

definition des_up :: S_design_parameters where
  "des_up = des_pinch\<lparr>m_T_t_in := Fin 4000, m_DP_LT := [Fin 0, Fin 20]\<rparr>"


definition des_negative :: S_design_parameters where
  "des_negative = des_simple\<lparr>m_W_dot_net := Fin (- 1000)\<rparr>"

text \<open>
  States of the design solver on these inputs: \<open>_S0\<close> after the statements before the
  loops, \<open>_S\<close> at the first head of the outer loop, \<open>_S1\<close> at its second head; \<open>up_T0\<close> at
  state 8 of the first outer iteration, \<open>up_T\<close> and \<open>up_T1\<close> at the first and second head of
  the inner loop.
\<close>

definition simple_S0 :: dcs where
  "simple_S0 = final_state (design_before_loops toy_oracle (dcs_entry (new_cycle des_simple) 0 []))"

definition simple_S :: dcs where
  "simple_S = T8_init simple_S0"

definition simple_S1 :: dcs where
  "simple_S1 = final_state (T8_body toy_oracle 0 simple_S)"

definition up_S0 :: dcs where
  "up_S0 = final_state (design_before_loops toy_oracle_up (dcs_entry (new_cycle des_up) 0 []))"

definition up_S :: dcs where
  "up_S = T8_init up_S0"

definition up_T0 :: dcs where
  "up_T0 = final_state (T8_state8 toy_oracle_up up_S)"

definition up_T :: dcs where
  "up_T = T9_init up_T0"

definition up_T1 :: dcs where
  "up_T1 = final_state (T9_body toy_oracle_up 0 up_T)"

definition negative_S0 :: dcs where
  "negative_S0 = final_state (design_before_loops toy_oracle (dcs_entry (new_cycle des_negative) 0 []))"

definition negative_T0 :: dcs where
  "negative_T0 = final_state (T8_state8 toy_oracle (T8_init negative_S0))"

definition negative_T1 :: dcs where
  "negative_T1 = final_state (T9_recompressor toy_oracle (T9_init negative_T0))"

definition nopower_S0 :: dcs where
  "nopower_S0 = final_state (design_before_loops toy_oracle (dcs_entry (new_cycle des_no_power) 0 []))"

definition nopower_T0 :: dcs where
  "nopower_T0 = final_state (T8_state8 toy_oracle (T8_init nopower_S0))"

definition nopower_T1 :: dcs where
  "nopower_T1 = final_state (T9_recompressor toy_oracle (T9_init nopower_T0))"

definition pinch_S :: dcs where
  "pinch_S = T8_init (final_state (design_before_loops toy_oracle (dcs_entry (new_cycle des_pinch) 0 [])))"

definition pinch_S1 :: dcs where
  "pinch_S1 = final_state (T8_body toy_oracle 0 pinch_S)"

text \<open>The oracle calls of one more iteration of the outer loop on \<open>des_simple\<close>, and of the
  inner loop on \<open>des_up\<close>.\<close>

definition simple_calls :: "oracle_call list" where
  "simple_calls =
     [TP (Fin 1200) (Fin 100) 0, TP (Fin 1200) (Fin 100) 0, PH (Fin 400) (Fin (5998 / 5)) 0]"

definition up_calls :: "oracle_call list" where
  "up_calls =
     [TP (Fin 1200) (Fin 100) 0, TP (Fin 1200) (Fin 400) 0, TP (Fin 1200) (Fin 120) 0,
      PH (Fin 120) (Fin (30003 / 25)) 0, PH (Fin 400) (Fin (60021 / 50)) 0]"

text \<open>
  The optimiser's parameters with the four variables free, a pressure limit of 25000 and a
  total conductance of 2000; and vectors of free variables: outlet pressure 800, pressure
  ratio 4, then a recompression fraction of 1.5 or 0.5 and a conductance share of 0.5 or
  1.5.
\<close>

definition opt_free :: S_opt_design_parameters where
  "opt_free = opt_unset\<lparr>opt_P_high_limit := Fin 25000, m_UA_rec_total := Fin 2000\<rparr>"

definition free_cycle :: cycle where
  "free_cycle = (new_cycle des_pinch)\<lparr>ms_opt_des_par := opt_free\<rparr>"

definition x_recomp_high :: "dbl list" where
  "x_recomp_high = [Fin 800, Fin 4, Fin 1.5, Fin 0.5]"

definition x_LT_high :: "dbl list" where
  "x_LT_high = [Fin 800, Fin 4, Fin 0.5, Fin 1.5]"

text \<open>
  An oracle that is \<open>toy_oracle_up\<close> but for the state at 1200 K and 400, where \<^verbatim>\<open>CO2_TP\<close>
  returns the code 11. On \<open>des_up\<close> that state is the cold inlet of the low-temperature
  recuperator and of no other call. \<open>eleven_T\<close> is the state at the first head of the inner
  loop and \<open>eleven_T1\<close> the state after its first pass.
\<close>

definition eleven_TP :: "dbl \<Rightarrow> dbl \<Rightarrow> int \<times> CO2_state" where
  "eleven_TP T P = (if T = Fin 1200 \<and> P = Fin 400 then 11 else 0, toy_state_up T P)"

definition eleven_oracle :: co2_oracle where
  "eleven_oracle = \<lparr>CO2_TP = eleven_TP, CO2_PS = toy_up_PS, CO2_PH = toy_up_PH\<rparr>"

definition eleven_T :: dcs where
  "eleven_T = T9_init (final_state (T8_state8 eleven_oracle (T8_init (final_state
     (design_before_loops eleven_oracle (dcs_entry (new_cycle des_up) 0 []))))))"

definition eleven_T1 :: dcs where
  "eleven_T1 = final_state (T9_body eleven_oracle 0 eleven_T)"

text \<open>
  An environment for the wind farm: a stand-in for \<^verbatim>\<open>pow\<close> that is right at the exponents
  0, 1, 2 and 3, linear interpolation, an eddy-viscosity model that fails, and no other
  library function. A farm of two turbines 500 m apart with a power curve through
  (0, 0), (10, 1000) and (20, 1000), a cut-in speed of 4 and stall control; the same farm
  with one turbine and with none; and output variables that hold the results of an earlier
  call.
\<close>

definition toy_pow :: "dbl \<Rightarrow> dbl \<Rightarrow> dbl" where
  "toy_pow x y =
     (if y = Fin 0 then Fin 1 else if y = Fin 1 then x else if y = Fin 2 then x * x
      else if y = Fin 3 then x * x * x else NaN)"

definition toy_wind_env :: wind_env where
  "toy_wind_env = \<lparr>MAX_WIND_TURBINES = 300, PAT_QUINLAN_WAKE_MODEL = 0, PARK_WAKE_MODEL = 1,
     SIMPLE_EDDY_VISCOSITY_WAKE_MODEL = 2, OLD_PQ = 3, physics_PI = Fin 3.14159265358979,
     physics_Pa_PER_Atm = Fin 101325, physics_R_Gas = Fin 287.058,
     physics_AIR_DENSITY_SEA_LEVEL = Fin 1.225,
     physics_CelciusToKelvin = (\<lambda>T. T + Fin 273.15),
     util_interpolate = (\<lambda>x1 y1 x2 y2 x. y1 + (x - x1) * (y2 - y1) / (x2 - x1)),
     c_pow = toy_pow, c_sqrt = (\<lambda>x. NaN), c_exp = (\<lambda>x. NaN), c_log = (\<lambda>x. NaN),
     c_acos = (\<lambda>x. NaN), c_cos = (\<lambda>x. NaN), c_sin = (\<lambda>x. NaN),
     wake_calculations_EddyViscosity_Simple = (\<lambda>wpc d D C A. (False, A, ''failed''))\<rparr>"

definition farm_two :: wind_power_calculator where
  "farm_two = \<lparr>m_iNumberOfTurbinesInFarm = 2, m_adXCoords = [Fin 0, Fin 0],
     m_adYCoords = [Fin 0, Fin 500], m_dRotorDiameter = Fin 80, m_dTurbulenceIntensity = Fin 0.1,
     m_iWakeModelChoice = 1, m_dWakeDecayCoefficient = Fin 0.07, m_sErrDetails = [],
     m_dShearExponent = Fin 0, m_dHubHeight = Fin 80, m_dMeasurementHeight = Fin 80,
     m_iLengthOfTurbinePowerCurveArray = 3, m_adPowerCurveWS = [Fin 0, Fin 10, Fin 20],
     m_adPowerCurveKW = [Fin 0, Fin 1000, Fin 1000], m_dCutInSpeed = Fin 4, m_iControlMode = 2,
     m_dRatedSpeed = Fin 10, m_dRatedPower = Fin 1000, m_dLossesPercent = Fin 0,
     m_dLossesAbsolute = Fin 0\<rparr>"

definition farm_one :: wind_power_calculator where
  "farm_one = farm_two\<lparr>m_iNumberOfTurbinesInFarm := 1\<rparr>"

definition farm_none :: wind_power_calculator where
  "farm_none = farm_two\<lparr>m_iNumberOfTurbinesInFarm := 0\<rparr>"

definition earlier_outputs :: wind_outputs where
  "earlier_outputs = \<lparr>Power = [Fin 900, Fin 700], Thrust = [Fin 0.8, Fin 0.7],
     Eff = [Fin 100, Fin 78], adWindSpeed = [Fin 9, Fin 8],
     aTurbulence_intensity = [Fin 0.1, Fin 0.12], FarmP = Fin 1600\<rparr>"
section \<open>Vocabulary of the statements\<close>

text \<open>\<open>calls_ok cs\<close>: every oracle call of \<open>cs\<close> returned zero.\<close>

definition calls_ok :: "oracle_call list \<Rightarrow> bool" where
  "calls_ok cs = list_all (\<lambda>c. returned_code c = 0) cs"

text \<open>
  The code \<^verbatim>\<open>calculate_hxr_UA_1\<close> reports when the last of the calls \<open>new\<close> it has made
  failed: the first call (cold inlet) is forwarded, the second (hot inlet) is reported as 9,
  and in the loop the hot-side call of a node as 12 and the cold-side call as 13.
\<close>

definition hxr_reported_code :: "oracle_call list \<Rightarrow> int" where
  "hxr_reported_code new =
     (if length new = 1 then returned_code (last new)
      else if length new = 2 then 9
      else if odd (length new) then 12 else 13)"


text \<open>
  \<open>quiet cs\<close>: every oracle call of \<open>cs\<close> returned zero or 11, the two codes after which a
  run of the design solver can go on. \<open>goes_on tr s\<close>: the state \<open>s\<close> has added to the log
  \<open>tr\<close> quiet calls only.
\<close>

definition quiet :: "oracle_call list \<Rightarrow> bool" where
  "quiet cs = list_all (\<lambda>c. returned_code c = 0 \<or> returned_code c = 11) cs"

definition goes_on :: "oracle_call list \<Rightarrow> dcs \<Rightarrow> bool" where
  "goes_on tr s = (\<exists>new. calls s = tr @ new \<and> quiet new)"

text \<open>
  \<open>ends_in_hxr orc s\<close>: the log of \<open>s\<close> ends with a call of \<^verbatim>\<open>calculate_hxr_UA_1\<close> whose
  error code is the error code of \<open>s\<close>.
\<close>

definition ends_in_hxr :: "co2_oracle \<Rightarrow> dcs \<Rightarrow> bool" where
  "ends_in_hxr orc s =
     (\<exists>a r0 tr0 r1. calculate_hxr_UA_1 orc a (r0, tr0) = (r1, calls s) \<and>
        hx_error_code r1 = error_code s)"

text \<open>
  \<open>failure_reported orc tr s\<close>, of the state \<open>s\<close> in which a run that started with the log
  \<open>tr\<close> has returned: every call but the last was quiet, and if the last call failed with
  a code other than 11 then the error code of \<open>s\<close> is that code, or it is 9, 12 or 13 and the
  run ended in \<^verbatim>\<open>calculate_hxr_UA_1\<close>, which reported it.
\<close>

definition failure_reported :: "co2_oracle \<Rightarrow> oracle_call list \<Rightarrow> dcs \<Rightarrow> bool" where
  "failure_reported orc tr s =
     (\<exists>new. calls s = tr @ new \<and> quiet (butlast new) \<and>
        (new \<noteq> [] \<and> returned_code (last new) \<noteq> 0 \<and> returned_code (last new) \<noteq> 11 \<longrightarrow>
           error_code s = returned_code (last new) \<or>
           ((error_code s = 9 \<or> error_code s = 12 \<or> error_code s = 13) \<and> ends_in_hxr orc s)))"

text \<open>\<open>step_ok orc tr c\<close>: the same of a statement that started with the log \<open>tr\<close> and ended
  as \<open>c\<close>: a failure is reported if it has returned, and it goes on otherwise.\<close>

definition step_ok :: "co2_oracle \<Rightarrow> oracle_call list \<Rightarrow> (dcs, dcs) ctl \<Rightarrow> bool" where
  "step_ok orc tr c =
     (case c of Return s \<Rightarrow> failure_reported orc tr s | Next s \<Rightarrow> goes_on tr s
      | Continue s \<Rightarrow> goes_on tr s | Break s \<Rightarrow> goes_on tr s)"

text \<open>\<open>forwards tr tr' code\<close>, of a routine that started with the log \<open>tr\<close> and ended with the
  log \<open>tr'\<close> and the error code \<open>code\<close>: every call but the last succeeded, and the code is
  zero when the last succeeded too and is the code of the last call otherwise.\<close>

definition forwards :: "oracle_call list \<Rightarrow> oracle_call list \<Rightarrow> int \<Rightarrow> bool" where
  "forwards tr tr' code =
     (\<exists>new. tr' = tr @ new \<and> calls_ok (butlast new) \<and>
        (if code = 0 then calls_ok new else new \<noteq> [] \<and> returned_code (last new) = code))"

text \<open>\<open>reaches_oracle a\<close>: none of the tests of lines 95-120 of \<^verbatim>\<open>calculate_hxr_UA_1\<close> ends
  the function, which goes on to its first oracle call.\<close>

definition reaches_oracle :: "hxr_args \<Rightarrow> bool" where
  "reaches_oracle a =
     (\<not> Q_dot a < 0 \<and> \<not> T_h_in a < T_c_in a \<and> \<not> P_h_in a < P_h_out a \<and>
      \<not> P_c_in a < P_c_out a \<and> \<not> Q_dot a \<le> Fin (1 / 10 ^ 14))"

text \<open>
  The call of \<^verbatim>\<open>calculate_hxr_UA_1\<close> that the inner loop makes for the low-temperature
  recuperator in the state \<open>s0\<close> (lines 2919-2932), and the one that the outer loop makes
  for the high-temperature recuperator (lines 3032-3045): what they return.
\<close>

definition LT_UA_call :: "co2_oracle \<Rightarrow> dcs \<Rightarrow> hxr_out \<times> oracle_call list" where
  "LT_UA_call orc s0 =
     (let des = ms_des_par s0;
          s = (if m_UA_LT des < Fin (1 / 10 ^ 12) then s0\<lparr>Q_dot_LT := 0\<rparr>
               else s0\<lparr>Q_dot_LT := m_dot_t s0 * (enth_last s0 8 - enth_last s0 9)\<rparr>);
          s = s\<lparr>min_DT_LT := NaN\<rparr>
      in calculate_hxr_UA_1 orc
             \<lparr>N_hxrs = m_N_sub_hxrs des, Q_dot = Q_dot_LT s, m_dot_c = m_dot_mc s,
               m_dot_h = m_dot_t s, T_c_in = temp_last s 2, T_h_in = temp_last s 8,
               P_c_in = pres_last s 2, P_c_out = pres_last s 3, P_h_in = pres_last s 8,
               P_h_out = pres_last s 9\<rparr>
             (\<lparr>hx_error_code = 0, UA = UA_LT_calc s, min_DT = min_DT_LT s\<rparr>, calls s))"

definition HT_UA_call :: "co2_oracle \<Rightarrow> dcs \<Rightarrow> hxr_out \<times> oracle_call list" where
  "HT_UA_call orc s0 =
     (let des = ms_des_par s0;
          s = (if m_UA_HT des < Fin (1 / 10 ^ 12) then s0\<lparr>Q_dot_HT := 0\<rparr>
               else s0\<lparr>Q_dot_HT := m_dot_t s0 * (enth_last s0 7 - enth_last s0 8)\<rparr>);
          s = s\<lparr>min_DT_HT := NaN\<rparr>
      in calculate_hxr_UA_1 orc
             \<lparr>N_hxrs = m_N_sub_hxrs des, Q_dot = Q_dot_HT s, m_dot_c = m_dot_t s,
               m_dot_h = m_dot_t s, T_c_in = temp_last s 4, T_h_in = temp_last s 7,
               P_c_in = pres_last s 4, P_c_out = pres_last s 5, P_h_in = pres_last s 7,
               P_h_out = pres_last s 8\<rparr>
             (\<lparr>hx_error_code = 0, UA = UA_HT_calc s, min_DT = min_DT_HT s\<rparr>, calls s))"
section \<open>Arithmetic of doubles\<close>

lemma dbl_arith [simp]:
  "Fin x + Fin y = Fin (x + y)"
  "Fin x - Fin y = Fin (x - y)"
  "Fin x * Fin y = Fin (x * y)"
  "- Fin x = Fin (- x)"
  "\<bar>Fin x\<bar> = Fin \<bar>x\<bar>"
  "y \<noteq> 0 \<Longrightarrow> Fin x / Fin y = Fin (x / y)"
  by (simp_all add: plus_dbl_def minus_dbl_def times_dbl_def uminus_dbl_def abs_dbl_def
      divide_dbl_def)

lemma dbl_cmp [simp]:
  "(Fin x < Fin y) = (x < y)"
  "(Fin x \<le> Fin y) = (x \<le> y)"
  "\<not> NaN < a" "\<not> a < NaN" "\<not> NaN \<le> a" "\<not> a \<le> NaN"
  by (cases a; simp add: less_dbl_def less_eq_dbl_def)+

lemma dbl_nan [simp]:
  "NaN + a = NaN" "a + NaN = NaN" "NaN - a = NaN" "a - NaN = NaN"
  "NaN * a = NaN" "a * NaN = NaN" "NaN / a = NaN" "a / NaN = NaN"
  by (cases a; simp add: plus_dbl_def minus_dbl_def times_dbl_def divide_dbl_def)+

lemma dbl_consts [simp]: "(0::dbl) = Fin 0" "(1::dbl) = Fin 1"
  by (simp_all add: zero_dbl_def one_dbl_def)

lemma dne_self [simp]: "dne a a = (a = NaN)"
  by (simp add: dne_def)


lemma ddiv_zero [simp]:
  "Fin x / Fin 0 = (if x < 0 then NInf else if x = 0 then NaN else PInf)"
  by (simp add: divide_dbl_def inf_of_sign_def)

lemma dbl_inf [simp]:
  "PInf + Fin x = PInf" "Fin x + PInf = PInf" "NInf + Fin x = NInf" "Fin x + NInf = NInf"
  "PInf - Fin x = PInf" "Fin x - PInf = NInf" "NInf - Fin x = NInf" "Fin x - NInf = PInf"
  "Fin x / PInf = Fin 0" "Fin x / NInf = Fin 0"
  "Fin x < PInf" "NInf < Fin x" "Fin x \<le> PInf" "NInf \<le> Fin x"
  "\<not> PInf < Fin x" "\<not> Fin x < NInf" "\<not> PInf \<le> Fin x" "\<not> Fin x \<le> NInf"
  by (simp_all add: plus_dbl_def minus_dbl_def divide_dbl_def less_dbl_def less_eq_dbl_def)
section \<open>Loops\<close>

lemma then_do_simps [simp]:
  "then_do (Next s) f = f s" "then_do (Continue s) f = Continue s"
  "then_do (Break s) f = Break s" "then_do (Return r) f = Return r"
  by (simp_all add: then_do_def)

lemma then_do_cong: "c = c' \<Longrightarrow> then_do c f = then_do c' f"
  by simp

lemma for_loop_iterations: "fst (for_loop n body i s) \<le> nat (n - i)"
proof (induction n body i s rule: for_loop.induct)
  case (1 n body i s)
  show ?case
  proof (cases "i < n")
    case False
    then show ?thesis by (simp add: for_loop.simps[of n body i])
  next
    case True
    show ?thesis
    proof (cases "body i s")
      case (Next s')
      from "1.IH"(1)[OF True Next] True Next show ?thesis
        by (auto simp: for_loop.simps[of n body i] split: prod.splits)
    next
      case (Continue s')
      from "1.IH"(2)[OF True Continue] True Continue show ?thesis
        by (auto simp: for_loop.simps[of n body i] split: prod.splits)
    qed (use True in \<open>auto simp: for_loop.simps[of n body i]\<close>)
  qed
qed

text \<open>An invariant rule: \<open>P\<close> holds of the state at the head of every iteration, \<open>Q\<close> of the
  way the loop ends.\<close>

lemma for_loop_rule:
  assumes run: "for_loop n body i s = (k, x)"
    and init: "P s"
    and cont: "\<And>j t t'. i \<le> j \<Longrightarrow> j < n \<Longrightarrow> P t \<Longrightarrow>
                 body j t = Next t' \<or> body j t = Continue t' \<Longrightarrow> P t'"
    and brk: "\<And>j t t'. i \<le> j \<Longrightarrow> j < n \<Longrightarrow> P t \<Longrightarrow> body j t = Break t' \<Longrightarrow> Q (Exited j t')"
    and ret: "\<And>j t r. i \<le> j \<Longrightarrow> j < n \<Longrightarrow> P t \<Longrightarrow> body j t = Return r \<Longrightarrow> Q (Returned r)"
    and exh: "\<And>j t. i \<le> j \<Longrightarrow> \<not> j < n \<Longrightarrow> P t \<Longrightarrow> Q (Exited j t)"
  shows "Q x"
  using run init cont brk ret exh
proof (induction n body i s arbitrary: k x rule: for_loop.induct)
  case (1 n body i s)
  have step: "Q x" if go: "body i s = Next s' \<or> body i s = Continue s'" and "i < n" for s'
  proof -
    obtain k' x' where rec: "for_loop n body (i + 1) s' = (k', x')" by force
    with that "1.prems"(1) have x: "x = x'"
      by (auto simp: for_loop.simps[of n body i])
    have P': "P s'" using "1.prems"(3)[of i s s'] that "1.prems"(2) by simp
    have rest: "P s' \<Longrightarrow> Q x'" 
    proof -
      assume "P s'"
      from go show "Q x'"
      proof
        assume n: "body i s = Next s'"
        show "Q x'"
        proof (rule "1.IH"(1)[OF \<open>i < n\<close> n rec \<open>P s'\<close>])
          fix j t t' assume "i + 1 \<le> j" "j < n" "P t" "body j t = Next t' \<or> body j t = Continue t'"
          then show "P t'" using "1.prems"(3)[of j t t'] by simp
        next
          fix j t t' assume "i + 1 \<le> j" "j < n" "P t" "body j t = Break t'"
          then show "Q (Exited j t')" using "1.prems"(4)[of j t t'] by simp
        next
          fix j t r assume "i + 1 \<le> j" "j < n" "P t" "body j t = Return r"
          then show "Q (Returned r)" using "1.prems"(5)[of j t r] by simp
        next
          fix j t assume "i + 1 \<le> j" "\<not> j < n" "P t"
          then show "Q (Exited j t)" using "1.prems"(6)[of j t] by simp
        qed
      next
        assume n: "body i s = Continue s'"
        show "Q x'"
        proof (rule "1.IH"(2)[OF \<open>i < n\<close> n rec \<open>P s'\<close>])
          fix j t t' assume "i + 1 \<le> j" "j < n" "P t" "body j t = Next t' \<or> body j t = Continue t'"
          then show "P t'" using "1.prems"(3)[of j t t'] by simp
        next
          fix j t t' assume "i + 1 \<le> j" "j < n" "P t" "body j t = Break t'"
          then show "Q (Exited j t')" using "1.prems"(4)[of j t t'] by simp
        next
          fix j t r assume "i + 1 \<le> j" "j < n" "P t" "body j t = Return r"
          then show "Q (Returned r)" using "1.prems"(5)[of j t r] by simp
        next
          fix j t assume "i + 1 \<le> j" "\<not> j < n" "P t"
          then show "Q (Exited j t)" using "1.prems"(6)[of j t] by simp
        qed
      qed
    qed
    from rest[OF P'] x show ?thesis by simp
  qed
  show ?case
  proof (cases "i < n")
    case False
    with "1.prems"(1) have "x = Exited i s" by (simp add: for_loop.simps[of n body i])
    with False "1.prems"(2) "1.prems"(6)[of i s] show ?thesis by simp
  next
    case True
    show ?thesis
    proof (cases "body i s")
      case (Next s')
      with step True show ?thesis by blast
    next
      case (Continue s')
      with step True show ?thesis by blast
    next
      case (Break s')
      with True "1.prems"(1) have "x = Exited i s'" by (simp add: for_loop.simps[of n body i])
      with "1.prems"(4)[of i s s'] True Break "1.prems"(2) show ?thesis by simp
    next
      case (Return r)
      with True "1.prems"(1) have "x = Returned r" by (simp add: for_loop.simps[of n body i])
      with "1.prems"(5)[of i s r] True Return "1.prems"(2) show ?thesis by simp
    qed
  qed
qed

subsection \<open>Loop heads\<close>

lemma loop_head_counter: "loop_head n body i s k = Some (j, t) \<Longrightarrow> j = i + int k"
  by (induction n body i s k rule: loop_head.induct) (auto split: if_splits ctl.splits)

lemma loop_head_bound: "loop_head n body i s k = Some (j, t) \<Longrightarrow> k = 0 \<or> j \<le> n"
  by (induction n body i s k rule: loop_head.induct) (auto split: if_splits ctl.splits)

lemma loop_head_for_loop:
  "loop_head n body i s k = Some (j, t) \<Longrightarrow>
     for_loop n body i s = (k + fst (for_loop n body j t), snd (for_loop n body j t))"
proof (induction n body i s k rule: loop_head.induct)
  case (1 n body i s)
  then show ?case by simp
next
  case (2 n body i s k)
  from "2.prems" have lt: "i < n" by (simp split: if_splits)
  show ?case
  proof (cases "body i s")
    case (Next s')
    with "2.prems" lt have "loop_head n body (i + 1) s' k = Some (j, t)" by simp
    from "2.IH"(1)[OF lt Next this] lt Next show ?thesis
      by (simp add: for_loop.simps[of n body i])
  next
    case (Continue s')
    with "2.prems" lt have "loop_head n body (i + 1) s' k = Some (j, t)" by simp
    from "2.IH"(2)[OF lt Continue this] lt Continue show ?thesis
      by (simp add: for_loop.simps[of n body i])
  qed (use "2.prems" lt in auto)
qed

lemma loop_head_Suc:
  "loop_head n body i s k = Some (j, t) \<Longrightarrow> j < n \<Longrightarrow>
     body j t = Next t' \<or> body j t = Continue t' \<Longrightarrow>
     loop_head n body i s (Suc k) = Some (j + 1, t')"
  by (induction n body i s k rule: loop_head.induct) (auto split: if_splits ctl.splits)

lemma for_loop_exhausted: "\<not> i < n \<Longrightarrow> for_loop n body i s = (0, Exited i s)"
  by (simp add: for_loop.simps[of n body i])

lemma for_loop_Return: "i < n \<Longrightarrow> body i s = Return r \<Longrightarrow> for_loop n body i s = (1, Returned r)"
  by (simp add: for_loop.simps[of n body i])

lemma for_loop_Break: "i < n \<Longrightarrow> body i s = Break s' \<Longrightarrow> for_loop n body i s = (1, Exited i s')"
  by (simp add: for_loop.simps[of n body i])

text \<open>A loop that comes to its head with the counter at the bound is exited there; a body that
  returns at a head the loop comes to makes the loop return.\<close>

lemma loop_head_exhausted:
  assumes "loop_head n body i s k = Some (j, t)" and "\<not> j < n"
  shows "for_loop n body i s = (k, Exited j t)"
  using loop_head_for_loop[OF assms(1)] for_loop_exhausted[OF assms(2), of body t] by simp

lemma loop_head_Return:
  assumes "loop_head n body i s k = Some (j, t)" and "j < n" and "body j t = Return r"
  shows "for_loop n body i s = (Suc k, Returned r)"
  using loop_head_for_loop[OF assms(1)] for_loop_Return[of j n body t r] assms(2,3) by simp


text \<open>A body that changes the state along a family \<open>st\<close> only, and always continues, brings
  the loop to every head up to the bound.\<close>

lemma loop_head_first:
  "i < n \<Longrightarrow> body i s = Next s' \<or> body i s = Continue s' \<Longrightarrow>
     loop_head n body i s (Suc k) = loop_head n body (i + 1) s' k"
  by auto

lemma loop_head_fixpoint:
  assumes "\<And>j x. body j (st x) = Continue (st (nxt x))"
  shows "i + int k \<le> n \<Longrightarrow> loop_head n body i (st x) k = Some (i + int k, st ((nxt ^^ k) x))"
proof (induction k arbitrary: i x)
  case 0
  then show ?case by simp
next
  case (Suc k)
  have "loop_head n body i (st x) (Suc k) = loop_head n body (i + 1) (st (nxt x)) k"
    using Suc.prems by (simp add: assms)
  also have "\<dots> = Some (i + 1 + int k, st ((nxt ^^ k) (nxt x)))"
    using Suc.prems by (intro Suc.IH) simp
  finally show ?case by (simp add: funpow_swap1)
qed
section \<open>Heat exchanger and turbomachinery routines\<close>

lemma calls_ok_simps [simp]:
  "calls_ok []" "calls_ok (cs @ ds) = (calls_ok cs \<and> calls_ok ds)"
  "calls_ok (c # cs) = (returned_code c = 0 \<and> calls_ok cs)"
  by (simp_all add: calls_ok_def)

lemma turbo_forwards:
  assumes "calculate_turbomachinery_outlet_1 orc T_in P_in P_out eta is_comp (r, tr) = (r', tr')"
  shows "\<exists>new. tr' = tr @ new \<and> new \<noteq> [] \<and> calls_ok (butlast new)
           \<and> tm_error_code r' = returned_code (last new)"
  using assms
  by (auto simp: calculate_turbomachinery_outlet_1_def call_TP_def call_PS_def call_PH_def
      Let_def split: prod.splits if_splits)

lemma hxr_node_Return:
  assumes "hxr_node orc a e N i (p, r, tr) = Return (r', tr')"
  shows "(\<exists>c. tr' = tr @ [c] \<and> returned_code c \<noteq> 0 \<and> hx_error_code r' = 12)
       \<or> (\<exists>c d. tr' = tr @ [c, d] \<and> returned_code c = 0 \<and> returned_code d \<noteq> 0 \<and> hx_error_code r' = 13)
       \<or> (\<exists>c d. tr' = tr @ [c, d] \<and> returned_code c = 0 \<and> returned_code d = 0 \<and> hx_error_code r' = 11)"
  using assms
  by (auto simp: hxr_node_def call_PH_def Let_def split: prod.splits if_splits)

lemma hxr_node_Next:
  assumes "hxr_node orc a e N i (p, r, tr) = Next (p', r', tr')"
  shows "\<exists>c d. tr' = tr @ [c, d] \<and> returned_code c = 0 \<and> returned_code d = 0
            \<and> hx_error_code r' = hx_error_code r"
  using assms
  by (auto simp: hxr_node_def call_PH_def Let_def split: prod.splits if_splits)

lemma hxr_node_no_Break:
  "hxr_node orc a e N i s \<noteq> Break s'" "hxr_node orc a e N i s \<noteq> Continue s'"
  by (cases s; auto simp: hxr_node_def call_PH_def Let_def split: prod.splits if_splits)+


lemma hxr_loop_exit:
  assumes "hxr_loop orc a e N (p, r, tr) = (k, x)"
  shows "case x of
           Exited j (p', r', tr') \<Rightarrow>
             \<exists>new. tr' = tr @ new \<and> calls_ok new \<and> hx_error_code r' = hx_error_code r
         | Returned (r', tr') \<Rightarrow>
             \<exists>new. tr' = tr @ new \<and> new \<noteq> [] \<and> calls_ok (butlast new) \<and>
               (if returned_code (last new) \<noteq> 0
                then hx_error_code r' = (if odd (length new) then 12 else 13)
                else hx_error_code r' = 11)"
proof (rule for_loop_rule[where
      P = "\<lambda>(p', r', tr'). \<exists>new. tr' = tr @ new \<and> calls_ok new \<and> even (length new)
             \<and> hx_error_code r' = hx_error_code r",
      OF assms[unfolded hxr_loop_def]], goal_cases)
  case 1
  show ?case by simp
next
  case (2 j t t')
  obtain p1 r1 tr1 where t: "t = (p1, r1, tr1)" by (cases t)
  obtain p2 r2 tr2 where t': "t' = (p2, r2, tr2)" by (cases t')
  from 2(4) hxr_node_no_Break(2) have "hxr_node orc a e N j t = Next t'" by blast
  from hxr_node_Next[OF this[unfolded t t']] 2(3) show ?case
    by (auto simp: t t')
next
  case (3 j t t')
  with hxr_node_no_Break show ?case by blast
next
  case (4 j t x)
  obtain p1 r1 tr1 where t: "t = (p1, r1, tr1)" by (cases t)
  obtain r' tr' where x: "x = (r', tr')" by (cases x)
  from 4(3) obtain new where new: "tr1 = tr @ new" "calls_ok new" "even (length new)"
    by (auto simp: t)
  from hxr_node_Return[OF 4(4)[unfolded t x]]
  consider c where "tr' = tr1 @ [c]" "returned_code c \<noteq> 0" "hx_error_code r' = 12"
    | c d where "tr' = tr1 @ [c, d]" "returned_code c = 0" "returned_code d \<noteq> 0"
        "hx_error_code r' = 13"
    | c d where "tr' = tr1 @ [c, d]" "returned_code c = 0" "returned_code d = 0"
        "hx_error_code r' = 11"
    by blast
  then show ?case
  proof cases
    case 1
    with new show ?thesis
      by (auto simp: x intro!: exI[of _ "new @ [c]"])
  next
    case 2
    with new show ?thesis
      by (auto simp: x butlast_append intro!: exI[of _ "new @ [c, d]"])
  next
    case 3
    with new show ?thesis
      by (auto simp: x butlast_append intro!: exI[of _ "new @ [c, d]"])
  qed
next
  case (5 j t)
  then show ?case by auto
qed

lemma hxr_codes:
  assumes "calculate_hxr_UA_1 orc a (r, tr) = (r', tr')"
  shows "\<exists>new. tr' = tr @ new \<and> calls_ok (butlast new) \<and>
           (if new \<noteq> [] \<and> returned_code (last new) \<noteq> 0
            then hx_error_code r' = hxr_reported_code new
            else True)"
proof (cases "Q_dot a < 0 \<or> T_h_in a < T_c_in a \<or> P_h_in a < P_h_out a \<or> P_c_in a < P_c_out a
               \<or> Q_dot a \<le> Fin (1 / 10 ^ 14)")
  case True
  with assms have "tr' = tr"
    by (auto simp: calculate_hxr_UA_1_def split: if_splits)
  then show ?thesis by simp
next
  case False
  obtain cc sc where c: "CO2_TP orc (T_c_in a) (P_c_in a) = (cc, sc)" by force
  obtain ch sh where h: "CO2_TP orc (T_h_in a) (P_h_in a) = (ch, sh)" by force
  show ?thesis
  proof (cases "cc \<noteq> 0")
    case True
    with False c assms have "tr' = tr @ [TP (T_c_in a) (P_c_in a) cc]" "hx_error_code r' = cc"
      by (auto simp: calculate_hxr_UA_1_def call_TP_def)
    then show ?thesis by (simp add: hxr_reported_code_def)
  next
    case cc0: False
    show ?thesis
    proof (cases "ch \<noteq> 0")
      case True
      with False c h cc0 assms
      have "tr' = tr @ [TP (T_c_in a) (P_c_in a) 0, TP (T_h_in a) (P_h_in a) ch]"
        "hx_error_code r' = 9"
        by (auto simp: calculate_hxr_UA_1_def call_TP_def)
      then show ?thesis by (simp add: hxr_reported_code_def)
    next
      case ch0: False
      let ?tr2 = "tr @ [TP (T_c_in a) (P_c_in a) 0, TP (T_h_in a) (P_h_in a) 0]"
      let ?e = "\<lparr>h_c_in = enth sc, h_c_out = enth sc + Q_dot a / m_dot_c a,
                 h_h_in = enth sh, h_h_out = enth sh - Q_dot a / m_dot_h a\<rparr>"
      let ?s = "(\<lparr>h_h_prev = 0, T_h_prev = 0, h_c_prev = 0, T_c_prev = 0\<rparr>,
                 r\<lparr>UA := 0, min_DT := T_h_in a\<rparr>, ?tr2)"
      obtain k x where L: "hxr_loop orc a ?e (N_hxrs a + 1) ?s = (k, x)" by force
      from False c h cc0 ch0 assms L
      have res: "(case x of Returned y \<Rightarrow> y
          | Exited i (p1, r1, tr1) \<Rightarrow>
              if UA r1 = NaN then (r1\<lparr>hx_error_code := 14\<rparr>, tr1) else (r1, tr1))
          = (r', tr')"
        by (simp add: calculate_hxr_UA_1_def call_TP_def Let_def)
      show ?thesis
      proof (cases x)
        case (Exited j s1)
        obtain p1 r1 tr1 where s1: "s1 = (p1, r1, tr1)" by (cases s1)
        from hxr_loop_exit[OF L] Exited s1 obtain new where
          new: "tr1 = ?tr2 @ new" "calls_ok new" by auto
        from res Exited s1 have "tr' = tr1" by (auto split: if_splits)
        with new have "tr' = tr @ ([TP (T_c_in a) (P_c_in a) 0, TP (T_h_in a) (P_h_in a) 0] @ new)"
          by simp
        moreover have "calls_ok ([TP (T_c_in a) (P_c_in a) 0, TP (T_h_in a) (P_h_in a) 0] @ new)"
          using new by simp
        ultimately show ?thesis
          by (metis calls_ok_simps(2) append_butlast_last_id butlast.simps(1) calls_ok_simps(3))
      next
        case (Returned y)
        with res have y: "y = (r', tr')" by simp
        from hxr_loop_exit[OF L] Returned y obtain new where
          new: "tr' = ?tr2 @ new" "new \<noteq> []" "calls_ok (butlast new)"
          "if returned_code (last new) \<noteq> 0
           then hx_error_code r' = (if odd (length new) then 12 else 13)
           else hx_error_code r' = 11" by auto
        show ?thesis
          apply (rule exI[of _ "[TP (T_c_in a) (P_c_in a) 0, TP (T_h_in a) (P_h_in a) 0] @ new"])
          using new by (auto simp: butlast_append hxr_reported_code_def)
      qed
    qed
  qed
qed

lemma toy_simps [simp]:
  "CO2_TP cold_only_oracle = cold_only_TP"
  "CO2_PS cold_only_oracle = toy_PS"
  "CO2_PH cold_only_oracle = toy_PH"
  "CO2_TP toy_oracle = toy_TP"
  "CO2_PS toy_oracle = toy_PS"
  "CO2_PH toy_oracle = toy_PH"
  by (simp_all add: cold_only_oracle_def toy_oracle_def)

text \<open>
  Claim C4. When the duty satisfies \<open>0 \<le> Q_dot \<le> 1e-14\<close> and the inlet temperature and
  pressure checks pass, \<^verbatim>\<open>calculate_hxr_UA_1\<close> returns with the error code it was given
  (zero stays zero), \<^verbatim>\<open>UA\<close> exactly 0 and \<^verbatim>\<open>min_DT\<close> exactly \<open>T_h_in - T_c_in\<close>, and the log
  of oracle calls is unchanged: no call is made, whatever the oracle is.
\<close>

theorem hxr_zero_duty:
  assumes "0 \<le> Q_dot a" and "Q_dot a \<le> Fin (1 / 10 ^ 14)"
    and "\<not> T_h_in a < T_c_in a" and "\<not> P_h_in a < P_h_out a" and "\<not> P_c_in a < P_c_out a"
  shows "calculate_hxr_UA_1 orc a (r, tr) = (r\<lparr>UA := Fin 0, min_DT := T_h_in a - T_c_in a\<rparr>, tr)"
proof -
  from assms(1) have "\<not> Q_dot a < 0"
    by (cases "Q_dot a") (simp_all add: less_dbl_def less_eq_dbl_def)
  with assms show ?thesis
    by (simp add: calculate_hxr_UA_1_def)
qed

theorem hxr_zero_duty_witness:
  "calculate_hxr_UA_1 toy_oracle hx_no_duty (hx_unset, []) =
     (\<lparr>hx_error_code = 0, UA = Fin 0, min_DT = Fin 100\<rparr>, [])"
  using hxr_zero_duty [of hx_no_duty toy_oracle hx_unset "[]"]
  by (simp add: hx_no_duty_def hx_duty_def hx_unset_def)


section \<open>The design-point solver\<close>

subsection \<open>Running the solver on concrete inputs\<close>

text \<open>
  The definitions are unfolded with congruence rules that keep the simplifier out of the
  branches of a conditional and out of the body of a \<open>let\<close> until the condition or the bound
  value is known, so that a run is evaluated in the order in which the code executes.
\<close>

lemmas cyc_defs = temp_last_def pres_last_def enth_last_def entr_last_def dens_last_def
  set_temp_last_def set_pres_last_def set_enth_last_def set_entr_last_def set_dens_last_def
  store_props_def store_props_T_def

lemmas eval_cong = let_weak_cong prod.case_cong_weak ctl.case_cong_weak
  loop_exit.case_cong_weak if_weak_cong

lemma final_state_simps [simp]:
  "final_state (Next s) = s" "final_state (Continue s) = s"
  "final_state (Break s) = s" "final_state (Return s) = s"
  by (simp_all add: final_state_def)

lemma final_state_cong: "c = c' \<Longrightarrow> final_state c = final_state c'"
  by simp

lemma toy_up_simps [simp]:
  "CO2_TP toy_oracle_up = toy_up_TP" "CO2_PS toy_oracle_up = toy_up_PS"
  "CO2_PH toy_oracle_up = toy_up_PH"
  by (simp_all add: toy_oracle_up_def)

lemmas toy_defs = toy_TP_def toy_PS_def toy_PH_def toy_state_def call_TP_def call_PS_def
  call_PH_def toy_up_TP_def toy_up_PS_def toy_up_PH_def toy_state_up_def

lemmas design_defs = set_pressures_def design_efficiencies_def design_turbomachinery_def
  design_power_check_def design_before_loops_def isentropic_efficiency_def turbomachinery_at_def
  calculate_turbomachinery_outlet_1_def calculate_turbomachinery_outlet_1_work_def
  T9_recompressor_def T9_mass_flow_def T9_LT_UA_def T9_converge_def T9_body_def T9_init_def
  T8_state8_def T8_state3_def T8_mixing_valve_def T8_bisect_up_def T8_second_law_def T8_HT_UA_def
  T8_converge_def T8_init_def next_T9_guess_def next_T8_guess_def fail_def
  calculate_hxr_UA_1_def hxr_loop_def hxr_node_def of_i_def

lemmas input_defs = dcs_entry_def new_cycle_def des_pinch_def des_simple_def des_no_power_def
  des_up_def des_negative_def cycle.extend_def dcs.fields_def HX_unset_def opt_unset_def

lemmas run_defs = T8_body_def T9_solve_def T9_loop_def for_loop.simps

lemmas full_defs = design_core_standard_def design_core_standard_steps_def T8_solve_def
  T8_loop_def design_state5_def design_metrics_def std_min_def

lemmas eval = cyc_defs toy_defs design_defs input_defs Let_def numeral_eq_Suc

subsection \<open>How the loops end\<close>

lemma T9_solve_exhausted:
  assumes "loop_head max_iter (T9_body orc) 0 (T9_init s) 500 = Some (i, s9)"
  shows "T9_solve orc s = Return (s9\<lparr>error_code := 31\<rparr>)"
proof -
  from loop_head_counter[OF assms] have i: "i = 500" by simp
  from loop_head_exhausted[OF assms] i
  have "T9_loop orc (T9_init s) = (500, Exited 500 s9)" by (simp add: T9_loop_def)
  then show ?thesis by (simp add: T9_solve_def fail_def)
qed

lemma T8_solve_exhausted:
  assumes "loop_head max_iter (T8_body orc) 0 (T8_init s) 500 = Some (j, s8)"
  shows "T8_solve orc s = Return (s8\<lparr>error_code := 35\<rparr>)"
proof -
  from loop_head_counter[OF assms] have j: "j = 500" by simp
  from loop_head_exhausted[OF assms] j
  have "T8_loop orc (T8_init s) = (500, Exited 500 s8)" by (simp add: T8_loop_def)
  then show ?thesis by (simp add: T8_solve_def fail_def)
qed

lemma T9_solve_Return:
  assumes "loop_head max_iter (T9_body orc) 0 (T9_init s) k = Some (i, t)" and "i < max_iter"
    and "T9_body orc i t = Return r"
  shows "T9_solve orc s = Return r"
  using loop_head_Return[OF assms] by (simp add: T9_solve_def T9_loop_def)

lemma T8_solve_Return:
  assumes "loop_head max_iter (T8_body orc) 0 (T8_init s) k = Some (j, t)" and "j < max_iter"
    and "T8_body orc j t = Return r"
  shows "T8_solve orc s = Return r"
  using loop_head_Return[OF assms] by (simp add: T8_solve_def T8_loop_def)

lemma T8_body_Return:
  assumes "T8_state8 orc t = Next t1" and "T9_solve orc t1 = Return r"
  shows "T8_body orc j t = Return r"
  using assms by (simp add: T8_body_def)

lemma design_core_standard_Return:
  assumes "design_before_loops orc (dcs_entry c ec tr) = Next s0" and "T8_solve orc s0 = Return r"
  shows "design_core_standard orc c ec tr = r"
  using assms by (simp add: design_core_standard_def design_core_standard_steps_def)

text \<open>An inner-loop evaluation that returns ends the whole solve in the same state.\<close>

lemma inner_Return:
  assumes "design_before_loops orc (dcs_entry c ec tr) = Next s0"
    and "loop_head max_iter (T8_body orc) 0 (T8_init s0) k8 = Some (j, t)" and "j < max_iter"
    and "T8_state8 orc t = Next t1"
    and "T9_solve orc t1 = Return r"
  shows "design_core_standard orc c ec tr = r"
  by (rule design_core_standard_Return[OF assms(1)],
      rule T8_solve_Return[OF assms(2,3)], rule T8_body_Return[OF assms(4,5)])

subsection \<open>The iteration caps\<close>

text \<open>
  Claim C2. Each of the two loops of \<^verbatim>\<open>design_core_standard\<close> runs its body at most 500
  times. When the outer loop on T8 comes to its head for the 500th time after the first,
  that is when 500 passes have ended without a \<^verbatim>\<open>break\<close> or a \<^verbatim>\<open>return\<close>, the function
  returns there with the error code 35 and does nothing more; when the inner loop on T9 does
  so, in any pass of the outer loop, the function returns there with the error code 31.
\<close>

theorem iteration_caps:
  assumes "design_before_loops orc (dcs_entry c ec tr) = Next s0"
  shows "fst (T8_loop orc (T8_init s0)) \<le> 500 \<and> fst (T9_loop orc t9) \<le> 500 \<and>
     (loop_head max_iter (T8_body orc) 0 (T8_init s0) 500 = Some (j, s8) \<longrightarrow>
        design_core_standard orc c ec tr = s8\<lparr>error_code := 35\<rparr>) \<and>
     (loop_head max_iter (T8_body orc) 0 (T8_init s0) k = Some (j', t) \<and> j' < max_iter \<and>
      T8_state8 orc t = Next t1 \<and>
      loop_head max_iter (T9_body orc) 0 (T9_init t1) 500 = Some (i, s9) \<longrightarrow>
        design_core_standard orc c ec tr = s9\<lparr>error_code := 31\<rparr>)"
proof (intro conjI impI)
  show "fst (T8_loop orc (T8_init s0)) \<le> 500"
    using for_loop_iterations[of max_iter "T8_body orc" 0 "T8_init s0"] by (simp add: T8_loop_def)
  show "fst (T9_loop orc t9) \<le> 500"
    using for_loop_iterations[of max_iter "T9_body orc" 0 t9] by (simp add: T9_loop_def)
next
  assume "loop_head max_iter (T8_body orc) 0 (T8_init s0) 500 = Some (j, s8)"
  from design_core_standard_Return[OF assms T8_solve_exhausted[OF this]]
  show "design_core_standard orc c ec tr = s8\<lparr>error_code := 35\<rparr>" .
next
  assume a: "loop_head max_iter (T8_body orc) 0 (T8_init s0) k = Some (j', t) \<and> j' < max_iter \<and>
      T8_state8 orc t = Next t1 \<and>
      loop_head max_iter (T9_body orc) 0 (T9_init t1) 500 = Some (i, s9)"
  then have "T9_solve orc t1 = Return (s9\<lparr>error_code := 31\<rparr>)"
    by (intro T9_solve_exhausted) simp
  with a assms show "design_core_standard orc c ec tr = s9\<lparr>error_code := 31\<rparr>"
    by (intro inner_Return[of orc c ec tr s0 k j' t t1]) simp_all
qed

text \<open>
  The outer loop runs out on \<open>des_simple\<close>, where every pass finds the cold outlet of the
  high-temperature recuperator as hot as the guess and bisects a bracket of width zero; the
  inner loop runs out on \<open>des_up\<close>, where every pass finds a second-law violation in the
  low-temperature recuperator.
\<close>

lemma simple_pre:
  "design_before_loops toy_oracle (dcs_entry (new_cycle des_simple) 0 []) = Next simple_S0"
  by (simp add: simple_S0_def eval cong: eval_cong then_do_cong final_state_cong)

lemma simple_first: "T8_body toy_oracle 0 simple_S = Continue simple_S1"
  by (simp add: simple_S1_def simple_S_def simple_S0_def run_defs eval
      cong: eval_cong then_do_cong final_state_cong)

lemma simple_step:
  "T8_body toy_oracle j (simple_S1\<lparr>calls := x\<rparr>) = Continue (simple_S1\<lparr>calls := x @ simple_calls\<rparr>)"
  by (simp add: simple_S1_def simple_S_def simple_S0_def simple_calls_def run_defs eval
      cong: eval_cong then_do_cong final_state_cong)

lemma simple_exhausts:
  "\<exists>s8. loop_head max_iter (T8_body toy_oracle) 0 (T8_init simple_S0) 500 = Some (500, s8)"
proof -
  have "loop_head max_iter (T8_body toy_oracle) 0 simple_S (Suc 499)
          = loop_head max_iter (T8_body toy_oracle) (0 + 1) simple_S1 499"
    by (rule loop_head_first) (simp_all add: simple_first)
  moreover have "loop_head max_iter (T8_body toy_oracle) 1 (simple_S1\<lparr>calls := calls simple_S1\<rparr>) 499
          = Some (1 + int 499, simple_S1\<lparr>calls := ((\<lambda>x. x @ simple_calls) ^^ 499) (calls simple_S1)\<rparr>)"
    by (rule loop_head_fixpoint[where st = "\<lambda>x. simple_S1\<lparr>calls := x\<rparr>"
          and nxt = "\<lambda>x. x @ simple_calls"]) (simp_all add: simple_step)
  ultimately show ?thesis by (simp add: simple_S_def)
qed

lemma up_pre:
  "design_before_loops toy_oracle_up (dcs_entry (new_cycle des_up) 0 []) = Next up_S0"
  by (simp add: up_S0_def eval cong: eval_cong then_do_cong final_state_cong)

lemma up_state8: "T8_state8 toy_oracle_up (T8_init up_S0) = Next up_T0"
  by (simp add: up_T0_def up_S_def up_S0_def eval cong: eval_cong then_do_cong final_state_cong)

lemma up_first: "T9_body toy_oracle_up 0 up_T = Continue up_T1"
  by (simp add: up_T1_def up_T_def up_T0_def up_S_def up_S0_def run_defs eval
      cong: eval_cong then_do_cong final_state_cong)

lemma up_step:
  "T9_body toy_oracle_up j (up_T1\<lparr>calls := x\<rparr>) = Continue (up_T1\<lparr>calls := x @ up_calls\<rparr>)"
  by (simp add: up_T1_def up_T_def up_T0_def up_S_def up_S0_def up_calls_def run_defs eval
      cong: eval_cong then_do_cong final_state_cong)

lemma up_exhausts:
  "\<exists>s9. loop_head max_iter (T9_body toy_oracle_up) 0 (T9_init up_T0) 500 = Some (500, s9)"
proof -
  have "loop_head max_iter (T9_body toy_oracle_up) 0 up_T (Suc 499)
          = loop_head max_iter (T9_body toy_oracle_up) (0 + 1) up_T1 499"
    by (rule loop_head_first) (simp_all add: up_first)
  moreover have "loop_head max_iter (T9_body toy_oracle_up) 1 (up_T1\<lparr>calls := calls up_T1\<rparr>) 499
          = Some (1 + int 499, up_T1\<lparr>calls := ((\<lambda>x. x @ up_calls) ^^ 499) (calls up_T1)\<rparr>)"
    by (rule loop_head_fixpoint[where st = "\<lambda>x. up_T1\<lparr>calls := x\<rparr>"
          and nxt = "\<lambda>x. x @ up_calls"]) (simp_all add: up_step)
  ultimately show ?thesis by (simp add: up_T_def)
qed

theorem iteration_caps_witness:
  "error_code (design_core_standard toy_oracle (new_cycle des_simple) 0 []) = 35 \<and>
   error_code (design_core_standard toy_oracle_up (new_cycle des_up) 0 []) = 31"
proof
  from simple_exhausts obtain s8 where
    "loop_head max_iter (T8_body toy_oracle) 0 (T8_init simple_S0) 500 = Some (500, s8)" ..
  with iteration_caps[OF simple_pre, of _ 500 s8]
  show "error_code (design_core_standard toy_oracle (new_cycle des_simple) 0 []) = 35" by simp
next
  from up_exhausts obtain s9 where
    "loop_head max_iter (T9_body toy_oracle_up) 0 (T9_init up_T0) 500 = Some (500, s9)" ..
  with iteration_caps[OF up_pre, of _ _ _ 0 0 "T8_init up_S0" up_T0 500 s9] up_state8
  show "error_code (design_core_standard toy_oracle_up (new_cycle des_up) 0 []) = 31" by simp
qed

subsection \<open>The mass flow rate from the power balance\<close>

text \<open>
  A negative mass flow rate is rejected. In any inner-loop evaluation that the solve comes
  to, once the recompressor step has succeeded, a quotient \<^verbatim>\<open>m_dot_t\<close> that is below zero
  as the code computes it ends the whole solve there with the error code 29. (The quotient
  is exact here; a double quotient that underflows to \<open>-0.0\<close> is not below zero, and line
  2911 lets it through like zero.)
\<close>

lemma negative_mass_flow_rejected:
  assumes "design_before_loops orc (dcs_entry c ec tr) = Next s0"
    and "loop_head max_iter (T8_body orc) 0 (T8_init s0) k8 = Some (j, t)" and "j < max_iter"
    and "T8_state8 orc t = Next t1"
    and "loop_head max_iter (T9_body orc) 0 (T9_init t1) k9 = Some (i, s)" and "i < max_iter"
    and "T9_recompressor orc s = Next s1"
    and "m_W_dot_net (ms_des_par s1) /
           (w_mc s1 * (1 - m_recomp_frac (ms_des_par s1))
              + w_rc s1 * m_recomp_frac (ms_des_par s1) + w_t s1) < 0"
  shows "design_core_standard orc c ec tr =
           s1\<lparr>m_dot_t := m_W_dot_net (ms_des_par s1) /
                  (w_mc s1 * (1 - m_recomp_frac (ms_des_par s1))
                     + w_rc s1 * m_recomp_frac (ms_des_par s1) + w_t s1),
               error_code := 29\<rparr>"
proof -
  let ?r = "s1\<lparr>m_dot_t := m_W_dot_net (ms_des_par s1) /
                  (w_mc s1 * (1 - m_recomp_frac (ms_des_par s1))
                     + w_rc s1 * m_recomp_frac (ms_des_par s1) + w_t s1),
               error_code := 29\<rparr>"
  from assms(8) have "T9_mass_flow s1 = Return ?r"
    by (simp add: T9_mass_flow_def fail_def Let_def)
  with assms(7) have "T9_body orc i s = Return ?r"
    by (simp add: T9_body_def)
  from T9_solve_Return[OF assms(5,6) this] have "T9_solve orc t1 = Return ?r" .
  from inner_Return[OF assms(1-4) this] show ?thesis .
qed

lemma negative_pre:
  "design_before_loops toy_oracle (dcs_entry (new_cycle des_negative) 0 []) = Next negative_S0"
  by (simp add: negative_S0_def eval cong: eval_cong then_do_cong final_state_cong)

lemma negative_state8: "T8_state8 toy_oracle (T8_init negative_S0) = Next negative_T0"
  by (simp add: negative_T0_def negative_S0_def eval cong: eval_cong then_do_cong final_state_cong)

lemma negative_recompressor: "T9_recompressor toy_oracle (T9_init negative_T0) = Next negative_T1"
  by (simp add: negative_T1_def negative_T0_def negative_S0_def eval
      cong: eval_cong then_do_cong final_state_cong)

lemma negative_balance:
  "m_W_dot_net (ms_des_par negative_T1) /
     (w_mc negative_T1 * (1 - m_recomp_frac (ms_des_par negative_T1))
        + w_rc negative_T1 * m_recomp_frac (ms_des_par negative_T1) + w_t negative_T1) < 0"
  by (simp add: negative_T1_def negative_T0_def negative_S0_def eval
      cong: eval_cong then_do_cong final_state_cong)

lemma negative_mass_flow_run:
  "error_code (design_core_standard toy_oracle (new_cycle des_negative) 0 []) = 29"
  using negative_mass_flow_rejected[OF negative_pre _ _ negative_state8 _ _
      negative_recompressor negative_balance, of 0 0 0 0]
  by simp

text \<open>
  A mass flow rate of zero is not rejected: whenever the quotient is exactly 0, line 2911
  lets it through and the three mass flow rates are set to 0 times what they are
  multiplied by.
\<close>

lemma zero_mass_flow_not_rejected:
  assumes "m_W_dot_net (ms_des_par s) /
           (w_mc s * (1 - m_recomp_frac (ms_des_par s))
              + w_rc s * m_recomp_frac (ms_des_par s) + w_t s) = Fin 0"
  shows "T9_mass_flow s =
           Next (s\<lparr>m_dot_t := Fin 0, m_dot_rc := Fin 0 * m_recomp_frac (ms_des_par s),
                   m_dot_mc := Fin 0 - Fin 0 * m_recomp_frac (ms_des_par s)\<rparr>)"
  using assms by (simp add: T9_mass_flow_def Let_def)

lemma nopower_pre:
  "design_before_loops toy_oracle (dcs_entry (new_cycle des_no_power) 0 []) = Next nopower_S0"
  by (simp add: nopower_S0_def eval cong: eval_cong then_do_cong final_state_cong)

lemma nopower_state8: "T8_state8 toy_oracle (T8_init nopower_S0) = Next nopower_T0"
  by (simp add: nopower_T0_def nopower_S0_def eval cong: eval_cong then_do_cong final_state_cong)

lemma nopower_recompressor: "T9_recompressor toy_oracle (T9_init nopower_T0) = Next nopower_T1"
  by (simp add: nopower_T1_def nopower_T0_def nopower_S0_def eval
      cong: eval_cong then_do_cong final_state_cong)

text \<open>
  Claim C3 fails at zero, where the code misses what its own comment says. The test at line
  2911 is \<^verbatim>\<open>m_dot_t < 0.0\<close> under the comment that positive power output is not possible
  with these inputs, which holds at zero too, and the check of the same kind at line 2787 is
  \<^verbatim>\<open>w_mc + w_rc + w_t <= 0.0\<close>. On \<open>des_no_power\<close> (a net power of zero) the first
  inner-loop evaluation computes a mass flow rate of exactly 0 and goes on with it; line
  2991 then divides the duty 0 by the mass flow rate 0, the enthalpy of state 3 is NaN and
  is handed to the property oracle, and on the toy oracle, which answers that call, the
  solve returns with the error code 0 and a thermal efficiency of NaN.
\<close>

theorem zero_mass_flow_accepted:
  "T9_mass_flow nopower_T1 =
     Next (nopower_T1\<lparr>m_dot_t := Fin 0, m_dot_rc := Fin 0, m_dot_mc := Fin 0\<rparr>) \<and>
   m_dot_t (design_core_standard toy_oracle (new_cycle des_no_power) 0 []) = Fin 0 \<and>
   m_dot_t (design_core_standard toy_oracle (new_cycle des_no_power) 0 []) \<le> 0 \<and>
   error_code (design_core_standard toy_oracle (new_cycle des_no_power) 0 []) = 0 \<and>
   enth_last (design_core_standard toy_oracle (new_cycle des_no_power) 0 []) 3 = NaN \<and>
   PH (Fin 400) NaN 0 \<in> set (calls (design_core_standard toy_oracle (new_cycle des_no_power) 0 [])) \<and>
   m_eta_thermal_last (design_core_standard toy_oracle (new_cycle des_no_power) 0 []) = NaN"
  by (simp add: nopower_T1_def nopower_T0_def nopower_S0_def full_defs run_defs eval
      cong: eval_cong then_do_cong final_state_cong)

subsection \<open>The guesses and their brackets\<close>

text \<open>
  The guess of the inner loop stays in its bracket whatever the secant prediction is; the
  guess of the outer loop does when the secant prediction is a number.
\<close>

lemma next_T9_guess_in_bracket:
  assumes "a \<le> b"
  shows "Fin a \<le> next_T9_guess g (Fin a) (Fin b) \<and> next_T9_guess g (Fin a) (Fin b) \<le> Fin b"
  using assms by (cases g) (auto simp add: next_T9_guess_def less_eq_dbl_def)

lemma next_T8_guess_in_bracket:
  assumes "a \<le> b" and "g \<noteq> NaN"
  shows "Fin a \<le> next_T8_guess g (Fin a) (Fin b) \<and> next_T8_guess g (Fin a) (Fin b) \<le> Fin b"
  using assms by (cases g) (auto simp add: next_T8_guess_def less_eq_dbl_def)

text \<open>
  Claim C9 fails for the outer loop, whose test (line 3085) lacks the comparison
  \<^verbatim>\<open>secant_guess != secant_guess\<close> that the inner loop has (line 2976). On \<open>des_pinch\<close> the
  first pass of the outer loop ends at line 3088 with the bracket from 1200 to 1200, a secant
  prediction of \<open>0 / 0\<close> and the guess NaN for T8, which the second pass hands to the
  property oracle at line 2827; the inner loop's test on the same values gives 1200.
\<close>

theorem T8_guess_outside_bracket:
  "T8_body toy_oracle 0 pinch_S = Next pinch_S1 \<and>
   T8_lower_bound pinch_S1 = Fin 1200 \<and> T8_upper_bound pinch_S1 = Fin 1200 \<and>
   temp_last pinch_S1 8 = NaN \<and>
   \<not> (T8_lower_bound pinch_S1 \<le> temp_last pinch_S1 8 \<and>
      temp_last pinch_S1 8 \<le> T8_upper_bound pinch_S1) \<and>
   last (calls (final_state (T8_state8 toy_oracle pinch_S1))) = TP NaN (Fin 100) 0 \<and>
   next_T8_guess NaN (Fin 1200) (Fin 1200) = NaN \<and>
   next_T9_guess NaN (Fin 1200) (Fin 1200) = Fin 1200"
  by (simp add: pinch_S1_def pinch_S_def run_defs eval
      cong: eval_cong then_do_cong final_state_cong)

section \<open>Failures of the property oracle\<close>

subsection \<open>Logs of oracle calls\<close>

lemma quiet_simps [simp]:
  "quiet []" "quiet (cs @ ds) = (quiet cs \<and> quiet ds)"
  "quiet (c # cs) = ((returned_code c = 0 \<or> returned_code c = 11) \<and> quiet cs)"
  by (simp_all add: quiet_def)

lemma calls_ok_quiet: "calls_ok cs \<Longrightarrow> quiet cs"
  by (induction cs) simp_all

lemma quiet_butlast: "quiet cs \<Longrightarrow> quiet (butlast cs)"
  by (induction cs) simp_all

lemma calls_ok_butlast: "calls_ok cs \<Longrightarrow> calls_ok (butlast cs)"
  by (induction cs) simp_all

lemma quiet_last: "quiet cs \<Longrightarrow> cs \<noteq> [] \<Longrightarrow> returned_code (last cs) = 0 \<or> returned_code (last cs) = 11"
  by (induction cs) (simp_all split: if_splits)

lemma calls_ok_last: "calls_ok cs \<Longrightarrow> cs \<noteq> [] \<Longrightarrow> returned_code (last cs) = 0"
  by (induction cs) (simp_all split: if_splits)

lemma goes_on_refl [simp]: "goes_on (calls s) s"
  by (simp add: goes_on_def)

lemma goes_on_same: "calls s' = calls s \<Longrightarrow> goes_on (calls s) s'"
  by (simp add: goes_on_def)

lemma goes_on_trans: "goes_on tr s \<Longrightarrow> goes_on (calls s) s' \<Longrightarrow> goes_on tr s'"
  by (auto simp: goes_on_def)

lemma goes_on_reported:
  assumes "goes_on tr s" and "failure_reported orc (calls s) s'"
  shows "failure_reported orc tr s'"
proof -
  from assms(1) obtain new1 where n1: "calls s = tr @ new1" "quiet new1"
    by (auto simp: goes_on_def)
  from assms(2) obtain new2 where n2: "calls s' = calls s @ new2" "quiet (butlast new2)"
    "new2 \<noteq> [] \<and> returned_code (last new2) \<noteq> 0 \<and> returned_code (last new2) \<noteq> 11 \<longrightarrow>
       error_code s' = returned_code (last new2) \<or>
       ((error_code s' = 9 \<or> error_code s' = 12 \<or> error_code s' = 13) \<and> ends_in_hxr orc s')"
    by (auto simp: failure_reported_def)
  show ?thesis
  proof (cases "new2 = []")
    case True
    with n1 n2 quiet_last[OF n1(2)] show ?thesis
      by (auto simp: failure_reported_def quiet_butlast intro!: exI[of _ new1])
  next
    case False
    with n1 n2 show ?thesis
      by (auto simp: failure_reported_def butlast_append intro!: exI[of _ "new1 @ new2"])
  qed
qed

lemma step_ok_trans: "goes_on tr s \<Longrightarrow> step_ok orc (calls s) c \<Longrightarrow> step_ok orc tr c"
  by (cases c) (auto simp: step_ok_def intro: goes_on_trans goes_on_reported)

lemma then_do_ok:
  assumes "step_ok orc tr c" and "\<And>s. c = Next s \<Longrightarrow> step_ok orc (calls s) (g s)"
  shows "step_ok orc tr (then_do c g)"
proof (cases c)
  case (Next s)
  with assms(1) have "goes_on tr s" by (simp add: step_ok_def)
  from step_ok_trans[OF this assms(2)[OF Next]] Next show ?thesis by simp
qed (use assms(1) in \<open>simp_all\<close>)

lemma for_loop_ok:
  assumes body: "\<And>i t. step_ok orc (calls t) (body i t)"
    and run: "for_loop n body i0 s = (k, x)"
  shows "case x of Exited j s' \<Rightarrow> goes_on (calls s) s' | Returned r \<Rightarrow> failure_reported orc (calls s) r"
proof (rule for_loop_rule[where P = "\<lambda>t. goes_on (calls s) t", OF run], goal_cases)
  case 1
  show ?case by simp
next
  case (2 j t t')
  from 2(4) body[of t j] have "goes_on (calls t) t'" by (auto simp: step_ok_def)
  with 2(3) show ?case by (rule goes_on_trans)
next
  case (3 j t t')
  from 3(4) body[of t j] have "goes_on (calls t) t'" by (auto simp: step_ok_def)
  with 3(3) show ?case by (auto intro: goes_on_trans)
next
  case (4 j t r)
  from 4(4) body[of t j] have "failure_reported orc (calls t) r" by (auto simp: step_ok_def)
  with 4(3) show ?case by (auto intro: goes_on_reported)
next
  case (5 j t)
  then show ?case by simp
qed

lemma forwards_fail:
  assumes "forwards (calls s) tr' code" and "code \<noteq> 0" and "calls s' = tr'" and "error_code s' = code"
  shows "failure_reported orc (calls s) s'"
  using assms by (auto simp: forwards_def failure_reported_def intro: calls_ok_quiet)

lemma forwards_ok:
  assumes "forwards (calls s) tr' 0" and "calls s' = tr'"
  shows "goes_on (calls s) s'"
  using assms by (auto simp: forwards_def goes_on_def intro: calls_ok_quiet)

lemma forwards_trans:
  assumes "forwards tr tr1 0" and "forwards tr1 tr2 code"
  shows "forwards tr tr2 code"
proof -
  from assms(1) obtain n1 where n1: "tr1 = tr @ n1" "calls_ok n1" by (auto simp: forwards_def)
  from assms(2) obtain n2 where n2: "tr2 = tr1 @ n2" "calls_ok (butlast n2)"
    "if code = 0 then calls_ok n2 else n2 \<noteq> [] \<and> returned_code (last n2) = code"
    by (auto simp: forwards_def)
  show ?thesis
  proof (cases "n2 = []")
    case True
    with n1 n2 show ?thesis
      by (auto simp: forwards_def calls_ok_butlast split: if_splits intro!: exI[of _ n1])
  next
    case False
    with n1 n2 show ?thesis
      by (auto simp: forwards_def butlast_append split: if_splits intro!: exI[of _ "n1 @ n2"])
  qed
qed

lemma forwards_TP: "call_TP orc T P tr = (c, st, tr') \<Longrightarrow> forwards tr tr' c"
  by (cases "c = 0") (auto simp: call_TP_def forwards_def split: prod.splits)

lemma forwards_PS: "call_PS orc T P tr = (c, st, tr') \<Longrightarrow> forwards tr tr' c"
  by (cases "c = 0") (auto simp: call_PS_def forwards_def split: prod.splits)

lemma forwards_PH: "call_PH orc T P tr = (c, st, tr') \<Longrightarrow> forwards tr tr' c"
  by (cases "c = 0") (auto simp: call_PH_def forwards_def split: prod.splits)

lemma forwards_turbo:
  assumes "calculate_turbomachinery_outlet_1 orc T_in P_in P_out eta is_comp (r, tr) = (r', tr')"
  shows "forwards tr tr' (tm_error_code r')"
proof -
  from turbo_forwards[OF assms] obtain new where
    n: "tr' = tr @ new" "new \<noteq> []" "calls_ok (butlast new)" "tm_error_code r' = returned_code (last new)"
    by blast
  have "calls_ok new" if "returned_code (last new) = 0"
    using that n(2,3) by (metis append_butlast_last_id calls_ok_simps(1,2,3))
  with n show ?thesis by (auto simp: forwards_def)
qed

lemma frame_calls [simp]:
  "calls (set_temp_last k v s) = calls s" "calls (set_pres_last k v s) = calls s"
  "calls (set_enth_last k v s) = calls s" "calls (set_entr_last k v s) = calls s"
  "calls (set_dens_last k v s) = calls s" "calls (store_props k p s) = calls s"
  "calls (store_props_T k p s) = calls s"
  by (simp_all add: cyc_defs)

lemma frame_error_code [simp]:
  "error_code (set_temp_last k v s) = error_code s" "error_code (set_pres_last k v s) = error_code s"
  "error_code (set_enth_last k v s) = error_code s" "error_code (set_entr_last k v s) = error_code s"
  "error_code (set_dens_last k v s) = error_code s" "error_code (store_props k p s) = error_code s"
  "error_code (store_props_T k p s) = error_code s"
  by (simp_all add: cyc_defs)

lemma forwards_refl [simp]: "forwards tr tr 0"
  by (simp add: forwards_def)

lemma isen_stage_forwards:
  "case isen_stage orc DP eta ic i (st, tr) of
     Return (code, tr') \<Rightarrow> code \<noteq> 0 \<and> forwards tr tr' code
   | Next (st', tr') \<Rightarrow> forwards tr tr' 0
   | Continue x \<Rightarrow> False | Break x \<Rightarrow> False"
proof -
  obtain c1 p1 t1 where 1: "call_PS orc (stage_P_in st + DP) (stage_s_in st) tr = (c1, p1, t1)"
    by (metis prod_cases3)
  note f1 = forwards_PS[OF 1]
  show ?thesis
  proof (cases "c1 = 0")
    case False
    with 1 f1 show ?thesis by (simp add: isen_stage_def Let_def)
  next
    case True
    let ?h = "stage_h_in st - (if ic then (stage_h_in st - enth p1) / eta else (stage_h_in st - enth p1) * eta)"
    obtain c2 p2 t2 where 2: "call_PH orc (stage_P_in st + DP) ?h t1 = (c2, p2, t2)"
      by (metis prod_cases3)
    from forwards_trans[OF f1[unfolded True] forwards_PH[OF 2]] have f2: "forwards tr t2 c2" .
    from True 1 2 f2 show ?thesis
      by (cases "c2 = 0") (simp_all add: isen_stage_def Let_def)
  qed
qed

lemma isen_forwards:
  assumes "isen_eta_from_poly_eta orc T_in P_in P_out eta ic (0, e, tr) = (code, e', tr')"
  shows "forwards tr tr' code"
proof -
  obtain c1 p1 t1 where 1: "call_TP orc T_in P_in tr = (c1, p1, t1)" by (metis prod_cases3)
  note f1 = forwards_TP[OF 1]
  show ?thesis
  proof (cases "c1 = 0")
    case False
    with 1 f1 assms show ?thesis by (simp add: isen_eta_from_poly_eta_def Let_def)
  next
    case c1: True
    obtain c2 p2 t2 where 2: "call_PS orc P_out (entr p1) t1 = (c2, p2, t2)" by (metis prod_cases3)
    from forwards_trans[OF f1[unfolded c1] forwards_PS[OF 2]] have f2: "forwards tr t2 c2" .
    show ?thesis
    proof (cases "c2 = 0")
      case False
      with c1 1 2 f2 assms show ?thesis by (simp add: isen_eta_from_poly_eta_def Let_def)
    next
      case c2: True
      let ?st = "\<lparr>stage_P_in = P_in, stage_h_in = enth p1, stage_s_in = entr p1,
                   stage_P_out = Fin (- 999.9), stage_h_out = Fin (- 999.9)\<rparr>"
      let ?DP = "(P_out - P_in) / of_i 200"
      obtain k x where L: "for_loop (200 + 1) (isen_stage orc ?DP eta ic) 1 (?st, t2) = (k, x)"
        by force
      have Q: "case x of Returned (code, t) \<Rightarrow> code \<noteq> 0 \<and> forwards tr t code
               | Exited j (st', t) \<Rightarrow> forwards tr t 0"
      proof (rule for_loop_rule[where P = "\<lambda>(st', t). forwards tr t 0", OF L], goal_cases)
        case 1
        from f2 c2 show ?case by simp
      next
        case (2 j t t')
        obtain a b where t: "t = (a, b)" by (cases t)
        obtain a' b' where t': "t' = (a', b')" by (cases t')
        from isen_stage_forwards[where orc = orc and DP = "?DP" and eta = eta and ic = ic and i = j and st = a and tr = b] 2(4) have "forwards b b' 0"
          by (auto simp: t t')
        with 2(3) show ?case by (auto simp: t t' intro: forwards_trans)
      next
        case (3 j t t')
        obtain a b where t: "t = (a, b)" by (cases t)
        from isen_stage_forwards[where orc = orc and DP = "?DP" and eta = eta and ic = ic and i = j and st = a and tr = b] 3(4) show ?case by (simp add: t)
      next
        case (4 j t r)
        obtain a b where t: "t = (a, b)" by (cases t)
        obtain c b' where r: "r = (c, b')" by (cases r)
        from isen_stage_forwards[where orc = orc and DP = "?DP" and eta = eta and ic = ic and i = j and st = a and tr = b] 4(4) have "c \<noteq> 0" "forwards b b' c"
          by (auto simp: t r)
        with 4(3) show ?case by (auto simp: t r intro: forwards_trans)
      next
        case (5 j t)
        then show ?case by auto
      qed
      from c1 c2 1 2 L assms
      have "(case x of Returned (code, tr') \<Rightarrow> (code, e, tr')
            | Exited i (st', tr') \<Rightarrow> (0,
                 if ic then (enth p2 - enth p1) / (stage_h_out st' - enth p1)
                 else (stage_h_out st' - enth p1) / (enth p2 - enth p1), tr')) = (code, e', tr')"
        by (simp add: isen_eta_from_poly_eta_def Let_def)
      with Q show ?thesis
        by (cases x) (auto split: prod.splits)
    qed
  qed
qed

lemma isentropic_efficiency_forwards:
  assumes "isentropic_efficiency orc eta T_in P_in P_out ic e tr = (code, e', tr')"
  shows "forwards tr tr' code"
  using assms isen_forwards[of orc T_in P_in P_out "\<bar>eta\<bar>" ic e tr code e' tr']
  by (auto simp: isentropic_efficiency_def split: if_splits)

lemma hxr_forwards:
  assumes "calculate_hxr_UA_1 orc a (r, tr) = (r', tr')"
  shows "\<exists>new. tr' = tr @ new \<and> calls_ok (butlast new) \<and>
           (hx_error_code r' = 0 \<longrightarrow> calls_ok new) \<and>
           (hx_error_code r' = 11 \<longrightarrow> quiet new) \<and>
           (new \<noteq> [] \<and> returned_code (last new) \<noteq> 0 \<longrightarrow>
              hx_error_code r' = returned_code (last new) \<or> hx_error_code r' = 9 \<or>
              hx_error_code r' = 12 \<or> hx_error_code r' = 13)"
proof -
  from hxr_codes[OF assms] obtain new where n: "tr' = tr @ new" "calls_ok (butlast new)"
    "new \<noteq> [] \<and> returned_code (last new) \<noteq> 0 \<longrightarrow> hx_error_code r' = hxr_reported_code new"
    by (auto split: if_splits)
  have ok: "calls_ok new" if "new = [] \<or> returned_code (last new) = 0"
    using that n(2) by (metis append_butlast_last_id calls_ok_simps(1,2,3))
  have q: "quiet new" if "new \<noteq> []" "returned_code (last new) = 11"
    using that n(2) by (metis append_butlast_last_id calls_ok_quiet quiet_simps(1,2,3))
  have rep: "hxr_reported_code new = returned_code (last new) \<and> length new = 1
      \<or> hxr_reported_code new = 9 \<or> hxr_reported_code new = 12 \<or> hxr_reported_code new = 13"
    by (simp add: hxr_reported_code_def)
  show ?thesis
  proof (intro exI[of _ new] conjI impI)
    show "tr' = tr @ new" by fact
    show "calls_ok (butlast new)" by fact
  next
    assume "hx_error_code r' = 0"
    with n(3) rep show "calls_ok new" by (intro ok) auto
  next
    assume "hx_error_code r' = 11"
    with n(3) rep ok q show "quiet new"
      by (cases "new = [] \<or> returned_code (last new) = 0") (auto intro: calls_ok_quiet)
  next
    assume "new \<noteq> [] \<and> returned_code (last new) \<noteq> 0"
    with n(3) rep show "hx_error_code r' = returned_code (last new) \<or> hx_error_code r' = 9 \<or>
              hx_error_code r' = 12 \<or> hx_error_code r' = 13" by auto
  qed
qed

text \<open>What the solver does with the code of \<^verbatim>\<open>calculate_hxr_UA_1\<close>.\<close>

lemma hxr_step_ok:
  assumes h: "calculate_hxr_UA_1 orc a (r0, calls s) = (hx, tr')"
    and c: "calls s1 = tr'" "calls s2 = tr'" "calls s3 = tr'" and e: "error_code s3 = hx_error_code hx"
  shows "step_ok orc (calls s)
           (if hx_error_code hx \<noteq> 0 then (if hx_error_code hx = 11 then Continue s1 else Return s3)
            else Next s2)"
proof -
  from hxr_forwards[OF h] obtain new where n: "tr' = calls s @ new" "calls_ok (butlast new)"
    "hx_error_code hx = 0 \<longrightarrow> calls_ok new" "hx_error_code hx = 11 \<longrightarrow> quiet new"
    "new \<noteq> [] \<and> returned_code (last new) \<noteq> 0 \<longrightarrow>
              hx_error_code hx = returned_code (last new) \<or> hx_error_code hx = 9 \<or>
              hx_error_code hx = 12 \<or> hx_error_code hx = 13" by blast
  have "ends_in_hxr orc s3"
    using h c e by (auto simp: ends_in_hxr_def)
  with n c e show ?thesis
    by (auto simp: step_ok_def goes_on_def failure_reported_def intro: calls_ok_quiet)
qed

lemma fail_ok:
  assumes "forwards (calls s) (calls s') code" and "code \<noteq> 0"
  shows "step_ok orc (calls s) (fail code s')"
  using forwards_fail[OF assms, of "s'\<lparr>error_code := code\<rparr>" orc]
  by (simp add: fail_def step_ok_def)

lemma next_ok:
  assumes "forwards (calls s) (calls s') 0"
  shows "step_ok orc (calls s) (Next s')"
  using forwards_ok[OF assms] by (simp add: step_ok_def)

lemma same_ok:
  assumes "calls (final_state c) = calls s"
  shows "step_ok orc (calls s) c"
  using assms by (cases c) (auto simp: step_ok_def goes_on_def failure_reported_def)

lemma turbomachinery_at_forwards:
  assumes "turbomachinery_at orc k_in k_out eta ic w s = (code, w', s')"
  shows "forwards (calls s) (calls s') code"
proof -
  obtain t tr where c: "calculate_turbomachinery_outlet_1 orc (temp_last s k_in) (pres_last s k_in)
             (pres_last s k_out) eta ic
             (\<lparr>tm_error_code = 0, tm_enth_in = enth_last s k_in, tm_entr_in = entr_last s k_in,
               tm_dens_in = dens_last s k_in, tm_temp_out = temp_last s k_out,
               tm_enth_out = enth_last s k_out, tm_entr_out = entr_last s k_out,
               tm_dens_out = dens_last s k_out, tm_spec_work = w\<rparr>, calls s) = (t, tr)"
    by force
  from assms c have "code = tm_error_code t" "calls s' = tr"
    by (auto simp: turbomachinery_at_def)
  with forwards_turbo[OF c] show ?thesis by simp
qed

lemma turbomachinery_work_forwards:
  assumes "calculate_turbomachinery_outlet_1_work orc T_in P_in P_out eta ic (ec, w, tr) = (code, w', tr')"
  shows "forwards tr tr' code"
proof -
  obtain t tr1 where c: "calculate_turbomachinery_outlet_1 orc T_in P_in P_out eta ic
            (\<lparr>tm_error_code = ec, tm_enth_in = NaN, tm_entr_in = NaN, tm_dens_in = NaN,
              tm_temp_out = NaN, tm_enth_out = NaN, tm_entr_out = NaN, tm_dens_out = NaN,
              tm_spec_work = w\<rparr>, tr) = (t, tr1)"
    by force
  from assms c have "code = tm_error_code t" "tr' = tr1"
    by (auto simp: calculate_turbomachinery_outlet_1_work_def)
  with forwards_turbo[OF c] show ?thesis by simp
qed

lemma calls_Let:
  fixes a :: dcs
  shows "calls a = tr \<Longrightarrow> (\<And>x. calls x = tr \<Longrightarrow> calls (f x) = tr) \<Longrightarrow> calls (Let a f) = tr"
  by simp

lemma calls_if: "calls a = tr \<Longrightarrow> calls b = tr \<Longrightarrow> calls (if c then a else b) = tr"
  by simp

lemma set_pressures_calls [simp]: "calls (set_pressures s) = calls s"
  unfolding set_pressures_def
  apply (subst Let_def)
  apply (intro calls_Let calls_if)
  apply simp_all
  done

lemma design_efficiencies_ok: "step_ok orc (calls s) (design_efficiencies orc s)"
proof -
  let ?s = "s\<lparr>eta_mc_isen := NaN, eta_t_isen := NaN\<rparr>"
  obtain c1 e1 t1 where 1: "isentropic_efficiency orc (m_eta_mc (ms_des_par s)) (temp_last ?s 1)
     (pres_last ?s 1) (pres_last ?s 2) True (eta_mc_isen ?s) (calls ?s) = (c1, e1, t1)"
    by (metis prod_cases3)
  from isentropic_efficiency_forwards[OF 1] have f1: "forwards (calls s) t1 c1" by simp
  show ?thesis
  proof (cases "c1 = 0")
    case False
    with 1 f1 show ?thesis
      by (simp add: design_efficiencies_def Let_def fail_ok)
  next
    case True
    let ?s1 = "?s\<lparr>eta_mc_isen := e1, calls := t1\<rparr>"
    obtain c2 e2 t2 where 2: "isentropic_efficiency orc (m_eta_t (ms_des_par s)) (temp_last ?s1 6)
       (pres_last ?s1 6) (pres_last ?s1 7) False (eta_t_isen ?s1) (calls ?s1) = (c2, e2, t2)"
      by (metis prod_cases3)
    from isentropic_efficiency_forwards[OF 2] have "forwards t1 t2 c2" by simp
    from forwards_trans[OF f1[unfolded True] this] have f2: "forwards (calls s) t2 c2" .
    from True 1 2 f2 show ?thesis
      by (cases "c2 = 0") (simp_all add: design_efficiencies_def Let_def fail_ok next_ok)
  qed
qed

lemma design_turbomachinery_ok: "step_ok orc (calls s) (design_turbomachinery orc s)"
proof -
  obtain c1 w1 s1 where 1: "turbomachinery_at orc 1 2 (eta_mc_isen s) True NaN s = (c1, w1, s1)"
    by (metis prod_cases3)
  note f1 = turbomachinery_at_forwards[OF 1]
  show ?thesis
  proof (cases "c1 = 0")
    case False
    with 1 f1 show ?thesis
      by (simp add: design_turbomachinery_def Let_def fail_ok)
  next
    case True
    let ?s1 = "s1\<lparr>w_mc := w1\<rparr>"
    obtain c2 w2 s2 where 2: "turbomachinery_at orc 6 7 (eta_t_isen ?s1) False NaN ?s1 = (c2, w2, s2)"
      by (metis prod_cases3)
    from turbomachinery_at_forwards[OF 2] have "forwards (calls s1) (calls s2) c2" by simp
    from forwards_trans[OF f1[unfolded True] this] have f2: "forwards (calls s) (calls s2) c2" .
    from True 1 2 f2 show ?thesis
      by (cases "c2 = 0") (simp_all add: design_turbomachinery_def Let_def fail_ok next_ok)
  qed
qed

lemma quiet_return:
  assumes "goes_on tr s" and "calls s' = calls s"
  shows "failure_reported orc tr s'"
proof (rule goes_on_reported[OF assms(1)])
  from assms(2) show "failure_reported orc (calls s) s'"
    by (simp add: failure_reported_def)
qed

lemma check_ok:
  assumes "forwards (calls s) (calls s') 0"
  shows "step_ok orc (calls s) (if w_mc s' + w_rc s' + w_t s' \<le> 0 then fail 25 s' else Next s')"
proof (cases "w_mc s' + w_rc s' + w_t s' \<le> 0")
  case True
  have "failure_reported orc (calls s) (s'\<lparr>error_code := 25\<rparr>)"
    by (rule quiet_return[OF forwards_ok[OF assms refl]]) simp
  with True show ?thesis by (simp add: step_ok_def fail_def)
next
  case False
  with next_ok[OF assms] show ?thesis by simp
qed


lemma design_power_check_ok: "step_ok orc (calls s) (design_power_check orc s)"
proof (cases "m_recomp_frac (ms_des_par s) \<ge> Fin (1 / 10 ^ 12)")
  case False
  then show ?thesis
    using check_ok[of s "s\<lparr>eta_rc_isen := NaN, w_rc := Fin 0\<rparr>" orc]
    by (simp add: design_power_check_def Let_def split: if_splits)
next
  case rc: True
  let ?s = "s\<lparr>eta_rc_isen := NaN, w_rc := NaN\<rparr>"
  obtain c1 e1 t1 where 1: "isentropic_efficiency orc (m_eta_rc (ms_des_par s)) (temp_last ?s 2)
     (pres_last ?s 9) (pres_last ?s 10) True (eta_rc_isen ?s) (calls ?s) = (c1, e1, t1)"
    by (metis prod_cases3)
  from isentropic_efficiency_forwards[OF 1] have f1: "forwards (calls s) t1 c1" by simp
  show ?thesis
  proof (cases "c1 = 0")
    case False
    with rc 1 f1 show ?thesis
      by (simp add: design_power_check_def Let_def fail_ok)
  next
    case True
    let ?s1 = "?s\<lparr>eta_rc_isen := e1, calls := t1\<rparr>"
    obtain c2 w2 t2 where 2: "calculate_turbomachinery_outlet_1_work orc (temp_last ?s1 2)
        (pres_last ?s1 9) (pres_last ?s1 10) (eta_rc_isen ?s1) True (0, w_rc ?s1, calls ?s1) = (c2, w2, t2)"
      by (metis prod_cases3)
    from turbomachinery_work_forwards[OF 2] have "forwards t1 t2 c2" by simp
    from forwards_trans[OF f1[unfolded True] this] have f2: "forwards (calls s) t2 c2" .
    show ?thesis
    proof (cases "c2 = 0")
      case False
      with rc True 1 2 f2 show ?thesis
        by (simp add: design_power_check_def Let_def fail_ok)
    next
      case c2: True
      with rc True 1 2 f2 show ?thesis
        using check_ok[of s "?s1\<lparr>w_rc := w2, calls := t2\<rparr>" orc]
        by (simp add: design_power_check_def Let_def split: if_splits)
    qed
  qed
qed

lemma design_before_loops_ok: "step_ok orc (calls s) (design_before_loops orc s)"
  unfolding design_before_loops_def
  using design_efficiencies_ok[of orc "set_pressures s"]
  by (auto intro!: then_do_ok design_turbomachinery_ok design_power_check_ok)

lemma hxr_continue_ok:
  assumes "calculate_hxr_UA_1 orc a (r0, calls s) = (hx, tr')" and "hx_error_code hx = 11"
    and "calls s1 = tr'"
  shows "step_ok orc (calls s) (Continue s1)"
  using hxr_forwards[OF assms(1)] assms(2,3)
  by (auto simp: step_ok_def goes_on_def)

lemma hxr_next_ok:
  assumes "calculate_hxr_UA_1 orc a (r0, calls s) = (hx, tr')" and "hx_error_code hx = 0"
    and "calls s1 = tr'"
  shows "step_ok orc (calls s) (Next s1)"
  using hxr_forwards[OF assms(1)] assms(2,3)
  by (auto simp: step_ok_def goes_on_def intro: calls_ok_quiet)

lemma hxr_fail_ok:
  assumes "calculate_hxr_UA_1 orc a (r0, calls s) = (hx, tr')" and "hx_error_code hx \<noteq> 0"
    and "hx_error_code hx \<noteq> 11" and "calls s1 = tr'" and "error_code s1 = hx_error_code hx"
  shows "step_ok orc (calls s) (Return s1)"
  using hxr_step_ok[OF assms(1) assms(4) assms(4) assms(4) assms(5)] assms(2,3)
  by (simp add: step_ok_def)

lemma T9_LT_UA_ok: "step_ok orc (calls s) (T9_LT_UA orc s)"
proof (cases "m_UA_LT (ms_des_par s) < Fin (1 / 10 ^ 12)")
  case True
  then show ?thesis
    apply (simp add: T9_LT_UA_def Let_def fail_def split: prod.splits)
    apply (intro allI impI conjI)
    apply (erule hxr_continue_ok hxr_next_ok hxr_fail_ok; simp)+
    done
next
  case False
  then show ?thesis
    apply (simp add: T9_LT_UA_def Let_def fail_def split: prod.splits)
    apply (intro allI impI conjI)
    apply (erule hxr_continue_ok hxr_next_ok hxr_fail_ok; simp)+
    done
qed

lemma T8_HT_UA_ok: "step_ok orc (calls s) (T8_HT_UA orc s)"
proof (cases "m_UA_HT (ms_des_par s) < Fin (1 / 10 ^ 12)")
  case True
  then show ?thesis
    apply (simp add: T8_HT_UA_def T8_bisect_up_def Let_def fail_def split: prod.splits)
    apply (intro allI impI conjI)
    apply (erule hxr_continue_ok hxr_next_ok hxr_fail_ok; simp)+
    done
next
  case False
  then show ?thesis
    apply (simp add: T8_HT_UA_def T8_bisect_up_def Let_def fail_def split: prod.splits)
    apply (intro allI impI conjI)
    apply (erule hxr_continue_ok hxr_next_ok hxr_fail_ok; simp)+
    done
qed

lemma T8_state8_ok: "step_ok orc (calls s) (T8_state8 orc s)"
proof -
  obtain c p t where 1: "call_TP orc (temp_last s 8) (pres_last s 8) (calls s) = (c, p, t)"
    by (metis prod_cases3)
  from forwards_TP[OF 1] 1 show ?thesis
    by (cases "c = 0") (simp_all add: T8_state8_def Let_def fail_ok next_ok)
qed

lemma T8_state3_ok: "step_ok orc (calls s) (T8_state3 orc s)"
proof -
  let ?s = "set_enth_last 3 (enth_last s 2 + Q_dot_LT s / m_dot_mc s) s"
  obtain c p t where 1: "call_PH orc (pres_last ?s 3) (enth_last ?s 3) (calls ?s) = (c, p, t)"
    by (metis prod_cases3)
  from forwards_PH[OF 1] have "forwards (calls s) t c" by simp
  with 1 show ?thesis
    by (cases "c = 0") (simp_all add: T8_state3_def Let_def fail_ok next_ok)
qed

lemma design_state5_ok: "step_ok orc (calls s) (design_state5 orc s)"
proof -
  let ?s = "set_enth_last 5 (enth_last s 4 + Q_dot_HT s / m_dot_t s) s"
  obtain c p t where 1: "call_PH orc (pres_last ?s 5) (enth_last ?s 5) (calls ?s) = (c, p, t)"
    by (metis prod_cases3)
  from forwards_PH[OF 1] have "forwards (calls s) t c" by simp
  with 1 show ?thesis
    by (cases "c = 0") (simp_all add: design_state5_def Let_def fail_ok next_ok)
qed

lemma T8_mixing_valve_ok: "step_ok orc (calls s) (T8_mixing_valve orc s)"
proof (cases "m_recomp_frac (ms_des_par s) \<ge> Fin (1 / 10 ^ 12)")
  case False
  then show ?thesis
    by (simp add: T8_mixing_valve_def Let_def same_ok)
next
  case True
  let ?s = "set_enth_last 4 ((1 - m_recomp_frac (ms_des_par s)) * enth_last s 3
                         + m_recomp_frac (ms_des_par s) * enth_last s 10) s"
  obtain c p t where 1: "call_PH orc (pres_last ?s 4) (enth_last ?s 4) (calls ?s) = (c, p, t)"
    by (metis prod_cases3)
  from forwards_PH[OF 1] have "forwards (calls s) t c" by simp
  with 1 True show ?thesis
    by (cases "c = 0") (simp_all add: T8_mixing_valve_def Let_def fail_ok next_ok)
qed

lemma T9_recompressor_ok: "step_ok orc (calls s) (T9_recompressor orc s)"
proof (cases "m_recomp_frac (ms_des_par s) \<ge> Fin (1 / 10 ^ 12)")
  case False
  let ?s = "s\<lparr>w_rc := 0\<rparr>"
  obtain c p t where 1: "call_TP orc (temp_last ?s 9) (pres_last ?s 9) (calls ?s) = (c, p, t)"
    by (metis prod_cases3)
  from forwards_TP[OF 1] have "forwards (calls s) t c" by simp
  with 1 False show ?thesis
    by (cases "c = 0") (simp_all add: T9_recompressor_def Let_def fail_ok next_ok)
next
  case rc: True
  obtain c1 e1 t1 where 1: "isentropic_efficiency orc (m_eta_rc (ms_des_par s)) (temp_last s 9)
     (pres_last s 9) (pres_last s 10) True (eta_rc_isen s) (calls s) = (c1, e1, t1)"
    by (metis prod_cases3)
  note f1 = isentropic_efficiency_forwards[OF 1]
  show ?thesis
  proof (cases "c1 = 0")
    case False
    with rc 1 f1 show ?thesis
      by (simp add: T9_recompressor_def Let_def fail_ok)
  next
    case True
    let ?s1 = "s\<lparr>eta_rc_isen := e1, calls := t1\<rparr>"
    obtain c2 w2 s2 where 2: "turbomachinery_at orc 9 10 e1 True (w_rc ?s1) ?s1 = (c2, w2, s2)"
      by (metis prod_cases3)
    from turbomachinery_at_forwards[OF 2] have "forwards t1 (calls s2) c2" by simp
    from forwards_trans[OF f1[unfolded True] this] have f2: "forwards (calls s) (calls s2) c2" .
    from rc True 1 2 f2 show ?thesis
      by (cases "c2 = 0") (simp_all add: T9_recompressor_def Let_def fail_ok next_ok)
  qed
qed

lemma T9_mass_flow_ok: "step_ok orc (calls s) (T9_mass_flow s)"
  by (rule same_ok) (simp add: T9_mass_flow_def Let_def fail_def)

lemma T8_second_law_ok: "step_ok orc (calls s) (T8_second_law s)"
  by (rule same_ok) (simp add: T8_second_law_def T8_bisect_up_def Let_def)

lemma T9_converge_ok: "step_ok orc (calls s) (T9_converge s)"
  by (rule same_ok) (simp add: T9_converge_def Let_def)

lemma T8_converge_ok: "step_ok orc (calls s) (T8_converge s)"
  by (rule same_ok) (simp add: T8_converge_def Let_def)

lemma T9_init_calls [simp]: "calls (T9_init s) = calls s"
  by (simp add: T9_init_def Let_def)

lemma T8_init_calls [simp]: "calls (T8_init s) = calls s"
  by (simp add: T8_init_def Let_def)

lemma T9_body_ok: "step_ok orc (calls s) (T9_body orc i s)"
  unfolding T9_body_def
  by (intro then_do_ok T9_recompressor_ok T9_mass_flow_ok T9_LT_UA_ok T9_converge_ok)

lemma T9_solve_ok: "step_ok orc (calls s) (T9_solve orc s)"
proof -
  obtain k x where L: "for_loop max_iter (T9_body orc) 0 (T9_init s) = (k, x)" by force
  from for_loop_ok[OF T9_body_ok L]
  have Q: "case x of Exited j s' \<Rightarrow> goes_on (calls s) s'
           | Returned r \<Rightarrow> failure_reported orc (calls s) r" by (cases x) simp_all
  show ?thesis
  proof (cases x)
    case (Returned r)
    with Q L show ?thesis by (simp add: T9_solve_def T9_loop_def step_ok_def)
  next
    case (Exited j s')
    with Q have g: "goes_on (calls s) s'" by simp
    have "failure_reported orc (calls s) (s'\<lparr>error_code := 31\<rparr>)"
      by (rule quiet_return[OF g]) simp
    with g Exited L show ?thesis by (simp add: T9_solve_def T9_loop_def step_ok_def fail_def)
  qed
qed

lemma T8_body_ok: "step_ok orc (calls s) (T8_body orc i s)"
  unfolding T8_body_def
  by (intro then_do_ok T8_state8_ok T9_solve_ok T8_state3_ok T8_mixing_valve_ok
      T8_second_law_ok T8_HT_UA_ok T8_converge_ok)

lemma T8_solve_ok: "step_ok orc (calls s) (T8_solve orc s)"
proof -
  obtain k x where L: "for_loop max_iter (T8_body orc) 0 (T8_init s) = (k, x)" by force
  from for_loop_ok[OF T8_body_ok L]
  have Q: "case x of Exited j s' \<Rightarrow> goes_on (calls s) s'
           | Returned r \<Rightarrow> failure_reported orc (calls s) r" by (cases x) simp_all
  show ?thesis
  proof (cases x)
    case (Returned r)
    with Q L show ?thesis by (simp add: T8_solve_def T8_loop_def step_ok_def)
  next
    case (Exited j s')
    with Q have g: "goes_on (calls s) s'" by simp
    have "failure_reported orc (calls s) (s'\<lparr>error_code := 35\<rparr>)"
      by (rule quiet_return[OF g]) simp
    with g Exited L show ?thesis by (simp add: T8_solve_def T8_loop_def step_ok_def fail_def)
  qed
qed

lemma design_metrics_calls [simp]: "calls (design_metrics s) = calls s"
  by (simp add: design_metrics_def Let_def)

lemma design_core_standard_steps_ok: "step_ok orc (calls s) (design_core_standard_steps orc s)"
  unfolding design_core_standard_steps_def
  by (intro then_do_ok design_before_loops_ok T8_solve_ok design_state5_ok same_ok) simp

lemma dcs_entry_calls [simp]: "calls (dcs_entry c ec tr) = tr"
  by (simp add: dcs_entry_def cycle.extend_def dcs.fields_def)

lemma design_core_standard_reports:
  "failure_reported orc tr (design_core_standard orc c ec tr)"
proof -
  have s: "step_ok orc tr (design_core_standard_steps orc (dcs_entry c ec tr))"
    using design_core_standard_steps_ok[of orc "dcs_entry c ec tr"] by simp
  show ?thesis
  proof (cases "design_core_standard_steps orc (dcs_entry c ec tr)")
    case (Return r)
    with s show ?thesis by (simp add: design_core_standard_def step_ok_def)
  next
    case (Next r)
    with s have "goes_on tr r" by (simp add: step_ok_def)
    from quiet_return[OF this refl] Next show ?thesis by (simp add: design_core_standard_def)
  next
    case (Continue r)
    with s have "goes_on tr r" by (simp add: step_ok_def)
    from quiet_return[OF this refl] Continue show ?thesis by (simp add: design_core_standard_def)
  next
    case (Break r)
    with s have "goes_on tr r" by (simp add: step_ok_def)
    from quiet_return[OF this refl] Break show ?thesis by (simp add: design_core_standard_def)
  qed
qed

lemma hxr_cold_inlet_forwarded:
  assumes "reaches_oracle a" and "fst (CO2_TP orc (T_c_in a) (P_c_in a)) \<noteq> 0"
  shows "calculate_hxr_UA_1 orc a (r, tr) =
           (r\<lparr>hx_error_code := fst (CO2_TP orc (T_c_in a) (P_c_in a))\<rparr>,
            tr @ [TP (T_c_in a) (P_c_in a) (fst (CO2_TP orc (T_c_in a) (P_c_in a)))])"
  using assms
  by (auto simp: calculate_hxr_UA_1_def reaches_oracle_def call_TP_def split: prod.splits)

lemma hxr_hot_inlet_nine:
  assumes "reaches_oracle a" and "fst (CO2_TP orc (T_c_in a) (P_c_in a)) = 0"
    and "fst (CO2_TP orc (T_h_in a) (P_h_in a)) \<noteq> 0"
  shows "calculate_hxr_UA_1 orc a (r, tr) =
           (r\<lparr>hx_error_code := 9\<rparr>,
            tr @ [TP (T_c_in a) (P_c_in a) 0,
                  TP (T_h_in a) (P_h_in a) (fst (CO2_TP orc (T_h_in a) (P_h_in a)))])"
  using assms
  by (auto simp: calculate_hxr_UA_1_def reaches_oracle_def call_TP_def split: prod.splits)

lemma hxr_node_hot_twelve:
  assumes "fst (CO2_PH orc (P_h_in a - of_i i * (P_h_in a - P_h_out a) / of_i (N - 1))
                 (h_h_in e - of_i i * (h_h_in e - h_h_out e) / of_i (N - 1))) \<noteq> 0"
  shows "hxr_node orc a e N i (p, r, tr) =
           Return (r\<lparr>hx_error_code := 12\<rparr>,
             tr @ [PH (P_h_in a - of_i i * (P_h_in a - P_h_out a) / of_i (N - 1))
                      (h_h_in e - of_i i * (h_h_in e - h_h_out e) / of_i (N - 1))
                      (fst (CO2_PH orc (P_h_in a - of_i i * (P_h_in a - P_h_out a) / of_i (N - 1))
                              (h_h_in e - of_i i * (h_h_in e - h_h_out e) / of_i (N - 1))))])"
  using assms
  by (auto simp: hxr_node_def call_PH_def Let_def split: prod.splits)

lemma hxr_node_cold_thirteen:
  assumes "fst (CO2_PH orc (P_h_in a - of_i i * (P_h_in a - P_h_out a) / of_i (N - 1))
                 (h_h_in e - of_i i * (h_h_in e - h_h_out e) / of_i (N - 1))) = 0"
    and "fst (CO2_PH orc (P_c_out a + of_i i * (P_c_in a - P_c_out a) / of_i (N - 1))
                 (h_c_out e + of_i i * (h_c_in e - h_c_out e) / of_i (N - 1))) \<noteq> 0"
  shows "hxr_node orc a e N i (p, r, tr) =
           Return (r\<lparr>hx_error_code := 13\<rparr>,
             tr @ [PH (P_h_in a - of_i i * (P_h_in a - P_h_out a) / of_i (N - 1))
                      (h_h_in e - of_i i * (h_h_in e - h_h_out e) / of_i (N - 1)) 0,
                   PH (P_c_out a + of_i i * (P_c_in a - P_c_out a) / of_i (N - 1))
                      (h_c_out e + of_i i * (h_c_in e - h_c_out e) / of_i (N - 1))
                      (fst (CO2_PH orc (P_c_out a + of_i i * (P_c_in a - P_c_out a) / of_i (N - 1))
                              (h_c_out e + of_i i * (h_c_in e - h_c_out e) / of_i (N - 1))))])"
  using assms
  by (auto simp: hxr_node_def call_PH_def Let_def split: prod.splits)

lemma T9_LT_UA_reads:
  "(hx_error_code (fst (LT_UA_call orc s)) = 11 \<longrightarrow>
      (\<exists>s'. T9_LT_UA orc s = Continue s' \<and> error_code s' = error_code s \<and>
            calls s' = snd (LT_UA_call orc s))) \<and>
   (hx_error_code (fst (LT_UA_call orc s)) \<noteq> 0 \<and> hx_error_code (fst (LT_UA_call orc s)) \<noteq> 11 \<longrightarrow>
      (\<exists>s'. T9_LT_UA orc s = Return s' \<and> error_code s' = hx_error_code (fst (LT_UA_call orc s)) \<and>
            calls s' = snd (LT_UA_call orc s)))"
  by (cases "m_UA_LT (ms_des_par s) < Fin (1 / 10 ^ 12)")
     (simp_all add: T9_LT_UA_def LT_UA_call_def Let_def fail_def split: prod.splits)

lemma T8_HT_UA_reads:
  "(hx_error_code (fst (HT_UA_call orc s)) = 11 \<longrightarrow>
      (\<exists>s'. T8_HT_UA orc s = Continue s' \<and> error_code s' = error_code s \<and>
            calls s' = snd (HT_UA_call orc s))) \<and>
   (hx_error_code (fst (HT_UA_call orc s)) \<noteq> 0 \<and> hx_error_code (fst (HT_UA_call orc s)) \<noteq> 11 \<longrightarrow>
      (\<exists>s'. T8_HT_UA orc s = Return s' \<and> error_code s' = hx_error_code (fst (HT_UA_call orc s)) \<and>
            calls s' = snd (HT_UA_call orc s)))"
  by (cases "m_UA_HT (ms_des_par s) < Fin (1 / 10 ^ 12)")
     (simp_all add: T8_HT_UA_def T8_bisect_up_def HT_UA_call_def Let_def fail_def split: prod.splits)

subsection \<open>What the caller sees of a failing oracle call\<close>



text \<open>
  Three runs. On \<open>des_pinch\<close> the oracle \<open>cold_only_oracle\<close> fails with the code 3 at the
  turbine inlet, and the solve returns 3. On \<open>hx_duty\<close> it fails with 3 at the hot inlet
  and \<^verbatim>\<open>calculate_hxr_UA_1\<close> returns 9. On \<open>des_up\<close> the oracle \<open>eleven_oracle\<close> fails with
  the code 11 at the cold inlet of the low-temperature recuperator, and the first pass of
  the inner loop ends with \<^verbatim>\<open>continue\<close> and the error code 0.
\<close>

lemma eleven_simps [simp]:
  "CO2_TP eleven_oracle = eleven_TP" "CO2_PS eleven_oracle = toy_up_PS"
  "CO2_PH eleven_oracle = toy_up_PH"
  by (simp_all add: eleven_oracle_def)

lemma cold_only_run:
  "calls (design_core_standard cold_only_oracle (new_cycle des_pinch) 0 []) =
     [TP (Fin 300) (Fin 100) 0, PS (Fin 400) (Fin 3) 0, PH (Fin 400) (Fin (5998 / 5)) 0,
      TP (Fin 4320) (Fin 360) 3]"
  by (simp add: cold_only_TP_def full_defs run_defs eval
      cong: eval_cong then_do_cong final_state_cong)

lemma eleven_first:
  "T9_body eleven_oracle 0 eleven_T = Continue eleven_T1 \<and> error_code eleven_T1 = 0 \<and>
   last (calls eleven_T1) = TP (Fin 1200) (Fin 400) 11"
  by (simp add: eleven_T1_def eleven_T_def eleven_TP_def run_defs eval
      cong: eval_cong then_do_cong final_state_cong)

lemma failure_reported_last:
  assumes "failure_reported orc [] s" and "calls s = cs @ [c]"
    and "returned_code c \<noteq> 0" and "returned_code c \<noteq> 11"
  shows "error_code s = returned_code c \<or>
         ((error_code s = 9 \<or> error_code s = 12 \<or> error_code s = 13) \<and> ends_in_hxr orc s)"
  using assms by (auto simp: failure_reported_def)

lemma cold_only_code:
  "error_code (design_core_standard cold_only_oracle (new_cycle des_pinch) 0 []) = 3"
  by (simp add: cold_only_TP_def full_defs run_defs eval
      cong: eval_cong then_do_cong final_state_cong)


section \<open>The objective function\<close>

lemmas dpe_defs = dpe_checks_def dpe_P_mc_out_def dpe_PR_mc_def dpe_P_mc_in_def
  dpe_recomp_frac_def dpe_LT_frac_def dpe_entry_def

text \<open>
  What the checks reject. With the four variables free, a pressure ratio above 50, an inlet
  pressure at or above the outlet pressure, a negative recompression fraction and a
  conductance share outside \<open>[0, 1]\<close> each make the function return 0 without a call of
  \<^verbatim>\<open>design_core\<close> and without an oracle call.
\<close>

lemma design_point_eta_rejects:
  assumes "\<not> m_fixed_P_mc_out (ms_opt_des_par c)" and "\<not> m_fixed_PR_mc (ms_opt_des_par c)"
    and "\<not> m_fixed_recomp_frac (ms_opt_des_par c)" and "\<not> m_fixed_LT_frac (ms_opt_des_par c)"
    and "x = [P_mc_out, PR_mc, recomp_frac, LT_frac]"
    and "PR_mc > Fin 50 \<or> P_mc_out / PR_mc \<ge> P_mc_out \<or> recomp_frac < 0
           \<or> LT_frac > 1 \<or> LT_frac < 0"
  shows "eta_returned (design_point_eta orc x c tr) = 0 \<and>
         solves (design_point_eta orc x c tr) = 0 \<and>
         calls_left (design_point_eta orc x c tr) = tr"
  using assms
  by (auto simp add: design_point_eta_def dpe_defs cycle.extend_def dpe.fields_def Let_def
      simp del: dbl_consts)


lemmas obj_defs = design_point_eta_def dpe_defs x_recomp_high_def x_LT_high_def
  free_cycle_def opt_free_def opt_unset_def new_cycle_def cycle.extend_def dpe.fields_def


section \<open>The wind farm\<close>

subsection \<open>What stays of the object\<close>

lemma turbine_power_object:
  "snd (snd (turbine_power env v d wpc)) =
     (if m_dShearExponent wpc > Fin 1 then wpc\<lparr>m_dShearExponent := Fin 1 / Fin 7\<rparr> else wpc)"
  by (simp add: turbine_power_def Let_def)

lemma turbine_power_count [simp]:
  "m_iNumberOfTurbinesInFarm (snd (snd (turbine_power env v d wpc))) = m_iNumberOfTurbinesInFarm wpc"
  "m_iWakeModelChoice (snd (snd (turbine_power env v d wpc))) = m_iWakeModelChoice wpc"
  by (simp_all add: turbine_power_object)

lemma fold_keeps:
  assumes "\<And>x s. P s \<Longrightarrow> P (f x s)" and "P s"
  shows "P (fold f xs s)"
  using assms(2) by (induction xs arbitrary: s) (simp_all add: assms(1))

lemma pat_quinlan_mod_count:
  "m_iNumberOfTurbinesInFarm (snd (wake_calculations_pat_quinlan_mod env d D C (A, wpc))) =
     m_iNumberOfTurbinesInFarm wpc"
proof -
  have "m_iNumberOfTurbinesInFarm (snd (fold (pat_quinlan_mod_turbine env d D C) xs (A, wpc))) =
          m_iNumberOfTurbinesInFarm wpc" for xs
    by (rule fold_keeps[where P = "\<lambda>s. m_iNumberOfTurbinesInFarm (snd s) = m_iNumberOfTurbinesInFarm wpc"])
       (auto simp: pat_quinlan_mod_turbine_def Let_def split: prod.splits
          dest: arg_cong[where f = "\<lambda>r. m_iNumberOfTurbinesInFarm (snd (snd r))"])
  then show ?thesis by (simp add: wake_calculations_pat_quinlan_mod_def)
qed

lemma Park_count:
  "m_iNumberOfTurbinesInFarm (snd (wake_calculations_Park env d D C (A, wpc))) =
     m_iNumberOfTurbinesInFarm wpc"
proof -
  have "m_iNumberOfTurbinesInFarm (snd (fold (Park_turbine env d D C) xs (A, wpc))) =
          m_iNumberOfTurbinesInFarm wpc" for xs
    by (rule fold_keeps[where P = "\<lambda>s. m_iNumberOfTurbinesInFarm (snd s) = m_iNumberOfTurbinesInFarm wpc"])
       (auto simp: Park_turbine_def Let_def split: prod.splits
          dest: arg_cong[where f = "\<lambda>r. m_iNumberOfTurbinesInFarm (snd (snd r))"])
  then show ?thesis by (simp add: wake_calculations_Park_def)
qed

lemma pat_quinlan_old_count:
  "m_iNumberOfTurbinesInFarm (snd (wake_calculations_pat_quinlan_old env d D C (A, wpc))) =
     m_iNumberOfTurbinesInFarm wpc"
proof -
  have pair: "m_iNumberOfTurbinesInFarm (snd (fold (pat_quinlan_old_pair env d D C i) xs s)) =
          m_iNumberOfTurbinesInFarm wpc"
    if "m_iNumberOfTurbinesInFarm (snd s) = m_iNumberOfTurbinesInFarm wpc" for xs i s
    by (rule fold_keeps[where P = "\<lambda>s. m_iNumberOfTurbinesInFarm (snd s) = m_iNumberOfTurbinesInFarm wpc"])
       (auto simp: that pat_quinlan_old_pair_def Let_def split: prod.splits
          dest: arg_cong[where f = "\<lambda>r. m_iNumberOfTurbinesInFarm (snd (snd r))"])
  have "m_iNumberOfTurbinesInFarm (snd (fold (\<lambda>i. fold (pat_quinlan_old_pair env d D C i) (g i)) xs (A, wpc))) =
          m_iNumberOfTurbinesInFarm wpc" for xs g
    by (rule fold_keeps[where P = "\<lambda>s. m_iNumberOfTurbinesInFarm (snd s) = m_iNumberOfTurbinesInFarm wpc"])
       (simp_all add: pair)
  then show ?thesis by (simp add: wake_calculations_pat_quinlan_old_def Let_def)
qed

lemma run_wake_model_count:
  "m_iNumberOfTurbinesInFarm (fst (snd (run_wake_model env d D C (A, wpc)))) =
     m_iNumberOfTurbinesInFarm wpc"
  using pat_quinlan_mod_count[of env d D C A wpc] Park_count[of env d D C A wpc]
    pat_quinlan_old_count[of env d D C A wpc]
  by (auto simp: run_wake_model_def split: prod.splits)

lemma run_wake_model_ok:
  assumes "m_iWakeModelChoice wpc = PAT_QUINLAN_WAKE_MODEL env
         \<or> m_iWakeModelChoice wpc = PARK_WAKE_MODEL env \<or> m_iWakeModelChoice wpc = OLD_PQ env"
    and "m_iWakeModelChoice wpc \<noteq> SIMPLE_EDDY_VISCOSITY_WAKE_MODEL env"
  shows "snd (snd (run_wake_model env d D C (A, wpc)))"
  using assms by (auto simp: run_wake_model_def split: prod.splits)

lemmas wind_toy = toy_wind_env_def farm_two_def farm_one_def farm_none_def earlier_outputs_def
  toy_pow_def turbine_power_def max_of_def min_of_def

lemmas wind_cong = let_weak_cong if_weak_cong prod.case_cong_weak

subsection \<open>The number of turbines out of range\<close>

text \<open>
  Claim C10. When the number of turbines is below 1 or above \<^verbatim>\<open>MAX_WIND_TURBINES\<close>,
  \<^verbatim>\<open>wind_power\<close> returns 0 with the farm power and the five arrays as the caller handed
  them over; of the object it has changed the error details only, and it has not called
  \<^verbatim>\<open>turbine_power\<close>.
\<close>

theorem wind_power_count_out_of_range:
  assumes "m_iNumberOfTurbinesInFarm wpc < 1 \<or> m_iNumberOfTurbinesInFarm wpc > MAX_WIND_TURBINES env"
  shows "wind_power env fWindSpeed fWindDirectionDegrees dAirPressureAtm TdryC out wpc =
           (0, out, wpc\<lparr>m_sErrDetails :=
              ''The number of wind turbines was greater than the maximum allowed in the wake model.''\<rparr>)"
  using assms by (auto simp: wind_power_def)

theorem wind_power_count_out_of_range_witness:
  "wind_power toy_wind_env (Fin 12) (Fin 0) (Fin 1) (Fin 15) earlier_outputs farm_none =
     (0, earlier_outputs, farm_none\<lparr>m_sErrDetails :=
        ''The number of wind turbines was greater than the maximum allowed in the wake model.''\<rparr>) \<and>
   wind_power toy_wind_env (Fin 12) (Fin 0) (Fin 1) (Fin 15) earlier_outputs
       (farm_two\<lparr>m_iNumberOfTurbinesInFarm := 301\<rparr>) =
     (0, earlier_outputs, farm_two\<lparr>m_iNumberOfTurbinesInFarm := 301, m_sErrDetails :=
        ''The number of wind turbines was greater than the maximum allowed in the wake model.''\<rparr>)"
  using wind_power_count_out_of_range[of farm_none toy_wind_env "Fin 12" "Fin 0" "Fin 1" "Fin 15" earlier_outputs]
    wind_power_count_out_of_range[of "farm_two\<lparr>m_iNumberOfTurbinesInFarm := 301\<rparr>" toy_wind_env
      "Fin 12" "Fin 0" "Fin 1" "Fin 15" earlier_outputs]
  by (simp add: farm_none_def farm_two_def toy_wind_env_def)

subsection \<open>No power at the first turbine\<close>

text \<open>
  With two turbines or more, a power of the first call of \<^verbatim>\<open>turbine_power\<close> that is zero
  or below makes \<^verbatim>\<open>wind_power\<close> return the number of turbines with the farm power 0 and
  the five arrays as the caller handed them over.
\<close>

lemma zero_power_returns:
  assumes "\<not> (m_iNumberOfTurbinesInFarm wpc > MAX_WIND_TURBINES env \<or> m_iNumberOfTurbinesInFarm wpc < 1)"
    and "\<not> m_iNumberOfTurbinesInFarm wpc < 2"
    and "fst (turbine_power env fWindSpeed
           ((dAirPressureAtm * physics_Pa_PER_Atm env) /
              (physics_R_Gas env * physics_CelciusToKelvin env TdryC)) wpc) \<le> 0"
  shows "wind_power env fWindSpeed fWindDirectionDegrees dAirPressureAtm TdryC out wpc =
           (m_iNumberOfTurbinesInFarm wpc, out\<lparr>FarmP := 0\<rparr>,
            snd (snd (turbine_power env fWindSpeed
              ((dAirPressureAtm * physics_Pa_PER_Atm env) /
                 (physics_R_Gas env * physics_CelciusToKelvin env TdryC)) wpc)))"
proof -
  obtain P T w where tp: "turbine_power env fWindSpeed
           ((dAirPressureAtm * physics_Pa_PER_Atm env) /
              (physics_R_Gas env * physics_CelciusToKelvin env TdryC)) wpc = (P, T, w)"
    by (metis prod_cases3)
  from turbine_power_count(1)[of env fWindSpeed _ wpc] tp
  have "m_iNumberOfTurbinesInFarm w = m_iNumberOfTurbinesInFarm wpc" by (metis snd_conv)
  with assms tp show ?thesis
    by (simp add: wind_power_def Let_def)
qed

lemma low_wind:
  "turbine_power toy_wind_env (Fin 2)
     ((Fin 1 * physics_Pa_PER_Atm toy_wind_env) /
        (physics_R_Gas toy_wind_env * physics_CelciusToKelvin toy_wind_env (Fin 15))) farm_two =
   (Fin 0, Fin 0, farm_two)"
  by (simp add: wind_toy Let_def numeral_eq_Suc power_curve_index.simps cong: wind_cong)

text \<open>
  Claim C7 fails for the per-turbine outputs. The early return of lines 75-79, under the
  comment that the power output of the other turbines will be zero too, assigns
  \<^verbatim>\<open>*FarmP = 0.0\<close> and nothing else, where the path that goes on sets \<^verbatim>\<open>Power[i] = 0.0\<close>
  for every turbine (line 95). On \<open>farm_two\<close> with a wind speed of 2, below the cut-in
  speed, the power curve gives 0 and \<^verbatim>\<open>wind_power\<close> returns 2 with the farm power 0 and
  with the arrays of \<open>earlier_outputs\<close> untouched: the power of the two turbines reads 900
  and 700.
\<close>

theorem zero_power_leaves_arrays:
  "fst (turbine_power toy_wind_env (Fin 2)
     ((Fin 1 * physics_Pa_PER_Atm toy_wind_env) /
        (physics_R_Gas toy_wind_env * physics_CelciusToKelvin toy_wind_env (Fin 15))) farm_two) = Fin 0 \<and>
   wind_power toy_wind_env (Fin 2) (Fin 0) (Fin 1) (Fin 15) earlier_outputs farm_two =
     (2, earlier_outputs\<lparr>FarmP := Fin 0\<rparr>, farm_two) \<and>
   Power (fst (snd (wind_power toy_wind_env (Fin 2) (Fin 0) (Fin 1) (Fin 15) earlier_outputs farm_two))) =
     [Fin 900, Fin 700]"
proof -
  have w: "wind_power toy_wind_env (Fin 2) (Fin 0) (Fin 1) (Fin 15) earlier_outputs farm_two =
     (2, earlier_outputs\<lparr>FarmP := Fin 0\<rparr>, farm_two)"
    using zero_power_returns[where wpc = farm_two and env = toy_wind_env and fWindSpeed = "Fin 2"
        and dAirPressureAtm = "Fin 1" and TdryC = "Fin 15" and fWindDirectionDegrees = "Fin 0"
        and out = earlier_outputs]
    by (simp add: low_wind) (simp add: farm_two_def toy_wind_env_def)
  show ?thesis by (simp add: w low_wind) (simp add: earlier_outputs_def)
qed

subsection \<open>The value returned\<close>

lemma one_turbine_returns:
  assumes "\<not> (m_iNumberOfTurbinesInFarm wpc > MAX_WIND_TURBINES env \<or> m_iNumberOfTurbinesInFarm wpc < 1)"
    and "m_iNumberOfTurbinesInFarm wpc < 2"
  shows "fst (wind_power env fWindSpeed fWindDirectionDegrees dAirPressureAtm TdryC out wpc) = 1 \<and>
         m_sErrDetails (snd (snd (wind_power env fWindSpeed fWindDirectionDegrees dAirPressureAtm
            TdryC out wpc))) = m_sErrDetails wpc"
proof -
  let ?d = "(dAirPressureAtm * physics_Pa_PER_Atm env) /
              (physics_R_Gas env * physics_CelciusToKelvin env TdryC)"
  obtain P T w where tp: "turbine_power env fWindSpeed ?d wpc = (P, T, w)"
    by (metis prod_cases3)
  from turbine_power_object[of env fWindSpeed ?d wpc] tp
  have "w = (if m_dShearExponent wpc > Fin 1 then wpc\<lparr>m_dShearExponent := Fin 1 / Fin 7\<rparr> else wpc)"
    by simp
  then have "m_iNumberOfTurbinesInFarm w = m_iNumberOfTurbinesInFarm wpc"
    "m_sErrDetails w = m_sErrDetails wpc" by (auto split: if_splits)
  with assms tp show ?thesis
    by (simp add: wind_power_def Let_def)
qed

lemma wind_power_nonzero:
  assumes "fst (wind_power env fWindSpeed fWindDirectionDegrees dAirPressureAtm TdryC out wpc) \<noteq> 0"
  shows "fst (wind_power env fWindSpeed fWindDirectionDegrees dAirPressureAtm TdryC out wpc) =
           m_iNumberOfTurbinesInFarm wpc \<and>
         1 \<le> m_iNumberOfTurbinesInFarm wpc \<and> m_iNumberOfTurbinesInFarm wpc \<le> MAX_WIND_TURBINES env"
proof -
  let ?d = "(dAirPressureAtm * physics_Pa_PER_Atm env) /
              (physics_R_Gas env * physics_CelciusToKelvin env TdryC)"
  obtain P T w where tp: "turbine_power env fWindSpeed ?d wpc = (P, T, w)"
    by (metis prod_cases3)
  from turbine_power_count(1)[of env fWindSpeed ?d wpc] tp
  have n: "m_iNumberOfTurbinesInFarm w = m_iNumberOfTurbinesInFarm wpc" by simp
  have rw: "m_iNumberOfTurbinesInFarm w' = m_iNumberOfTurbinesInFarm wpc"
    if "run_wake_model env d D C (A, w) = (A', w', ok)" for d D C A A' w' ok
    using run_wake_model_count[of env d D C A w] that by (simp add: n)
  from assms tp n show ?thesis
    by (auto simp: wind_power_def Let_def split: if_splits prod.splits dest: rw)
qed


lemma wake_model_returns_count:
  assumes "\<not> (m_iNumberOfTurbinesInFarm wpc > MAX_WIND_TURBINES env \<or> m_iNumberOfTurbinesInFarm wpc < 1)"
    and "m_iWakeModelChoice wpc = PAT_QUINLAN_WAKE_MODEL env
         \<or> m_iWakeModelChoice wpc = PARK_WAKE_MODEL env \<or> m_iWakeModelChoice wpc = OLD_PQ env"
    and "m_iWakeModelChoice wpc \<noteq> SIMPLE_EDDY_VISCOSITY_WAKE_MODEL env"
  shows "fst (wind_power env fWindSpeed fWindDirectionDegrees dAirPressureAtm TdryC out wpc) =
           m_iNumberOfTurbinesInFarm wpc"
proof -
  let ?d = "(dAirPressureAtm * physics_Pa_PER_Atm env) /
              (physics_R_Gas env * physics_CelciusToKelvin env TdryC)"
  obtain P T w where tp: "turbine_power env fWindSpeed ?d wpc = (P, T, w)"
    by (metis prod_cases3)
  from turbine_power_count[of env fWindSpeed ?d wpc] tp
  have n: "m_iNumberOfTurbinesInFarm w = m_iNumberOfTurbinesInFarm wpc"
    and m: "m_iWakeModelChoice w = m_iWakeModelChoice wpc" by simp_all
  have rw: "m_iNumberOfTurbinesInFarm w' = m_iNumberOfTurbinesInFarm wpc"
    if "run_wake_model env d D C (A, w) = (A', w', ok)" for d D C A A' w' ok
    using run_wake_model_count[of env d D C A w] that by (simp add: n)
  have ok: "ok" if "run_wake_model env d D C (A, w) = (A', w', ok)" for d D C A A' w' ok
    using run_wake_model_ok[of w env d D C A] assms(2,3) that by (simp add: m)
  from assms(1) tp n show ?thesis
    by (auto simp: wind_power_def Let_def split: if_splits prod.splits dest: rw ok)
qed

lemma unknown_wake_model_returns_zero:
  assumes "\<not> (m_iNumberOfTurbinesInFarm wpc > MAX_WIND_TURBINES env \<or> m_iNumberOfTurbinesInFarm wpc < 1)"
    and "\<not> m_iNumberOfTurbinesInFarm wpc < 2"
    and "\<not> fst (turbine_power env fWindSpeed
           ((dAirPressureAtm * physics_Pa_PER_Atm env) /
              (physics_R_Gas env * physics_CelciusToKelvin env TdryC)) wpc) \<le> 0"
    and "m_iWakeModelChoice wpc \<noteq> PAT_QUINLAN_WAKE_MODEL env"
    and "m_iWakeModelChoice wpc \<noteq> PARK_WAKE_MODEL env"
    and "m_iWakeModelChoice wpc \<noteq> SIMPLE_EDDY_VISCOSITY_WAKE_MODEL env"
    and "m_iWakeModelChoice wpc \<noteq> OLD_PQ env"
  shows "fst (wind_power env fWindSpeed fWindDirectionDegrees dAirPressureAtm TdryC out wpc) = 0 \<and>
         m_sErrDetails (snd (snd (wind_power env fWindSpeed fWindDirectionDegrees dAirPressureAtm
            TdryC out wpc))) =
           ''Unknown wake model encountered in wind_power_calculator::wind_power.''"
proof -
  let ?d = "(dAirPressureAtm * physics_Pa_PER_Atm env) /
              (physics_R_Gas env * physics_CelciusToKelvin env TdryC)"
  obtain P T w where tp: "turbine_power env fWindSpeed ?d wpc = (P, T, w)"
    by (metis prod_cases3)
  from turbine_power_count[of env fWindSpeed ?d wpc] tp
  have n: "m_iNumberOfTurbinesInFarm w = m_iNumberOfTurbinesInFarm wpc"
    and m: "m_iWakeModelChoice w = m_iWakeModelChoice wpc" by simp_all
  from assms tp n m show ?thesis
    by (simp add: wind_power_def run_wake_model_def Let_def split: prod.splits)
qed

lemma design_code:
  "fst (snd (design fin orc des c ec tr)) =
     (if error_code (design_core_standard orc (c\<lparr>ms_des_par := des\<rparr>) 0 tr) \<noteq> 0
      then error_code (design_core_standard orc (c\<lparr>ms_des_par := des\<rparr>) 0 tr)
      else fst (snd (fin (cycle.truncate (design_core_standard orc (c\<lparr>ms_des_par := des\<rparr>) 0 tr)) 0
                       (calls (design_core_standard orc (c\<lparr>ms_des_par := des\<rparr>) 0 tr)))))"
  by (simp add: design_def design_core_def Let_def split: prod.splits)

lemma eddy_viscosity_failure_returns_zero:
  assumes "\<not> (m_iNumberOfTurbinesInFarm wpc > MAX_WIND_TURBINES env \<or> m_iNumberOfTurbinesInFarm wpc < 1)"
    and "\<not> m_iNumberOfTurbinesInFarm wpc < 2"
    and "\<not> fst (turbine_power env fWindSpeed
           ((dAirPressureAtm * physics_Pa_PER_Atm env) /
              (physics_R_Gas env * physics_CelciusToKelvin env TdryC)) wpc) \<le> 0"
    and "m_iWakeModelChoice wpc \<noteq> PAT_QUINLAN_WAKE_MODEL env"
    and "m_iWakeModelChoice wpc \<noteq> PARK_WAKE_MODEL env"
    and "m_iWakeModelChoice wpc = SIMPLE_EDDY_VISCOSITY_WAKE_MODEL env"
    and "\<forall>w d D C A. \<not> fst (wake_calculations_EddyViscosity_Simple env w d D C A)"
  shows "fst (wind_power env fWindSpeed fWindDirectionDegrees dAirPressureAtm TdryC out wpc) = 0"
proof -
  let ?d = "(dAirPressureAtm * physics_Pa_PER_Atm env) /
              (physics_R_Gas env * physics_CelciusToKelvin env TdryC)"
  obtain P T w where tp: "turbine_power env fWindSpeed ?d wpc = (P, T, w)"
    by (metis prod_cases3)
  from turbine_power_count[of env fWindSpeed ?d wpc] tp
  have n: "m_iNumberOfTurbinesInFarm w = m_iNumberOfTurbinesInFarm wpc"
    and m: "m_iWakeModelChoice w = m_iWakeModelChoice wpc" by simp_all
  have ev: "\<not> ok" if "wake_calculations_EddyViscosity_Simple env w' d D C A = (ok, A', err)"
    for w' d D C A ok A' err
    using assms(7)[rule_format, of w' d D C A] that by simp
  from assms(1-6) tp n m show ?thesis
    by (auto simp: wind_power_def run_wake_model_def Let_def split: prod.splits dest: ev)
qed



end
